theory Spec2Isabelle
  imports Main "HOL-Library.Sublist"
begin

section \<open>JavaScript values and errors\<close>

text \<open>
  A thrown JavaScript error; the scripts only ever read its \<open>message\<close>.
\<close>

datatype js_error = JsError (message: string)

text \<open>
  Values as \<open>JSON.parse\<close> and property access produce them. A number is kept as the
  text JavaScript prints for it: the scripts only compare values with string literals
  and interpolate them into templates.
\<close>

datatype jsval = JUndefined | JNull | JBool bool | JNum string | JStr string
  | JArr "jsval list" | JObj "(string \<times> jsval) list"

definition squote :: string where
  "squote = [CHR 0x27]"

definition dquote :: string where
  "dquote = [CHR 0x22]"

text \<open>
  \<open>v.key\<close> for the keys the scripts read (\<open>version\<close>, \<open>nameShort\<close>,
  \<open>applicationName\<close>, \<open>dataFolderName\<close>, \<open>serverDataFolderName\<close>), none of which is a
  built-in property: reading a property of \<open>null\<close> or \<open>undefined\<close> throws a TypeError, an
  object gives its own property or \<open>undefined\<close>, every other value gives \<open>undefined\<close>.
\<close>

fun get_prop :: "jsval \<Rightarrow> string \<Rightarrow> js_error + jsval" where
  "get_prop JNull k =
     Inl (JsError (''Cannot read properties of null (reading '' @ squote @ k @ squote @ '')''))"
| "get_prop JUndefined k =
     Inl (JsError (''Cannot read properties of undefined (reading '' @ squote @ k @ squote @ '')''))"
| "get_prop (JObj kvs) k = Inr (case map_of kvs k of None \<Rightarrow> JUndefined | Some v \<Rightarrow> v)"
| "get_prop v k = Inr JUndefined"

text \<open>\<open>Array.prototype.join\<close> on already converted elements: the first error wins.\<close>

fun js_join :: "(js_error + string) list \<Rightarrow> js_error + string" where
  "js_join [] = Inr []"
| "js_join [r] = r"
| "js_join (r # rs) =
     (case r of Inl e \<Rightarrow> Inl e
      | Inr a \<Rightarrow> (case js_join rs of Inl e \<Rightarrow> Inl e | Inr b \<Rightarrow> Inr (a @ '','' @ b)))"

text \<open>
  The string a template literal \<open>`${v}`\<close> interpolates. An object whose own property
  \<open>toString\<close> shadows the inherited method cannot be converted (a parsed JSON value is
  never a function) and the conversion throws.
\<close>

fun js_to_string :: "jsval \<Rightarrow> js_error + string" where
  "js_to_string JUndefined = Inr ''undefined''"
| "js_to_string JNull = Inr ''null''"
| "js_to_string (JBool b) = Inr (if b then ''true'' else ''false'')"
| "js_to_string (JNum n) = Inr n"
| "js_to_string (JStr s) = Inr s"
| "js_to_string (JArr xs) =
     js_join (map (\<lambda>x. if x = JNull \<or> x = JUndefined then Inr [] else js_to_string x) xs)"
| "js_to_string (JObj kvs) =
     (if ''toString'' \<in> fst ` set kvs
      then Inl (JsError ''Cannot convert object to primitive value'')
      else Inr ''[object Object]'')"

text \<open>
  A string holds the UTF-8 bytes of the JavaScript string. \<open>white_space\<close> lists the
  encodings of the code points that \<open>String.prototype.trim\<close> removes, the WhiteSpace
  and LineTerminator of ECMAScript: U+0009 to U+000D, U+0020, U+00A0, U+1680, U+2000
  to U+200A, U+2028, U+2029, U+202F, U+205F, U+3000 and U+FEFF.
\<close>

definition white_space :: "string list" where
  "white_space =
     [ [CHR 0x09], [CHR 0x0A], [CHR 0x0B], [CHR 0x0C], [CHR 0x0D], [CHR 0x20],
      [CHR 0xC2, CHR 0xA0],
      [CHR 0xE1, CHR 0x9A, CHR 0x80],
      [CHR 0xE2, CHR 0x80, CHR 0x80], [CHR 0xE2, CHR 0x80, CHR 0x81], [CHR 0xE2, CHR 0x80, CHR 0x82],
      [CHR 0xE2, CHR 0x80, CHR 0x83], [CHR 0xE2, CHR 0x80, CHR 0x84], [CHR 0xE2, CHR 0x80, CHR 0x85],
      [CHR 0xE2, CHR 0x80, CHR 0x86], [CHR 0xE2, CHR 0x80, CHR 0x87], [CHR 0xE2, CHR 0x80, CHR 0x88],
      [CHR 0xE2, CHR 0x80, CHR 0x89], [CHR 0xE2, CHR 0x80, CHR 0x8A],
      [CHR 0xE2, CHR 0x80, CHR 0xA8], [CHR 0xE2, CHR 0x80, CHR 0xA9], [CHR 0xE2, CHR 0x80, CHR 0xAF],
      [CHR 0xE2, CHR 0x81, CHR 0x9F],
      [CHR 0xE3, CHR 0x80, CHR 0x80],
      [CHR 0xEF, CHR 0xBB, CHR 0xBF] ]"

text \<open>Removing from the front of a string every leading occurrence of one of the given words.\<close>

function strip_start :: "string list \<Rightarrow> string \<Rightarrow> string" where
  "strip_start ws s =
     (case find (\<lambda>w. w \<noteq> [] \<and> prefix w s) ws of
        None \<Rightarrow> s
      | Some w \<Rightarrow> strip_start ws (drop (length w) s))"
  by pat_completeness auto

termination
proof (relation "measure (\<lambda>(ws, s). length s)")
  show "wf (measure (\<lambda>(ws, s). length s))" by simp
next
  fix ws :: "string list" and s w :: string
  assume "find (\<lambda>w. w \<noteq> [] \<and> prefix w s) ws = Some w"
  then have "w \<noteq> []" "prefix w s"
    by (auto simp: find_Some_iff)
  then have "0 < length w" "length w \<le> length s"
    by (auto simp: prefix_def)
  then have "length s - length w < length s"
    by arith
  then show "((ws, drop (length w) s), (ws, s)) \<in> measure (\<lambda>(ws, s). length s)"
    by simp
qed

declare strip_start.simps [simp del]

text \<open>\<open>String.prototype.trim\<close>: white space is removed at both ends.\<close>

definition trim :: "string \<Rightarrow> string" where
  "trim s = rev (strip_start (map rev white_space) (rev (strip_start white_space s)))"

text \<open>\<open>v.trim()\<close> on what \<open>execSync\<close> returned: a string, or \<open>null\<close>.\<close>

fun js_trim :: "jsval \<Rightarrow> js_error + string" where
  "js_trim (JStr s) = Inr (trim s)"
| "js_trim JNull = Inl (JsError (''Cannot read properties of null (reading '' @ squote @ ''trim'' @ squote @ '')''))"
| "js_trim JUndefined = Inl (JsError (''Cannot read properties of undefined (reading '' @ squote @ ''trim'' @ squote @ '')''))"
| "js_trim v = Inl (JsError ''trim is not a function'')"

text \<open>The decimal text of a number such as \<open>Date.now()\<close> inside a template literal.\<close>

fun digits :: "nat \<Rightarrow> string" where
  "digits n = (if n < 10 then [char_of (48 + n)] else digits (n div 10) @ [char_of (48 + n mod 10)])"

declare digits.simps [simp del]

text \<open>\<open>Array.prototype.indexOf\<close>: the first position of an element, if any.\<close>

fun indexOf :: "'a list \<Rightarrow> 'a \<Rightarrow> nat option" where
  "indexOf [] y = None"
| "indexOf (x # xs) y = (if x = y then Some 0 else map_option Suc (indexOf xs y))"

text \<open>\<open>xs[i]\<close> is \<open>undefined\<close> out of range, and \<open>undefined\<close> and the empty string are falsy.\<close>

definition truthy_at :: "string list \<Rightarrow> nat \<Rightarrow> bool" where
  "truthy_at xs i = (i < length xs \<and> xs ! i \<noteq> [])"

section \<open>The Node.js runtime the scripts run on\<close>

datatype stdio = Pipe | Inherit

text \<open>
  Everything the scripts take from the runtime, over an abstract state \<open>'w\<close> of the world
  outside the process (file system, repository, clock, environment):
  the argument vector, the host, \<open>__dirname\<close>, the \<open>path\<close> functions, and the operations
  on the world. \<open>spawnSync c cwd io w\<close> runs the shell command \<open>c\<close> to its end and gives its
  captured standard output, or the error \<open>execSync\<close> throws on a non-zero exit or a
  spawn failure. \<open>read_json p\<close> is \<open>JSON.parse(fs.readFileSync(p, 'utf8'))\<close> and
  \<open>require_json p\<close> is \<open>require(p)\<close> of a JSON file; either may throw.
\<close>

record 'w node =
  argv :: "string list"
  process_platform :: string
  process_arch :: string
  dirname :: string
  path_join :: "string list \<Rightarrow> string"
  path_dirname :: "string \<Rightarrow> string"
  path_basename :: "string \<Rightarrow> string"
  spawnSync :: "string \<Rightarrow> string \<Rightarrow> stdio \<Rightarrow> 'w \<Rightarrow> (js_error + string) \<times> 'w"
  existsSync :: "string \<Rightarrow> 'w \<Rightarrow> bool"
  mkdirSync :: "string \<Rightarrow> 'w \<Rightarrow> (js_error + unit) \<times> 'w"
  read_json :: "string \<Rightarrow> 'w \<Rightarrow> js_error + jsval"
  require_json :: "string \<Rightarrow> 'w \<Rightarrow> js_error + jsval"
  date_now :: "'w \<Rightarrow> nat"
  set_env :: "string \<Rightarrow> string \<Rightarrow> 'w \<Rightarrow> 'w"

text \<open>
  What an observer of the process sees, in order: the lines of \<open>this.log\<close> (the time stamp
  of a line is not modelled, its level decides the prefix), raw \<open>console.log\<close> output,
  and every child process that \<open>execSync\<close> starts.
\<close>

datatype level = Info | Warn | Err

datatype event = Log level string | Print string | Spawn string

record 'w state =
  world :: 'w
  trace :: "event list"

text \<open>A statement: it runs on a state and returns a value or throws, in a new state.\<close>

type_synonym ('w, 'a) io = "'w state \<Rightarrow> (js_error + 'a) \<times> 'w state"

definition ret :: "'a \<Rightarrow> ('w, 'a) io" where
  "ret x s = (Inr x, s)"

definition throw :: "js_error \<Rightarrow> ('w, 'a) io" where
  "throw e s = (Inl e, s)"

definition bind :: "('w, 'a) io \<Rightarrow> ('a \<Rightarrow> ('w, 'b) io) \<Rightarrow> ('w, 'b) io" where
  "bind m f s = (case m s of (Inl e, s') \<Rightarrow> (Inl e, s') | (Inr x, s') \<Rightarrow> f x s')"

definition try_catch :: "('w, 'a) io \<Rightarrow> (js_error \<Rightarrow> ('w, 'a) io) \<Rightarrow> ('w, 'a) io" where
  "try_catch m h s = (case m s of (Inl e, s') \<Rightarrow> h e s' | (Inr x, s') \<Rightarrow> (Inr x, s'))"

definition lift :: "js_error + 'a \<Rightarrow> ('w, 'a) io" where
  "lift r s = (r, s)"

definition execSync :: "'w node \<Rightarrow> string \<Rightarrow> string \<Rightarrow> stdio \<Rightarrow> ('w, jsval) io" where
  "execSync nd command cwd io s =
     (case spawnSync nd command cwd io (world s) of
        (r, w') \<Rightarrow>
          ((case r of Inl e \<Rightarrow> Inl e
            | Inr out \<Rightarrow> Inr (if io = Pipe then JStr out else JNull)),
           s\<lparr>world := w', trace := trace s @ [Spawn command]\<rparr>))"

definition fs_mkdirSync :: "'w node \<Rightarrow> string \<Rightarrow> ('w, unit) io" where
  "fs_mkdirSync nd p s = (case mkdirSync nd p (world s) of (r, w') \<Rightarrow> (r, s\<lparr>world := w'\<rparr>))"

definition process_env_set :: "'w node \<Rightarrow> string \<Rightarrow> string \<Rightarrow> ('w, unit) io" where
  "process_env_set nd k v s = (Inr (), s\<lparr>world := set_env nd k v (world s)\<rparr>)"

section \<open>The command-driven build script\<close>

definition PLATFORMS :: "(string \<times> string list) list" where
  "PLATFORMS =
     [(''darwin'', [''x64'', ''arm64'']),
      (''linux'', [''x64'', ''arm64'']),
      (''win32'', [''x64'', ''arm64''])]"

text \<open>
  \<open>PLATFORMS\<close> is an object literal, so \<open>PLATFORMS[p]\<close> also finds what every object
  inherits from \<open>Object.prototype\<close>.
\<close>

definition object_prototype_keys :: "string list" where
  "object_prototype_keys =
     [''constructor'', ''__defineGetter__'', ''__defineSetter__'', ''hasOwnProperty'',
      ''__lookupGetter__'', ''__lookupSetter__'', ''isPrototypeOf'', ''propertyIsEnumerable'',
      ''toString'', ''valueOf'', ''__proto__'', ''toLocaleString'']"

record build_manager =
  rootDir :: string
  isVerbose :: bool
  skipSync :: bool
  targetPlatform :: string
  targetArch :: string

definition getPlatformArg :: "'w node \<Rightarrow> string" where
  "getPlatformArg nd =
     (case indexOf (argv nd) ''--platform'' of
        Some platformIndex \<Rightarrow>
          if truthy_at (argv nd) (platformIndex + 1) then argv nd ! (platformIndex + 1)
          else process_platform nd
      | None \<Rightarrow> process_platform nd)"

definition getArchArg :: "'w node \<Rightarrow> string" where
  "getArchArg nd =
     (case indexOf (argv nd) ''--arch'' of
        Some archIndex \<Rightarrow>
          if truthy_at (argv nd) (archIndex + 1) then argv nd ! (archIndex + 1)
          else (if process_arch nd = ''arm64'' then ''arm64'' else ''x64'')
      | None \<Rightarrow> (if process_arch nd = ''arm64'' then ''arm64'' else ''x64''))"

definition constructor :: "'w node \<Rightarrow> build_manager" where
  "constructor nd =
     \<lparr>rootDir = dirname nd,
      isVerbose = (''--verbose'' \<in> set (argv nd)),
      skipSync = (''--skip-sync'' \<in> set (argv nd)),
      targetPlatform = getPlatformArg nd,
      targetArch = getArchArg nd\<rparr>"

definition log :: "string \<Rightarrow> level \<Rightarrow> ('w, unit) io" where
  "log msg lvl s = (Inr (), s\<lparr>trace := trace s @ [Log lvl msg]\<rparr>)"

definition execCommand :: "'w node \<Rightarrow> build_manager \<Rightarrow> string \<Rightarrow> ('w, jsval) io" where
  "execCommand nd m command =
     bind (log (''Executing: '' @ command) Info) (\<lambda>_.
       try_catch
         (execSync nd command (rootDir m) (if isVerbose m then Inherit else Pipe))
         (\<lambda>error. bind (log (''Command failed: '' @ message error) Err) (\<lambda>_. throw error)))"

definition syncWithUpstream :: "'w node \<Rightarrow> build_manager \<Rightarrow> ('w, unit) io" where
  "syncWithUpstream nd m =
     (if skipSync m then log ''Skipping upstream sync as requested'' Info
      else
        bind (log ''Syncing with upstream VS Code...'' Info) (\<lambda>_.
        try_catch
          (bind (execCommand nd m ''git fetch upstream'') (\<lambda>_.
           bind (execCommand nd m ''git branch --show-current'') (\<lambda>out.
           bind (lift (js_trim out)) (\<lambda>currentBranch.
           bind (\<lambda>s. (Inr (''backup-'' @ digits (date_now nd (world s))), s)) (\<lambda>backupBranch.
           bind (execCommand nd m (''git checkout -b '' @ backupBranch)) (\<lambda>_.
           bind (execCommand nd m (''git checkout '' @ currentBranch)) (\<lambda>_.
           bind (log ''Merging upstream changes...'' Info) (\<lambda>_.
           bind (execCommand nd m ''git merge upstream/main --no-edit'') (\<lambda>_.
           log ''Successfully synced with upstream'' Info)))))))))
          (\<lambda>error.
             bind (log ''Failed to sync with upstream. Please resolve conflicts manually.'' Err)
               (\<lambda>_. throw error))))"

definition installDependencies :: "'w node \<Rightarrow> build_manager \<Rightarrow> ('w, unit) io" where
  "installDependencies nd m =
     bind (log ''Installing dependencies...'' Info) (\<lambda>_.
     bind (execCommand nd m ''npm install'') (\<lambda>_.
     log ''Dependencies installed'' Info))"

definition buildCursorClone :: "'w node \<Rightarrow> build_manager \<Rightarrow> ('w, unit) io" where
  "buildCursorClone nd m =
     bind (log ''Building CursorClone...'' Info) (\<lambda>_.
     bind (execCommand nd m ''npm run clean'') (\<lambda>_.
     bind (execCommand nd m ''npm run compile'') (\<lambda>_.
     bind (execCommand nd m ''npm run compile-extensions'') (\<lambda>_.
     bind (execCommand nd m ''npm run download-builtin-extensions'') (\<lambda>_.
     log ''CursorClone build completed'' Info)))))"

text \<open>
  The value of \<open>!PLATFORMS[platform] || !PLATFORMS[platform].includes(arch)\<close>: an own key
  gives its list of architectures, an inherited key gives a function or an object that
  has no \<open>includes\<close>, so the call throws, and any other key gives \<open>undefined\<close>.
\<close>

definition unsupported :: "string \<Rightarrow> string \<Rightarrow> js_error + bool" where
  "unsupported platform arch =
     (case map_of PLATFORMS platform of
        Some archs \<Rightarrow> Inr (arch \<notin> set archs)
      | None \<Rightarrow>
          if platform \<in> set object_prototype_keys
          then Inl (JsError ''PLATFORMS[platform].includes is not a function'')
          else Inr True)"

definition packageApplication :: "'w node \<Rightarrow> build_manager \<Rightarrow> ('w, unit) io" where
  "packageApplication nd m =
     bind (log ''Packaging application...'' Info) (\<lambda>_.
     bind (lift (unsupported (targetPlatform m) (targetArch m))) (\<lambda>bad.
       if bad then
         log (''Unsupported platform/arch combination: '' @ targetPlatform m @ ''/'' @ targetArch m) Err
       else
         bind (process_env_set nd ''VSCODE_PLATFORM'' (targetPlatform m)) (\<lambda>_.
         bind (process_env_set nd ''VSCODE_ARCH'' (targetArch m)) (\<lambda>_.
         bind (if targetPlatform m = ''darwin''
               then bind (execCommand nd m (''npm run gulp -- vscode-darwin-'' @ targetArch m)) (\<lambda>_. ret ())
               else if targetPlatform m = ''linux''
               then bind (execCommand nd m (''npm run gulp -- vscode-linux-'' @ targetArch m)) (\<lambda>_. ret ())
               else if targetPlatform m = ''win32''
               then bind (execCommand nd m (''npm run gulp -- vscode-win32-'' @ targetArch m)) (\<lambda>_. ret ())
               else ret ()) (\<lambda>_.
         log ''Application packaged successfully'' Info)))))"

text \<open>
  The two variables \<open>createArchive\<close> sets per platform: the archive's file name and the
  directory to archive. Both stay \<open>undefined\<close> for any other platform, and the version is
  only interpolated on a branch that is taken.
\<close>

definition archive_target ::
  "'w node \<Rightarrow> build_manager \<Rightarrow> jsval \<Rightarrow> js_error + (string \<times> string) option" where
  "archive_target nd m version =
     (let buildDir = path_join nd [rootDir m, ''.build''] in
      if targetPlatform m = ''darwin'' then
        (case js_to_string version of Inl e \<Rightarrow> Inl e
         | Inr v \<Rightarrow> Inr (Some (''CursorClone-'' @ v @ ''-darwin-'' @ targetArch m @ ''.zip'',
                               path_join nd [buildDir, ''VSCode-darwin''])))
      else if targetPlatform m = ''linux'' then
        (case js_to_string version of Inl e \<Rightarrow> Inl e
         | Inr v \<Rightarrow> Inr (Some (''CursorClone-'' @ v @ ''-linux-'' @ targetArch m @ ''.tar.gz'',
                               path_join nd [buildDir, ''VSCode-linux-x64''])))
      else if targetPlatform m = ''win32'' then
        (case js_to_string version of Inl e \<Rightarrow> Inl e
         | Inr v \<Rightarrow> Inr (Some (''CursorClone-'' @ v @ ''-win32-'' @ targetArch m @ ''.zip'',
                               path_join nd [buildDir, ''VSCode-win32-x64''])))
      else Inr None)"

text \<open>\<open>fs.existsSync(sourceDir)\<close>, which is \<open>false\<close> for \<open>undefined\<close>.\<close>

definition source_exists :: "'w node \<Rightarrow> (string \<times> string) option \<Rightarrow> 'w \<Rightarrow> bool" where
  "source_exists nd target w =
     (case target of None \<Rightarrow> False | Some (archiveName, sourceDir) \<Rightarrow> existsSync nd sourceDir w)"

definition createArchive :: "'w node \<Rightarrow> build_manager \<Rightarrow> ('w, unit) io" where
  "createArchive nd m =
     bind (log ''Creating archive...'' Info) (\<lambda>_.
     bind (\<lambda>s. (require_json nd ''./package.json'' (world s), s)) (\<lambda>pkg.
     bind (lift (get_prop pkg ''version'')) (\<lambda>version.
     bind (lift (archive_target nd m version)) (\<lambda>target.
     bind (\<lambda>s. (Inr (source_exists nd target (world s)), s)) (\<lambda>found.
       case target of
         Some (archiveName, sourceDir) \<Rightarrow>
           if found then
             (let archivePath = path_join nd [rootDir m, ''releases'', archiveName] in
              bind (fs_mkdirSync nd (path_dirname nd archivePath)) (\<lambda>_.
              bind (if targetPlatform m = ''linux''
                    then execCommand nd m
                           (''tar -czf '' @ dquote @ archivePath @ dquote @ '' -C '' @ dquote
                              @ path_dirname nd sourceDir @ dquote @ '' '' @ dquote
                              @ path_basename nd sourceDir @ dquote)
                    else execCommand nd m
                           (''cd '' @ dquote @ path_dirname nd sourceDir @ dquote @ '' && zip -r ''
                              @ dquote @ archivePath @ dquote @ '' '' @ dquote
                              @ path_basename nd sourceDir @ dquote)) (\<lambda>_.
              log (''Archive created: '' @ archiveName) Info)))
           else log ''Build directory not found. Please run build first.'' Err
       | None \<Rightarrow> log ''Build directory not found. Please run build first.'' Err)))))"

definition runTests :: "'w node \<Rightarrow> build_manager \<Rightarrow> ('w, unit) io" where
  "runTests nd m =
     bind (log ''Running tests...'' Info) (\<lambda>_.
     bind (execCommand nd m ''npm test'') (\<lambda>_.
     log ''All tests passed'' Info))"

definition requiredFiles :: "string list" where
  "requiredFiles = [''package.json'', ''product.json'', ''.build'']"

definition validateBuild :: "'w node \<Rightarrow> build_manager \<Rightarrow> ('w, bool) io" where
  "validateBuild nd m =
     bind (log ''Validating build...'' Info) (\<lambda>_.
     bind (\<lambda>s. (Inr (find (\<lambda>file. \<not> existsSync nd (path_join nd [rootDir m, file]) (world s))
                         requiredFiles), s)) (\<lambda>missing.
       case missing of
         Some file \<Rightarrow> bind (log (''Required file missing: '' @ file) Err) (\<lambda>_. ret False)
       | None \<Rightarrow>
           bind (\<lambda>s. (read_json nd (path_join nd [rootDir m, ''product.json'']) (world s), s)) (\<lambda>productJson.
           bind (lift (get_prop productJson ''applicationName'')) (\<lambda>applicationName.
             if applicationName \<noteq> JStr ''cursorclone''
             then bind (log ''Product configuration validation failed'' Err) (\<lambda>_. ret False)
             else bind (log ''Build validation passed'' Info) (\<lambda>_. ret True)))))"

definition help_text :: string where
  "help_text = concat (map (\<lambda>l. l @ [CHR 0x0A])
     ['''',
      ''CursorClone Build Tool'',
      '''',
      ''Usage: node build-cursorclone.js [command] [options]'',
      '''',
      ''Commands:'',
      CHR 0x09 # ''sync        Sync with upstream VS Code'',
      CHR 0x09 # ''install     Install dependencies'',
      CHR 0x09 # ''build       Build CursorClone'',
      CHR 0x09 # ''package     Package application for distribution'',
      CHR 0x09 # ''archive     Create distribution archive'',
      CHR 0x09 # ''test        Run tests'',
      CHR 0x09 # ''validate    Validate build'',
      CHR 0x09 # ''all         Run complete build pipeline'',
      CHR 0x09 # ''help        Show this help'',
      '''',
      ''Options:'',
      CHR 0x09 # ''--platform <platform>   Target platform (darwin, linux, win32)'',
      CHR 0x09 # ''--arch <arch>          Target architecture (x64, arm64)'',
      CHR 0x09 # ''--skip-sync            Skip upstream sync'',
      CHR 0x09 # ''--verbose              Verbose output'',
      '''',
      ''Examples:'',
      CHR 0x09 # ''node build-cursorclone.js all'',
      CHR 0x09 # ''node build-cursorclone.js package --platform darwin --arch arm64'',
      CHR 0x09 # ''node build-cursorclone.js build --verbose'']) @ [CHR 0x09, CHR 0x09]"

definition showHelp :: "('w, unit) io" where
  "showHelp s = (Inr (), s\<lparr>trace := trace s @ [Print help_text]\<rparr>)"

text \<open>The \<open>all\<close> case of the switch in \<open>run\<close>.\<close>

definition run_all :: "'w node \<Rightarrow> build_manager \<Rightarrow> ('w, unit) io" where
  "run_all nd m =
     bind (syncWithUpstream nd m) (\<lambda>_.
     bind (installDependencies nd m) (\<lambda>_.
     bind (buildCursorClone nd m) (\<lambda>_.
     bind (packageApplication nd m) (\<lambda>_.
     bind (createArchive nd m) (\<lambda>_.
     bind (validateBuild nd m) (\<lambda>_.
     log ''Complete build pipeline finished'' Info))))))"

definition run_switch :: "'w node \<Rightarrow> build_manager \<Rightarrow> string \<Rightarrow> ('w, unit) io" where
  "run_switch nd m command =
     (if command = ''sync'' then syncWithUpstream nd m
      else if command = ''install'' then installDependencies nd m
      else if command = ''build'' then buildCursorClone nd m
      else if command = ''package'' then packageApplication nd m
      else if command = ''archive'' then createArchive nd m
      else if command = ''test'' then runTests nd m
      else if command = ''validate'' then bind (validateBuild nd m) (\<lambda>_. ret ())
      else if command = ''all'' then run_all nd m
      else showHelp)"

text \<open>
  \<open>process.argv[2] || 'help'\<close>, and \<open>run\<close>, which gives the exit code of the process:
  \<open>process.exit(1)\<close> in the catch block, and 0 when \<open>run\<close> returns, since nothing else
  is pending.
\<close>

definition command_arg :: "'w node \<Rightarrow> string" where
  "command_arg nd = (if truthy_at (argv nd) 2 then argv nd ! 2 else ''help'')"

definition run :: "'w node \<Rightarrow> build_manager \<Rightarrow> 'w state \<Rightarrow> nat \<times> 'w state" where
  "run nd m s =
     (case run_switch nd m (command_arg nd) s of
        (Inr _, s') \<Rightarrow> (0, s')
      | (Inl error, s') \<Rightarrow> (1, snd (log (''Build failed: '' @ message error) Err s')))"

definition main :: "'w node \<Rightarrow> 'w state \<Rightarrow> nat \<times> 'w state" where
  "main nd s = run nd (constructor nd) s"

section \<open>The flag-driven build script\<close>

text \<open>The script's log lines carry emoji, written here as their UTF-8 bytes.\<close>

definition emoji_sync :: string where
  "emoji_sync = [CHR 0xF0, CHR 0x9F, CHR 0x94, CHR 0x84]"

definition emoji_check :: string where
  "emoji_check = [CHR 0xE2, CHR 0x9C, CHR 0x85]"

definition emoji_package :: string where
  "emoji_package = [CHR 0xF0, CHR 0x9F, CHR 0x93, CHR 0xA6]"

definition emoji_hammer :: string where
  "emoji_hammer = [CHR 0xF0, CHR 0x9F, CHR 0x94, CHR 0xA8]"

definition emoji_rocket :: string where
  "emoji_rocket = [CHR 0xF0, CHR 0x9F, CHR 0x9A, CHR 0x80]"

definition emoji_glass :: string where
  "emoji_glass = [CHR 0xF0, CHR 0x9F, CHR 0x94, CHR 0x8D]"

definition emoji_party :: string where
  "emoji_party = [CHR 0xF0, CHR 0x9F, CHR 0x8E, CHR 0x89]"

definition emoji_cross :: string where
  "emoji_cross = [CHR 0xE2, CHR 0x9D, CHR 0x8C]"

definition execCommand_flags :: "'w node \<Rightarrow> build_manager \<Rightarrow> string \<Rightarrow> ('w, jsval) io" where
  "execCommand_flags nd m command =
     bind (log (''Executing: '' @ command) Info) (\<lambda>_.
       try_catch
         (execSync nd command (rootDir m) (if isVerbose m then Inherit else Pipe))
         (\<lambda>error.
            bind (log (''Command failed: '' @ command) Err) (\<lambda>_.
            bind (log (message error) Err) (\<lambda>_. throw error))))"

definition syncWithUpstream_flags :: "'w node \<Rightarrow> build_manager \<Rightarrow> ('w, unit) io" where
  "syncWithUpstream_flags nd m =
     (if skipSync m then log ''Skipping upstream sync as requested'' Info
      else
        bind (log (emoji_sync @ '' Syncing with upstream VS Code...'') Info) (\<lambda>_.
        try_catch
          (bind (execCommand_flags nd m ''git fetch upstream'') (\<lambda>_.
           bind (execCommand_flags nd m ''git branch --show-current'') (\<lambda>out.
           bind (lift (js_trim out)) (\<lambda>currentBranch.
           bind (\<lambda>s. (Inr (''backup-'' @ digits (date_now nd (world s))), s)) (\<lambda>backupBranch.
           bind (execCommand_flags nd m (''git checkout -b '' @ backupBranch)) (\<lambda>_.
           bind (execCommand_flags nd m (''git checkout '' @ currentBranch)) (\<lambda>_.
           bind (log ''Merging upstream changes...'' Info) (\<lambda>_.
           bind (execCommand_flags nd m ''git merge upstream/main --no-edit'') (\<lambda>_.
           log (emoji_check @ '' Successfully synced with upstream'') Info)))))))))
          (\<lambda>error.
             bind (log ''Failed to sync with upstream. Please resolve conflicts manually.'' Err)
               (\<lambda>_. throw error))))"

definition installDependencies_flags :: "'w node \<Rightarrow> build_manager \<Rightarrow> ('w, unit) io" where
  "installDependencies_flags nd m =
     bind (log (emoji_package @ '' Installing dependencies...'') Info) (\<lambda>_.
     bind (execCommand_flags nd m ''npm install'') (\<lambda>_.
     log (emoji_check @ '' Dependencies installed'') Info))"

definition buildCursorClone_flags :: "'w node \<Rightarrow> build_manager \<Rightarrow> ('w, unit) io" where
  "buildCursorClone_flags nd m =
     bind (log (emoji_hammer @ '' Building CursorClone...'') Info) (\<lambda>_.
     bind (execCommand_flags nd m ''npm run clean'') (\<lambda>_.
     bind (execCommand_flags nd m ''npm run compile'') (\<lambda>_.
     bind (execCommand_flags nd m ''npm run compile-extensions'') (\<lambda>_.
     log (emoji_check @ '' CursorClone compiled successfully'') Info))))"

definition packageForPlatform ::
  "'w node \<Rightarrow> build_manager \<Rightarrow> string \<Rightarrow> string \<Rightarrow> ('w, unit) io" where
  "packageForPlatform nd m platform arch =
     bind (log (emoji_package @ '' Packaging CursorClone for '' @ platform @ ''-'' @ arch @ ''...'') Info) (\<lambda>_.
     try_catch
       (bind (execCommand_flags nd m (''npx gulp vscode-'' @ platform @ ''-'' @ arch)) (\<lambda>_.
        log (emoji_check @ '' Successfully packaged for '' @ platform @ ''-'' @ arch) Info))
       (\<lambda>error.
          bind (log (''Failed to package for '' @ platform @ ''-'' @ arch) Err) (\<lambda>_. throw error)))"

fun package_archs ::
  "'w node \<Rightarrow> build_manager \<Rightarrow> string \<Rightarrow> string list \<Rightarrow> ('w, unit) io" where
  "package_archs nd m platform [] = ret ()"
| "package_archs nd m platform (arch # archs) =
     bind (packageForPlatform nd m platform arch) (\<lambda>_. package_archs nd m platform archs)"

text \<open>
  The outer loop of \<open>packageAll\<close>. \<open>for (const arch of PLATFORMS[platform])\<close> throws when
  the platform is not one of the table's own keys: the value is then not iterable.
\<close>

fun package_platforms :: "'w node \<Rightarrow> build_manager \<Rightarrow> string list \<Rightarrow> ('w, unit) io" where
  "package_platforms nd m [] = ret ()"
| "package_platforms nd m (platform # platforms) =
     bind (if targetArch m \<noteq> [] then package_archs nd m platform [targetArch m]
           else (case map_of PLATFORMS platform of
                   Some archs \<Rightarrow> package_archs nd m platform archs
                 | None \<Rightarrow> throw (JsError ''archs is not iterable'')))
       (\<lambda>_. package_platforms nd m platforms)"

definition packageAll :: "'w node \<Rightarrow> build_manager \<Rightarrow> ('w, unit) io" where
  "packageAll nd m =
     (if targetPlatform m \<noteq> [] \<and> targetArch m \<noteq> []
      then packageForPlatform nd m (targetPlatform m) (targetArch m)
      else package_platforms nd m
             (if targetPlatform m \<noteq> [] then [targetPlatform m] else map fst PLATFORMS))"

definition createRelease :: "'w node \<Rightarrow> build_manager \<Rightarrow> ('w, unit) io" where
  "createRelease nd m =
     bind (log (emoji_rocket @ '' Creating release...'') Info) (\<lambda>_.
     bind (\<lambda>s. (read_json nd ''package.json'' (world s), s)) (\<lambda>pkg.
     bind (lift (get_prop pkg ''version'')) (\<lambda>v.
     bind (lift (js_to_string v)) (\<lambda>version.
     bind (try_catch
             (bind (execCommand_flags nd m
                      (''git tag -a v'' @ version @ '' -m '' @ dquote @ ''Release '' @ version @ dquote)) (\<lambda>_.
              log (emoji_check @ '' Created tag v'' @ version) Info))
             (\<lambda>error. log (''Tag v'' @ version @ '' might already exist'') Warn)) (\<lambda>_.
     bind (execCommand_flags nd m ''git push origin main --tags'') (\<lambda>_.
     log (emoji_check @ '' Release '' @ version @ '' created and pushed'') Info))))))"

definition validateBuild_flags :: "'w node \<Rightarrow> build_manager \<Rightarrow> ('w, unit) io" where
  "validateBuild_flags nd m =
     bind (log (emoji_glass @ '' Validating build...'') Info) (\<lambda>_.
     bind (\<lambda>s. (read_json nd ''product.json'' (world s), s)) (\<lambda>product.
     bind (lift (get_prop product ''nameShort'')) (\<lambda>nameShort.
       if nameShort \<noteq> JStr ''CursorClone''
       then throw (JsError ''Product name is not correctly set to CursorClone'')
       else
         bind (lift (get_prop product ''applicationName'')) (\<lambda>applicationName.
           if applicationName \<noteq> JStr ''cursorclone''
           then throw (JsError ''Application name is not correctly set to cursorclone'')
           else log (emoji_check @ '' Build validation passed'') Info))))"

text \<open>The body of the try block of \<open>run\<close>.\<close>

definition run_flags_body :: "'w node \<Rightarrow> build_manager \<Rightarrow> ('w, unit) io" where
  "run_flags_body nd m =
     bind (log (emoji_rocket @ '' Starting CursorClone build process...'') Info) (\<lambda>_.
     bind (validateBuild_flags nd m) (\<lambda>_.
     bind (syncWithUpstream_flags nd m) (\<lambda>_.
     bind (installDependencies_flags nd m) (\<lambda>_.
     bind (buildCursorClone_flags nd m) (\<lambda>_.
     bind (packageAll nd m) (\<lambda>_.
     bind (if ''--release'' \<in> set (argv nd) then createRelease nd m else ret ()) (\<lambda>_.
     log (emoji_party @ '' CursorClone build completed successfully!'') Info)))))))"

definition run_flags :: "'w node \<Rightarrow> build_manager \<Rightarrow> 'w state \<Rightarrow> nat \<times> 'w state" where
  "run_flags nd m s =
     (case run_flags_body nd m s of
        (Inr _, s') \<Rightarrow> (0, s')
      | (Inl error, s') \<Rightarrow>
          (1, snd (bind (log (emoji_cross @ '' Build failed!'') Err)
                     (\<lambda>_. log (message error) Err) s')))"

section \<open>The branding validator\<close>

definition expectedValues :: "(string \<times> string) list" where
  "expectedValues =
     [(''nameShort'', ''CursorClone''),
      (''applicationName'', ''cursorclone''),
      (''dataFolderName'', ''.cursorclone''),
      (''serverDataFolderName'', ''.cursorclone-server'')]"

text \<open>
  The loop of \<open>validateProductJson\<close> over the expected entries, with its flag \<open>isValid\<close>.
  The validator's own \<open>log(message, isError)\<close> prints the prefix \<open>[ERROR]\<close> or \<open>[INFO]\<close>.
\<close>

fun check_entries :: "jsval \<Rightarrow> (string \<times> string) list \<Rightarrow> bool \<Rightarrow> ('w, bool) io" where
  "check_entries product [] isValid = ret isValid"
| "check_entries product ((key, expectedValue) # rest) isValid =
     bind (lift (get_prop product key)) (\<lambda>actual.
       if actual \<noteq> JStr expectedValue then
         bind (lift (js_to_string actual)) (\<lambda>got.
         bind (log (''product.json '' @ key @ '': expected '' @ squote @ expectedValue @ squote
                      @ '', got '' @ squote @ got @ squote) Err) (\<lambda>_.
         check_entries product rest False))
       else
         bind (log (''product.json '' @ key @ '': correct'') Info) (\<lambda>_.
         check_entries product rest isValid))"

definition validateProductJson :: "'w node \<Rightarrow> 'w state \<Rightarrow> bool \<times> 'w state" where
  "validateProductJson nd s =
     (let productPath = path_join nd [dirname nd, ''product.json''] in
      if \<not> existsSync nd productPath (world s)
      then (False, snd (log ''product.json not found'' Err s))
      else
        (case bind (\<lambda>s. (read_json nd productPath (world s), s))
                (\<lambda>product. check_entries product expectedValues True) s of
           (Inr isValid, s') \<Rightarrow> (isValid, s')
         | (Inl error, s') \<Rightarrow>
             (False, snd (log (''Failed to parse product.json: '' @ message error) Err s'))))"

section \<open>Observations on a run\<close>

datatype step = Sync | Install | Build | Package | Archive | Validate

text \<open>
  Every step of the command-driven script opens with a log line of its own; the steps a
  run has entered are read off these lines.
\<close>

definition step_of :: "event \<Rightarrow> step option" where
  "step_of ev =
     (if ev = Log Info ''Skipping upstream sync as requested'' then Some Sync
      else if ev = Log Info ''Syncing with upstream VS Code...'' then Some Sync
      else if ev = Log Info ''Installing dependencies...'' then Some Install
      else if ev = Log Info ''Building CursorClone...'' then Some Build
      else if ev = Log Info ''Packaging application...'' then Some Package
      else if ev = Log Info ''Creating archive...'' then Some Archive
      else if ev = Log Info ''Validating build...'' then Some Validate
      else None)"

definition steps_entered :: "event list \<Rightarrow> step list" where
  "steps_entered tr = List.map_filter step_of tr"

definition spawned :: "event list \<Rightarrow> string list" where
  "spawned tr = List.map_filter (\<lambda>ev. case ev of Spawn c \<Rightarrow> Some c | _ \<Rightarrow> None) tr"

section \<open>A sample runtime\<close>

text \<open>
  A small runtime on which the scripts can be run by evaluation: POSIX-style paths, a
  world that never changes, a list of commands that fail, a list of paths that exist,
  and the contents of \<open>product.json\<close> and \<open>package.json\<close>.
\<close>

fun sample_join :: "string list \<Rightarrow> string" where
  "sample_join [] = ''.''"
| "sample_join [p] = p"
| "sample_join (p # ps) = p @ ''/'' @ sample_join ps"

definition sample_dirname :: "string \<Rightarrow> string" where
  "sample_dirname p = rev (drop 1 (dropWhile (\<lambda>c. c \<noteq> CHR ''/'') (rev p)))"

definition sample_basename :: "string \<Rightarrow> string" where
  "sample_basename p = rev (takeWhile (\<lambda>c. c \<noteq> CHR ''/'') (rev p))"

definition sample_node ::
  "string list \<Rightarrow> string list \<Rightarrow> string list \<Rightarrow> jsval \<Rightarrow> unit node" where
  "sample_node args failing existing product =
     \<lparr>argv = ''node'' # ''/repo/build-cursorclone.js'' # args,
      process_platform = ''linux'',
      process_arch = ''x64'',
      dirname = ''/repo'',
      path_join = sample_join,
      path_dirname = sample_dirname,
      path_basename = sample_basename,
      spawnSync = (\<lambda>command cwd io w.
         (if command \<in> set failing then Inl (JsError (''Command failed: '' @ command))
          else Inr ''main'', w)),
      existsSync = (\<lambda>p w. p \<in> set existing),
      mkdirSync = (\<lambda>p w. (Inr (), w)),
      read_json = (\<lambda>p w. Inr product),
      require_json = (\<lambda>p w. Inr (JObj [(''version'', JStr ''1.0.0'')])),
      date_now = (\<lambda>w. 1700000000000),
      set_env = (\<lambda>k v w. w)\<rparr>"

definition init :: "unit state" where
  "init = \<lparr>world = (), trace = []\<rparr>"

definition branded :: jsval where
  "branded =
     JObj [(''nameShort'', JStr ''CursorClone''),
           (''applicationName'', JStr ''cursorclone''),
           (''dataFolderName'', JStr ''.cursorclone''),
           (''serverDataFolderName'', JStr ''.cursorclone-server'')]"

section \<open>What a statement adds to the trace\<close>

text \<open>
  \<open>emits Q m\<close>: whatever \<open>m\<close> does, it only appends events to the trace, and each of
  them satisfies \<open>Q\<close>. An event is unannounced when it is not the opening line of a step.
\<close>

definition emits :: "(event \<Rightarrow> bool) \<Rightarrow> ('w, 'a) io \<Rightarrow> bool" where
  "emits Q m = (\<forall>s. \<exists>ext. trace (snd (m s)) = trace s @ ext \<and> list_all Q ext)"

definition unannounced :: "event \<Rightarrow> bool" where
  "unannounced ev = (step_of ev = None)"

section \<open>Outcomes\<close>

text \<open>
  A result has succeeded when it is a value and not a thrown error. \<open>yields P m\<close>: from
  every state \<open>m\<close> returns a value, and the value satisfies \<open>P\<close>.
\<close>

definition succeeded :: "js_error + 'a \<Rightarrow> bool" where
  "succeeded r = (case r of Inl _ \<Rightarrow> False | Inr _ \<Rightarrow> True)"

definition yields :: "('a \<Rightarrow> bool) \<Rightarrow> ('w, 'a) io \<Rightarrow> bool" where
  "yields P m = (\<forall>s. case fst (m s) of Inl e \<Rightarrow> False | Inr x \<Rightarrow> P x)"

section \<open>The lines of the branding validator\<close>

text \<open>
  For one expected entry: whether the product has the expected value, and the line the
  loop of \<open>validateProductJson\<close> logs for it.
\<close>

definition entry_ok :: "jsval \<Rightarrow> string \<times> string \<Rightarrow> bool" where
  "entry_ok product entry = (case entry of (key, expectedValue) \<Rightarrow> get_prop product key = Inr (JStr expectedValue))"

definition report_line :: "jsval \<Rightarrow> string \<times> string \<Rightarrow> event" where
  "report_line product entry =
     (case entry of (key, expectedValue) \<Rightarrow>
        (case get_prop product key of
           Inr actual \<Rightarrow>
             if actual \<noteq> JStr expectedValue
             then (case js_to_string actual of
                     Inr got \<Rightarrow> Log Err (''product.json '' @ key @ '': expected '' @ squote
                                  @ expectedValue @ squote @ '', got '' @ squote @ got @ squote)
                   | Inl e \<Rightarrow> Log Err (message e))
             else Log Info (''product.json '' @ key @ '': correct'')
         | Inl e \<Rightarrow> Log Err (message e)))"

section \<open>Sample runs\<close>

text \<open>
  Instances of the sample runtime: the arguments after the script name, the commands that
  fail, the paths that exist, and the parsed \<open>product.json\<close>.
\<close>

definition c1_node :: "unit node" where
  "c1_node = sample_node [''all'', ''--skip-sync''] [''npm run compile''] [] branded"

definition c2_node :: "unit node" where
  "c2_node = sample_node [''all'', ''--skip-sync'']  []
     [''/repo/package.json'', ''/repo/product.json'', ''/repo/.build''] branded"

definition c3_node :: "unit node" where
  "c3_node = sample_node [''all'', ''--skip-sync'', ''--platform'', ''freebsd'', ''--arch'', ''x64''] []
     [''/repo/package.json'', ''/repo/product.json'', ''/repo/.build''] branded"

definition c3_ok_node :: "unit node" where
  "c3_ok_node = sample_node [''package'', ''--platform'', ''darwin'', ''--arch'', ''arm64''] [] [] branded"

definition c5_node :: "unit node" where
  "c5_node = sample_node [''all'', ''--platform'', ''linux'', ''--arch'', ''arm64''] []
     [''/repo/package.json'', ''/repo/product.json'', ''/repo/.build'', ''/repo/.build/VSCode-linux-x64'']
     branded"

definition c5_mkdir_fails :: "unit node" where
  "c5_mkdir_fails =
     (sample_node [''all'', ''--skip-sync'', ''--platform'', ''linux'', ''--arch'', ''arm64''] []
        [''/repo/package.json'', ''/repo/product.json'', ''/repo/.build'', ''/repo/.build/VSCode-linux-x64'']
        branded)
     \<lparr>mkdirSync := (\<lambda>p w. (Inl (JsError ''EEXIST: file already exists, mkdir /repo/releases''), w))\<rparr>"

definition c6_node :: "unit node" where
  "c6_node = sample_node [''all'', ''--skip-sync''] [''npm install''] [] branded"

definition c7_node :: "unit node" where
  "c7_node = sample_node [''validate''] []
     [''/repo/package.json'', ''/repo/product.json'', ''/repo/.build'']
     (JObj [(''nameShort'', JStr ''Code - OSS''),
            (''applicationName'', JStr ''code-oss''),
            (''dataFolderName'', JStr ''.cursorclone''),
            (''serverDataFolderName'', JStr ''.cursorclone-server'')])"

definition c7_passing :: "unit node" where
  "c7_passing = sample_node [''validate''] []
     [''/repo/package.json'', ''/repo/product.json'', ''/repo/.build'']
     (JObj [(''nameShort'', JStr ''Code - OSS''),
            (''applicationName'', JStr ''cursorclone''),
            (''dataFolderName'', JStr ''.cursorclone''),
            (''serverDataFolderName'', JStr ''.cursorclone-server'')])"

definition c8_node :: "unit node" where
  "c8_node = sample_node [''test''] [''npm test''] [] branded"

definition c9_node :: "unit node" where
  "c9_node = sample_node [''archive'', ''--platform'', ''linux'', ''--arch'', ''arm64''] []
     [''/repo/.build/VSCode-linux-x64''] branded"

definition c10_node :: "unit node" where
  "c10_node = sample_node [''--skip-sync''] [] []
     (JObj [(''nameShort'', JStr ''Code - OSS''), (''applicationName'', JStr ''cursorclone'')])"

section \<open>Failed commands in the log\<close>

text \<open>
  The line that \<open>execCommand\<close> logs when a child process fails. A statement is honest
  when it only appends to the trace and, whenever it has logged such a line, it throws.
  It is careful from a state when, run from there, it only appends to the trace, throws
  only after such a line, and otherwise returns a value that satisfies \<open>P\<close>.
\<close>

definition command_failure :: "event \<Rightarrow> bool" where
  "command_failure ev =
     (case ev of Log lvl msg \<Rightarrow> lvl = Err \<and> prefix ''Command failed: '' msg | _ \<Rightarrow> False)"

definition honest :: "('w, 'a) io \<Rightarrow> bool" where
  "honest m = (\<forall>s. \<exists>ext. trace (snd (m s)) = trace s @ ext
                 \<and> (list_ex command_failure ext \<longrightarrow> isl (fst (m s))))"

definition careful :: "('a \<Rightarrow> bool) \<Rightarrow> ('w, 'a) io \<Rightarrow> 'w state \<Rightarrow> bool" where
  "careful P m s = (\<exists>ext. trace (snd (m s)) = trace s @ ext
                 \<and> (case fst (m s) of Inl e \<Rightarrow> list_ex command_failure ext | Inr x \<Rightarrow> P x))"

definition c9_win32 :: "unit node" where
  "c9_win32 = sample_node [''archive'', ''--platform'', ''win32'', ''--arch'', ''arm64''] []
     [''/repo/.build/VSCode-win32-x64''] branded"

definition c3_full :: "unit node" where
  "c3_full = sample_node [''all'', ''--platform'', ''freebsd'', ''--arch'', ''x64''] []
     [''/repo/package.json'', ''/repo/product.json'', ''/repo/.build''] branded"

section \<open>Sequencing and the execution of one command\<close>


lemma bind_log [simp]: "bind (log msg lvl) f s = f () (s\<lparr>trace := trace s @ [Log lvl msg]\<rparr>)"
  by (simp add: bind_def log_def)

lemma bind_ret [simp]: "bind (ret x) f s = f x s"
  by (simp add: bind_def ret_def)

lemma bind_throw [simp]: "bind (throw e) f s = (Inl e, s)"
  by (simp add: bind_def throw_def)

lemma bind_lift [simp]: "bind (lift r) f s = (case r of Inl e \<Rightarrow> (Inl e, s) | Inr x \<Rightarrow> f x s)"
  by (simp add: bind_def lift_def split: sum.splits)

lemma bind_Inl: "m s = (Inl e, s') \<Longrightarrow> bind m f s = (Inl e, s')"
  by (simp add: bind_def)

lemma bind_Inr: "m s = (Inr x, s') \<Longrightarrow> bind m f s = f x s'"
  by (simp add: bind_def)

lemma try_catch_Inl: "m s = (Inl e, s') \<Longrightarrow> try_catch m h s = h e s'"
  by (simp add: try_catch_def)

lemma try_catch_Inr: "m s = (Inr x, s') \<Longrightarrow> try_catch m h s = (Inr x, s')"
  by (simp add: try_catch_def)

lemma execCommand_fail:
  assumes "spawnSync nd command (rootDir m) (if isVerbose m then Inherit else Pipe) (world s) = (Inl error, w')"
  shows "execCommand nd m command s =
    (Inl error, \<lparr>world = w', trace = trace s @ [Log Info (''Executing: '' @ command), Spawn command,
         Log Err (''Command failed: '' @ message error)]\<rparr>)"
  using assms by (simp add: execCommand_def try_catch_def execSync_def throw_def)

lemma execCommand_ok:
  assumes "spawnSync nd command (rootDir m) (if isVerbose m then Inherit else Pipe) (world s) = (Inr out, w')"
  shows "execCommand nd m command s =
    (Inr (if isVerbose m then JNull else JStr out),
     \<lparr>world = w', trace = trace s @ [Log Info (''Executing: '' @ command), Spawn command]\<rparr>)"
  using assms by (simp add: execCommand_def try_catch_def execSync_def)

lemma execCommand_flags_fail:
  assumes "spawnSync nd command (rootDir m) (if isVerbose m then Inherit else Pipe) (world s) = (Inl error, w')"
  shows "execCommand_flags nd m command s =
    (Inl error, \<lparr>world = w', trace = trace s @ [Log Info (''Executing: '' @ command), Spawn command,
         Log Err (''Command failed: '' @ command), Log Err (message error)]\<rparr>)"
  using assms by (simp add: execCommand_flags_def try_catch_def execSync_def throw_def)

section \<open>Events a statement emits\<close>

lemma emitsI:
  assumes "\<And>s. \<exists>ext. trace (snd (m s)) = trace s @ ext \<and> list_all Q ext"
  shows "emits Q m"
  using assms by (simp add: emits_def)

lemma emitsD:
  assumes "emits Q m"
  obtains ext where "trace (snd (m s)) = trace s @ ext" "list_all Q ext"
  using assms unfolding emits_def by blast

lemma emits_bind:
  assumes "emits Q m" and "\<And>x. emits Q (f x)"
  shows "emits Q (bind m f)"
proof (rule emitsI)
  fix s
  obtain r s1 where ms: "m s = (r, s1)" by (cases "m s")
  obtain e1 where e1: "trace s1 = trace s @ e1" "list_all Q e1"
    using emitsD [OF assms(1), of s] ms by auto
  show "\<exists>ext. trace (snd (bind m f s)) = trace s @ ext \<and> list_all Q ext"
  proof (cases r)
    case (Inl e)
    then show ?thesis using ms e1 by (simp add: bind_def)
  next
    case (Inr x)
    obtain e2 where e2: "trace (snd (f x s1)) = trace s1 @ e2" "list_all Q e2"
      using emitsD [OF assms(2), of x s1] by auto
    have "trace (snd (bind m f s)) = trace s @ (e1 @ e2)"
      using Inr ms e1 e2 by (simp add: bind_def)
    moreover have "list_all Q (e1 @ e2)" using e1 e2 by simp
    ultimately show ?thesis by blast
  qed
qed

lemma emits_try_catch:
  assumes "emits Q m" and "\<And>e. emits Q (h e)"
  shows "emits Q (try_catch m h)"
proof (rule emitsI)
  fix s
  obtain r s1 where ms: "m s = (r, s1)" by (cases "m s")
  obtain e1 where e1: "trace s1 = trace s @ e1" "list_all Q e1"
    using emitsD [OF assms(1), of s] ms by auto
  show "\<exists>ext. trace (snd (try_catch m h s)) = trace s @ ext \<and> list_all Q ext"
  proof (cases r)
    case (Inr x)
    then show ?thesis using ms e1 by (simp add: try_catch_def)
  next
    case (Inl e)
    obtain e2 where e2: "trace (snd (h e s1)) = trace s1 @ e2" "list_all Q e2"
      using emitsD [OF assms(2), of e s1] by auto
    have "trace (snd (try_catch m h s)) = trace s @ (e1 @ e2)"
      using Inl ms e1 e2 by (simp add: try_catch_def)
    moreover have "list_all Q (e1 @ e2)" using e1 e2 by simp
    ultimately show ?thesis by blast
  qed
qed

lemma emits_log: "Q (Log lvl msg) \<Longrightarrow> emits Q (log msg lvl)"
  by (simp add: emits_def log_def)

lemma emits_ret: "emits Q (ret x)"
  by (simp add: emits_def ret_def)

lemma emits_throw: "emits Q (throw e)"
  by (simp add: emits_def throw_def)

lemma emits_lift: "emits Q (lift r)"
  by (simp add: emits_def lift_def)

lemma emits_read: "emits Q (\<lambda>s. (g s, s))"
  by (simp add: emits_def)

lemma emits_showHelp: "Q (Print help_text) \<Longrightarrow> emits Q showHelp"
  by (simp add: emits_def showHelp_def)

lemma emits_execSync: "Q (Spawn c) \<Longrightarrow> emits Q (execSync nd c cwd io)"
  by (simp add: emits_def execSync_def split: prod.splits)

lemma emits_mkdir: "emits Q (fs_mkdirSync nd p)"
  by (simp add: emits_def fs_mkdirSync_def split: prod.splits)

lemma emits_env: "emits Q (process_env_set nd k v)"
  by (simp add: emits_def process_env_set_def)

lemma emits_if: "emits Q a \<Longrightarrow> emits Q b \<Longrightarrow> emits Q (if c then a else b)"
  by simp

lemma emits_case_option:
  "emits Q a \<Longrightarrow> (\<And>x. emits Q (b x)) \<Longrightarrow> emits Q (case v of None \<Rightarrow> a | Some x \<Rightarrow> b x)"
  by (cases v) simp_all

lemma emits_case_prod: "(\<And>a b. emits Q (f a b)) \<Longrightarrow> emits Q (case p of (a, b) \<Rightarrow> f a b)"
  by (cases p) simp

lemmas emits_intros = emits_bind emits_try_catch emits_log emits_ret emits_throw emits_lift
  emits_read emits_execSync emits_mkdir emits_env emits_if emits_case_option emits_case_prod

lemma emits_execCommand:
  assumes "Q (Log Info (''Executing: '' @ c))" "Q (Spawn c)"
    and "\<And>e. Q (Log Err (''Command failed: '' @ message e))"
  shows "emits Q (execCommand nd m c)"
  unfolding execCommand_def by (intro emits_intros assms)

lemma quiet_execCommand: "emits unannounced (execCommand nd m c)"
  by (rule emits_execCommand) (simp_all add: unannounced_def step_of_def)

lemma quiet_log:
  "msg \<notin> {''Skipping upstream sync as requested'', ''Syncing with upstream VS Code...'',
      ''Installing dependencies...'', ''Building CursorClone...'', ''Packaging application...'',
      ''Creating archive...'', ''Validating build...''} \<Longrightarrow> emits unannounced (log msg lvl)"
  by (rule emits_log) (simp add: unannounced_def step_of_def)

section \<open>The opening line of each step\<close>

lemma steps_entered_append [simp]:
  "steps_entered (xs @ ys) = steps_entered xs @ steps_entered ys"
  by (simp add: steps_entered_def map_filter_def)

lemma steps_entered_quiet: "list_all unannounced ext \<Longrightarrow> steps_entered ext = []"
  by (induction ext) (simp_all add: steps_entered_def map_filter_def unannounced_def)

lemma announce:
  assumes "emits unannounced rest" and "step_of (Log Info banner) = Some st"
  shows "steps_entered (trace (snd (bind (log banner Info) (\<lambda>_. rest) s))) = steps_entered (trace s) @ [st]"
proof -
  define s1 where "s1 = s\<lparr>trace := trace s @ [Log Info banner]\<rparr>"
  obtain ext where ext: "trace (snd (rest s1)) = trace s1 @ ext" "list_all unannounced ext"
    using emitsD [OF assms(1)] by blast
  have "steps_entered (trace (snd (rest s1))) = steps_entered (trace s1) @ steps_entered ext"
    by (simp only: ext steps_entered_append)
  moreover have "steps_entered ext = []"
    using ext(2) by (rule steps_entered_quiet)
  moreover have "steps_entered (trace s1) = steps_entered (trace s) @ [st]"
    using assms(2) by (simp add: s1_def) (simp add: steps_entered_def map_filter_def)
  moreover have "bind (log banner Info) (\<lambda>_. rest) s = rest s1"
    by (simp add: s1_def)
  ultimately show ?thesis by simp
qed

lemma quiet_sync_body:
  "emits unannounced (try_catch
          (bind (execCommand nd m ''git fetch upstream'') (\<lambda>_.
           bind (execCommand nd m ''git branch --show-current'') (\<lambda>out.
           bind (lift (js_trim out)) (\<lambda>currentBranch.
           bind (\<lambda>s. (Inr (''backup-'' @ digits (date_now nd (world s))), s)) (\<lambda>backupBranch.
           bind (execCommand nd m (''git checkout -b '' @ backupBranch)) (\<lambda>_.
           bind (execCommand nd m (''git checkout '' @ currentBranch)) (\<lambda>_.
           bind (log ''Merging upstream changes...'' Info) (\<lambda>_.
           bind (execCommand nd m ''git merge upstream/main --no-edit'') (\<lambda>_.
           log ''Successfully synced with upstream'' Info)))))))))
          (\<lambda>error.
             bind (log ''Failed to sync with upstream. Please resolve conflicts manually.'' Err)
               (\<lambda>_. throw error)))"
  by (intro emits_bind emits_try_catch quiet_execCommand quiet_log emits_lift emits_read emits_throw) simp_all

lemma syncWithUpstream_steps:
  "steps_entered (trace (snd (syncWithUpstream nd m s))) = steps_entered (trace s) @ [Sync]"
proof (cases "skipSync m")
  case True
  then show ?thesis
    by (simp add: syncWithUpstream_def log_def steps_entered_def map_filter_def step_of_def)
next
  case False
  then show ?thesis
    unfolding syncWithUpstream_def
    by (simp only: if_False) (rule announce [OF quiet_sync_body], simp add: step_of_def)
qed

lemma installDependencies_steps:
  "steps_entered (trace (snd (installDependencies nd m s))) = steps_entered (trace s) @ [Install]"
  unfolding installDependencies_def
  by (rule announce) (intro emits_bind quiet_execCommand quiet_log, simp_all add: step_of_def)

lemma buildCursorClone_steps:
  "steps_entered (trace (snd (buildCursorClone nd m s))) = steps_entered (trace s) @ [Build]"
  unfolding buildCursorClone_def
  by (rule announce) (intro emits_bind quiet_execCommand quiet_log, simp_all add: step_of_def)

lemma packageApplication_steps:
  "steps_entered (trace (snd (packageApplication nd m s))) = steps_entered (trace s) @ [Package]"
  unfolding packageApplication_def
  by (rule announce)
    (intro emits_bind emits_if emits_lift emits_env emits_ret quiet_execCommand quiet_log,
      simp_all add: step_of_def)

lemma createArchive_steps:
  "steps_entered (trace (snd (createArchive nd m s))) = steps_entered (trace s) @ [Archive]"
  unfolding createArchive_def Let_def
  by (rule announce)
    (intro emits_bind emits_if emits_lift emits_read emits_mkdir emits_case_option emits_case_prod
      quiet_execCommand quiet_log, simp_all add: step_of_def)

lemma validateBuild_steps:
  "steps_entered (trace (snd (validateBuild nd m s))) = steps_entered (trace s) @ [Validate]"
  unfolding validateBuild_def
  by (rule announce)
    (intro emits_bind emits_if emits_lift emits_read emits_ret emits_case_option quiet_log,
      simp_all add: step_of_def)

section \<open>The pipeline as a chain of steps\<close>

lemma spawned_append [simp]: "spawned (xs @ ys) = spawned xs @ spawned ys"
  by (simp add: spawned_def map_filter_def)

lemma spawned_Log [simp]: "spawned [Log lvl msg] = []"
  by (simp add: spawned_def map_filter_def)

lemma run_all_build_fails:
  assumes "syncWithUpstream nd m s0 = (Inr u1, s1)"
    and "installDependencies nd m s1 = (Inr u2, s2)"
    and "buildCursorClone nd m s2 = (Inl e, s3)"
  shows "run_all nd m s0 = (Inl e, s3)"
  using assms by (simp add: run_all_def bind_def)

lemma run_all_chain:
  assumes "syncWithUpstream nd m s0 = (Inr u1, s1)"
    and "installDependencies nd m s1 = (Inr u2, s2)"
    and "buildCursorClone nd m s2 = (Inr u3, s3)"
    and "packageApplication nd m s3 = (Inr u4, s4)"
    and "createArchive nd m s4 = (Inr u5, s5)"
    and "validateBuild nd m s5 = (Inr r, s6)"
  shows "run_all nd m s0 =
    (Inr (), s6\<lparr>trace := trace s6 @ [Log Info ''Complete build pipeline finished'']\<rparr>)"
  using assms by (simp add: run_all_def bind_def log_def)

lemma run_all_Inr_chain:
  assumes "run_all nd m s0 = (Inr u, s')"
  shows "\<exists>u1 s1 u2 s2 u3 s3 u4 s4 u5 s5 r s6.
      syncWithUpstream nd m s0 = (Inr u1, s1) \<and> installDependencies nd m s1 = (Inr u2, s2)
    \<and> buildCursorClone nd m s2 = (Inr u3, s3) \<and> packageApplication nd m s3 = (Inr u4, s4)
    \<and> createArchive nd m s4 = (Inr u5, s5) \<and> validateBuild nd m s5 = (Inr r, s6)"
  using assms unfolding run_all_def bind_def
  by (auto split: prod.splits sum.splits)

lemma steps_of_snd:
  assumes "f s = (r, s')" and "\<And>s. steps_entered (trace (snd (f s))) = steps_entered (trace s) @ [st]"
  shows "steps_entered (trace s') = steps_entered (trace s) @ [st]"
  using assms(2) [of s] assms(1) by simp

lemmas eval_defs = sample_node_def constructor_def getPlatformArg_def getArchArg_def truthy_at_def
  command_arg_def init_def syncWithUpstream_def installDependencies_def buildCursorClone_def
  execCommand_def execSync_def try_catch_def throw_def bind_def log_def ret_def lift_def

lemma createArchive_missing:
  assumes "require_json nd ''./package.json'' (world s) = Inr pkg"
    and "get_prop pkg ''version'' = Inr v"
    and "archive_target nd m v = Inr t"
    and "\<not> source_exists nd t (world s)"
  shows "createArchive nd m s =
    (Inr (), s\<lparr>trace := trace s @ [Log Info ''Creating archive...'',
        Log Err ''Build directory not found. Please run build first.'']\<rparr>)"
  using assms by (cases t) (auto simp: createArchive_def bind_def log_def lift_def)

lemmas eval_defs2 = eval_defs packageApplication_def createArchive_def validateBuild_def
  run_def run_switch_def run_all_def main_def unsupported_def PLATFORMS_def archive_target_def
  source_exists_def requiredFiles_def process_env_set_def fs_mkdirSync_def get_prop.simps
  sample_dirname_def sample_basename_def dquote_def

section \<open>Child processes started by a command\<close>

lemma spawned_Spawn [simp]: "spawned [Spawn c] = [c]"
  by (simp add: spawned_def map_filter_def)

lemma spawned_Cons_Log [simp]: "spawned (Log lvl msg # tr) = spawned tr"
  by (simp add: spawned_def map_filter_def)

lemma spawned_Cons_Spawn [simp]: "spawned (Spawn c # tr) = c # spawned tr"
  by (simp add: spawned_def map_filter_def)

lemma spawned_Nil [simp]: "spawned [] = []"
  by (simp add: spawned_def map_filter_def)

lemma execCommand_cases:
  obtains (ok) out w' where
      "spawnSync nd c (rootDir m) (if isVerbose m then Inherit else Pipe) (world s) = (Inr out, w')"
      "execCommand nd m c s = (Inr (if isVerbose m then JNull else JStr out),
         \<lparr>world = w', trace = trace s @ [Log Info (''Executing: '' @ c), Spawn c]\<rparr>)"
  | (fail) e w' where
      "spawnSync nd c (rootDir m) (if isVerbose m then Inherit else Pipe) (world s) = (Inl e, w')"
      "execCommand nd m c s = (Inl e,
         \<lparr>world = w', trace = trace s @ [Log Info (''Executing: '' @ c), Spawn c,
           Log Err (''Command failed: '' @ message e)]\<rparr>)"
proof -
  obtain r w' where sp: "spawnSync nd c (rootDir m) (if isVerbose m then Inherit else Pipe) (world s) = (r, w')"
    by (cases "spawnSync nd c (rootDir m) (if isVerbose m then Inherit else Pipe) (world s)")
  show thesis
  proof (cases r)
    case (Inl e)
    with sp fail execCommand_fail [of nd c m s e w'] show ?thesis by simp
  next
    case (Inr out)
    with sp ok execCommand_ok [of nd c m s out w'] show ?thesis by simp
  qed
qed

lemma spawned_execCommand:
  "spawned (trace (snd (execCommand nd m c s))) = spawned (trace s) @ [c]"
  by (cases rule: execCommand_cases [of nd c m s]) simp_all

section \<open>The package step\<close>

lemma bind_env [simp]:
  "bind (process_env_set nd k v) f s = f () (s\<lparr>world := set_env nd k v (world s)\<rparr>)"
  by (simp add: bind_def process_env_set_def)

lemma bind_bind_ret: "bind (bind x (\<lambda>_. ret ())) f = bind x (\<lambda>_. f ())"
  by (rule ext) (simp add: bind_def ret_def split: prod.splits sum.splits)

lemma unsupported_False:
  assumes "p \<in> {''darwin'', ''linux'', ''win32''}" and "a \<in> {''x64'', ''arm64''}"
  shows "unsupported p a = Inr False"
  using assms by (auto simp: unsupported_def PLATFORMS_def)

lemma packageApplication_supported:
  assumes "targetPlatform m \<in> {''darwin'', ''linux'', ''win32''}"
    and "targetArch m \<in> {''x64'', ''arm64''}"
  shows "packageApplication nd m s =
     bind (execCommand nd m (''npm run gulp -- vscode-'' @ targetPlatform m @ ''-'' @ targetArch m))
       (\<lambda>_. log ''Application packaged successfully'' Info)
       (s\<lparr>trace := trace s @ [Log Info ''Packaging application...''],
          world := set_env nd ''VSCODE_ARCH'' (targetArch m)
                      (set_env nd ''VSCODE_PLATFORM'' (targetPlatform m) (world s))\<rparr>)"
proof -
  have branch: "(if targetPlatform m = ''darwin''
               then bind (execCommand nd m (''npm run gulp -- vscode-darwin-'' @ targetArch m)) (\<lambda>_. ret ())
               else if targetPlatform m = ''linux''
               then bind (execCommand nd m (''npm run gulp -- vscode-linux-'' @ targetArch m)) (\<lambda>_. ret ())
               else if targetPlatform m = ''win32''
               then bind (execCommand nd m (''npm run gulp -- vscode-win32-'' @ targetArch m)) (\<lambda>_. ret ())
               else ret ())
     = bind (execCommand nd m (''npm run gulp -- vscode-'' @ targetPlatform m @ ''-'' @ targetArch m))
         (\<lambda>_. ret () :: (_, unit) io)"
    using assms(1) by auto
  show ?thesis
    unfolding packageApplication_def branch
    by (simp add: unsupported_False [OF assms] bind_bind_ret)
qed

lemma packageApplication_spawns:
  assumes "targetPlatform m \<in> {''darwin'', ''linux'', ''win32''}"
    and "targetArch m \<in> {''x64'', ''arm64''}"
  shows "spawned (trace (snd (packageApplication nd m s))) =
     spawned (trace s) @ [''npm run gulp -- vscode-'' @ targetPlatform m @ ''-'' @ targetArch m]"
proof -
  let ?c = "''npm run gulp -- vscode-'' @ targetPlatform m @ ''-'' @ targetArch m"
  let ?s1 = "s\<lparr>trace := trace s @ [Log Info ''Packaging application...''],
          world := set_env nd ''VSCODE_ARCH'' (targetArch m)
                      (set_env nd ''VSCODE_PLATFORM'' (targetPlatform m) (world s))\<rparr>"
  have "spawned (trace (snd (bind (execCommand nd m ?c) (\<lambda>_. log ''Application packaged successfully'' Info) ?s1)))
      = spawned (trace ?s1) @ [?c]"
    by (cases rule: execCommand_cases [of nd ?c m ?s1]) (simp_all add: bind_def log_def)
  then show ?thesis
    by (simp only: packageApplication_supported [OF assms]) simp
qed

lemma packageApplication_unsupported:
  assumes "targetPlatform m \<notin> {''darwin'', ''linux'', ''win32''} \<or> targetArch m \<notin> {''x64'', ''arm64''}"
    and "targetPlatform m \<notin> set object_prototype_keys"
  shows "packageApplication nd m s =
     (Inr (), s\<lparr>trace := trace s @ [Log Info ''Packaging application...'',
        Log Err (''Unsupported platform/arch combination: '' @ targetPlatform m @ ''/'' @ targetArch m)]\<rparr>)"
  using assms
  by (auto simp: packageApplication_def unsupported_def PLATFORMS_def log_def)

section \<open>Traces only grow\<close>

lemma emits_prefix:
  assumes "emits Q m"
  shows "prefix (trace s) (trace (snd (m s)))"
  using assms unfolding emits_def by (metis prefixI)

lemma bind_extends:
  assumes "\<And>x. emits Q (f x)"
  shows "prefix (trace (snd (m s))) (trace (snd (bind m f s)))"
proof (cases "m s")
  case (Pair r s1)
  show ?thesis
  proof (cases r)
    case (Inl e)
    with Pair show ?thesis by (simp add: bind_def)
  next
    case (Inr x)
    have "prefix (trace s1) (trace (snd (f x s1)))"
      using assms [of x] by (rule emits_prefix)
    with Pair Inr show ?thesis by (simp add: bind_def)
  qed
qed

lemma any_execCommand: "emits (\<lambda>_. True) (execCommand nd m c)"
  by (rule emits_execCommand) simp_all

lemma any_log: "emits (\<lambda>_. True) (log msg lvl)"
  by (rule emits_log) simp

lemma any_buildCursorClone: "emits (\<lambda>_. True) (buildCursorClone nd m)"
  unfolding buildCursorClone_def by (intro emits_bind any_execCommand any_log)

lemma any_packageApplication: "emits (\<lambda>_. True) (packageApplication nd m)"
  unfolding packageApplication_def
  by (intro emits_bind emits_if emits_lift emits_env emits_ret any_execCommand any_log)

lemma any_createArchive: "emits (\<lambda>_. True) (createArchive nd m)"
  unfolding createArchive_def Let_def
  by (intro emits_bind emits_if emits_lift emits_read emits_mkdir emits_case_option emits_case_prod
      any_execCommand any_log)

lemma any_validateBuild: "emits (\<lambda>_. True) (validateBuild nd m)"
  unfolding validateBuild_def
  by (intro emits_bind emits_if emits_lift emits_read emits_ret emits_case_option any_log)

lemma installDependencies_starts:
  "prefix (trace s @ [Log Info ''Installing dependencies...'', Log Info ''Executing: npm install'',
       Spawn ''npm install'']) (trace (snd (installDependencies nd m s)))"
proof -
  let ?s1 = "s\<lparr>trace := trace s @ [Log Info ''Installing dependencies...'']\<rparr>"
  show ?thesis
    by (cases rule: execCommand_cases [of nd "''npm install''" m ?s1])
      (simp_all add: installDependencies_def bind_def log_def)
qed

lemma run_extends: "prefix (trace (snd (run_switch nd m (command_arg nd) s))) (trace (snd (run nd m s)))"
  by (simp add: run_def log_def split: prod.splits sum.splits)

section \<open>The outcome of a command\<close>

lemma execCommand_result:
  "fst (execCommand nd m c s) =
     (case fst (spawnSync nd c (rootDir m) (if isVerbose m then Inherit else Pipe) (world s)) of
        Inl e \<Rightarrow> Inl e
      | Inr out \<Rightarrow> Inr (if isVerbose m then JNull else JStr out))"
  by (cases rule: execCommand_cases [of nd c m s]) simp_all

lemma execCommand_flags_result:
  "fst (execCommand_flags nd m c s) =
     (case fst (spawnSync nd c (rootDir m) (if isVerbose m then Inherit else Pipe) (world s)) of
        Inl e \<Rightarrow> Inl e
      | Inr out \<Rightarrow> Inr (if isVerbose m then JNull else JStr out))"
  by (simp add: execCommand_flags_def try_catch_def execSync_def throw_def bind_def log_def
       split: prod.splits sum.splits)

section \<open>The archive step\<close>

lemma archive_target_linux_win32:
  assumes "targetPlatform m = ''linux'' \<or> targetPlatform m = ''win32''"
    and "js_to_string ver = Inr v"
  shows "archive_target nd m ver =
     Inr (Some (''CursorClone-'' @ v @ ''-'' @ targetPlatform m @ ''-'' @ targetArch m
                  @ (if targetPlatform m = ''linux'' then ''.tar.gz'' else ''.zip''),
                path_join nd [path_join nd [rootDir m, ''.build''],
                  ''VSCode-'' @ targetPlatform m @ ''-x64'']))"
  using assms by (auto simp: archive_target_def)

lemma bind_mkdir:
  "bind (fs_mkdirSync nd p) f s =
     (case mkdirSync nd p (world s) of
        (Inl e, w') \<Rightarrow> (Inl e, s\<lparr>world := w'\<rparr>)
      | (Inr u, w') \<Rightarrow> f u (s\<lparr>world := w'\<rparr>))"
  by (simp add: bind_def fs_mkdirSync_def split: prod.splits sum.splits)

lemma createArchive_spawns:
  assumes "require_json nd ''./package.json'' (world s) = Inr pkg"
    and "get_prop pkg ''version'' = Inr ver"
    and "archive_target nd m ver = Inr (Some (name, src))"
  shows "spawned (trace (snd (createArchive nd m s))) =
     spawned (trace s) @
       (if existsSync nd src (world s)
           \<and> succeeded (fst (mkdirSync nd (path_dirname nd (path_join nd [rootDir m, ''releases'', name])) (world s)))
        then [if targetPlatform m = ''linux''
              then ''tar -czf '' @ dquote @ path_join nd [rootDir m, ''releases'', name] @ dquote
                     @ '' -C '' @ dquote @ path_dirname nd src @ dquote @ '' '' @ dquote
                     @ path_basename nd src @ dquote
              else ''cd '' @ dquote @ path_dirname nd src @ dquote @ '' && zip -r '' @ dquote
                     @ path_join nd [rootDir m, ''releases'', name] @ dquote @ '' '' @ dquote
                     @ path_basename nd src @ dquote]
        else [])"
proof -
  let ?ap = "path_join nd [rootDir m, ''releases'', name]"
  let ?s1 = "s\<lparr>trace := trace s @ [Log Info ''Creating archive...'']\<rparr>"
  let ?cmd = "if targetPlatform m = ''linux''
              then ''tar -czf '' @ dquote @ ?ap @ dquote
                     @ '' -C '' @ dquote @ path_dirname nd src @ dquote @ '' '' @ dquote
                     @ path_basename nd src @ dquote
              else ''cd '' @ dquote @ path_dirname nd src @ dquote @ '' && zip -r '' @ dquote
                     @ ?ap @ dquote @ '' '' @ dquote
                     @ path_basename nd src @ dquote"
  show ?thesis
  proof (cases "existsSync nd src (world s)")
    case False
    then show ?thesis
      using assms by (simp add: createArchive_def bind_def lift_def source_exists_def log_def)
  next
    case True
    obtain r w' where mk: "mkdirSync nd (path_dirname nd ?ap) (world s) = (r, w')"
      by (cases "mkdirSync nd (path_dirname nd ?ap) (world s)")
    have step: "createArchive nd m s =
        bind (fs_mkdirSync nd (path_dirname nd ?ap)) (\<lambda>_.
          bind (execCommand nd m ?cmd) (\<lambda>_. log (''Archive created: '' @ name) Info)) ?s1"
      using assms True
      by (simp add: createArchive_def bind_def [of "\<lambda>s. (_ s, s)"] lift_def source_exists_def Let_def
            if_distrib [of "\<lambda>c. execCommand nd m c"] cong: if_cong)
    show ?thesis
    proof (cases r)
      case (Inl e)
      with mk True show ?thesis by (simp add: step bind_mkdir succeeded_def)
    next
      case (Inr u)
      let ?s2 = "?s1\<lparr>world := w'\<rparr>"
      have "spawned (trace (snd (bind (execCommand nd m ?cmd) (\<lambda>_. log (''Archive created: '' @ name) Info) ?s2)))
          = spawned (trace ?s2) @ [?cmd]"
        by (cases rule: execCommand_cases [of nd ?cmd m ?s2]) (simp_all add: bind_def log_def)
      with Inr mk True show ?thesis by (simp add: step bind_mkdir succeeded_def)
    qed
  qed
qed

section \<open>Validation in the flag-driven script\<close>

lemma validateBuild_flags_mismatch:
  assumes "read_json nd ''product.json'' (world s) = Inr product"
    and "get_prop product ''nameShort'' \<noteq> Inr (JStr ''CursorClone'')
       \<or> get_prop product ''applicationName'' \<noteq> Inr (JStr ''cursorclone'')"
  shows "\<exists>e. validateBuild_flags nd m s =
     (Inl e, s\<lparr>trace := trace s @ [Log Info (emoji_glass @ '' Validating build...'')]\<rparr>)"
proof (cases "get_prop product ''nameShort''")
  case (Inl e)
  with assms(1) show ?thesis by (simp add: validateBuild_flags_def bind_def log_def lift_def)
next
  case n: (Inr nameShort)
  show ?thesis
  proof (cases "nameShort = JStr ''CursorClone''")
    case False
    with n assms(1) show ?thesis by (simp add: validateBuild_flags_def bind_def throw_def log_def lift_def)
  next
    case True
    with n assms(2) have a: "get_prop product ''applicationName'' \<noteq> Inr (JStr ''cursorclone'')"
      by simp
    show ?thesis
    proof (cases "get_prop product ''applicationName''")
      case (Inl e)
      with n True assms(1) show ?thesis by (simp add: validateBuild_flags_def bind_def log_def lift_def)
    next
      case (Inr applicationName)
      with a n True assms(1) show ?thesis
        by (simp add: validateBuild_flags_def bind_def throw_def log_def lift_def)
    qed
  qed
qed

section \<open>Statements that return\<close>

lemma yieldsD:
  assumes "yields P m"
  obtains x s' where "m s = (Inr x, s')" "P x"
proof -
  from assms have "case fst (m s) of Inl e \<Rightarrow> False | Inr x \<Rightarrow> P x"
    by (simp add: yields_def)
  then show thesis
    using that by (cases "m s"; cases "fst (m s)") auto
qed

lemma yields_bind:
  assumes "yields P m" and "\<And>x. P x \<Longrightarrow> yields Q (f x)"
  shows "yields Q (bind m f)"
  unfolding yields_def
proof
  fix s
  obtain x s' where ms: "m s = (Inr x, s')" "P x"
    using assms(1) by (rule yieldsD)
  from assms(2) [OF ms(2)] have "case fst (f x s') of Inl e \<Rightarrow> False | Inr y \<Rightarrow> Q y"
    by (simp add: yields_def)
  with ms show "case fst (bind m f s) of Inl e \<Rightarrow> False | Inr y \<Rightarrow> Q y"
    by (simp add: bind_def)
qed

lemma yields_weaken: "yields P m \<Longrightarrow> (\<And>x. P x \<Longrightarrow> Q x) \<Longrightarrow> yields Q m"
  by (auto simp: yields_def split: sum.splits)

lemma yields_seq:
  assumes "yields P m" and "\<And>x. yields Q (f x)"
  shows "yields Q (bind m f)"
  using assms by (blast intro: yields_bind)

lemma yields_try_catch:
  assumes "yields P m"
  shows "yields P (try_catch m h)"
  unfolding yields_def
proof
  fix s
  obtain x s' where "m s = (Inr x, s')" "P x"
    using assms by (rule yieldsD)
  then show "case fst (try_catch m h s) of Inl e \<Rightarrow> False | Inr y \<Rightarrow> P y"
    by (simp add: try_catch_def)
qed

lemma runs_seq:
  assumes "yields (\<lambda>_. True) m" and "\<And>x. yields Q (f x)"
  shows "yields Q (bind m f)"
  using assms by (blast intro: yields_bind)

lemma runs_log: "yields (\<lambda>_. True) (log msg lvl)"
  by (simp add: yields_def log_def)

lemma yields_log: "P () \<Longrightarrow> yields P (log msg lvl)"
  by (simp add: yields_def log_def)

lemma yields_ret: "P x \<Longrightarrow> yields P (ret x)"
  by (simp add: yields_def ret_def)

lemma yields_lift: "P x \<Longrightarrow> yields P (lift (Inr x))"
  by (simp add: yields_def lift_def)

lemma bind_lift_Inr: "bind (lift (Inr x)) f = f x"
  by (rule ext) simp

lemma runs_lift: "yields (\<lambda>_. True) (lift (Inr x))"
  by (simp add: yields_def lift_def)

lemma runs_ret: "yields (\<lambda>_. True) (ret x)"
  by (simp add: yields_def ret_def)

lemma yields_read: "(\<And>s. case g s of Inl e \<Rightarrow> False | Inr x \<Rightarrow> P x) \<Longrightarrow> yields P (\<lambda>s. (g s, s))"
  by (simp add: yields_def)

lemma yields_execCommand:
  assumes "\<And>c cwd io w. succeeded (fst (spawnSync nd c cwd io w))"
  shows "yields (\<lambda>v. isVerbose m \<or> (\<exists>out. v = JStr out)) (execCommand nd m c)"
  unfolding yields_def
proof
  fix s
  show "case fst (execCommand nd m c s) of Inl e \<Rightarrow> False
        | Inr v \<Rightarrow> isVerbose m \<or> (\<exists>out. v = JStr out)"
  proof (cases rule: execCommand_cases [of nd c m s])
    case (ok out w')
    then show ?thesis by simp
  next
    case (fail e w')
    with assms [of c "rootDir m" "if isVerbose m then Inherit else Pipe" "world s"]
    show ?thesis by (simp add: succeeded_def)
  qed
qed

lemma runs_execCommand:
  assumes "\<And>c cwd io w. succeeded (fst (spawnSync nd c cwd io w))"
  shows "yields (\<lambda>_. True) (execCommand nd m c)"
  using yields_execCommand [OF assms] by (rule yields_weaken) simp

lemma runs_installDependencies:
  assumes "\<And>c cwd io w. succeeded (fst (spawnSync nd c cwd io w))"
  shows "yields (\<lambda>_. True) (installDependencies nd m)"
  unfolding installDependencies_def
  by (intro runs_seq runs_log runs_execCommand assms)

lemma runs_buildCursorClone:
  assumes "\<And>c cwd io w. succeeded (fst (spawnSync nd c cwd io w))"
  shows "yields (\<lambda>_. True) (buildCursorClone nd m)"
  unfolding buildCursorClone_def
  by (intro runs_seq runs_log runs_execCommand assms)

lemma runs_syncWithUpstream:
  assumes "\<And>c cwd io w. succeeded (fst (spawnSync nd c cwd io w))"
    and "skipSync m \<or> \<not> isVerbose m"
  shows "yields (\<lambda>_. True) (syncWithUpstream nd m)"
proof (cases "skipSync m")
  case True
  then show ?thesis by (simp add: syncWithUpstream_def runs_log)
next
  case False
  with assms(2) have quiet: "\<not> isVerbose m" by simp
  have tail: "yields (\<lambda>_. True)
      (bind (lift (js_trim out)) (\<lambda>currentBranch.
           bind (\<lambda>s. (Inr (''backup-'' @ digits (date_now nd (world s))), s)) (\<lambda>backupBranch.
           bind (execCommand nd m (''git checkout -b '' @ backupBranch)) (\<lambda>_.
           bind (execCommand nd m (''git checkout '' @ currentBranch)) (\<lambda>_.
           bind (log ''Merging upstream changes...'' Info) (\<lambda>_.
           bind (execCommand nd m ''git merge upstream/main --no-edit'') (\<lambda>_.
           log ''Successfully synced with upstream'' Info)))))))"
    if "isVerbose m \<or> (\<exists>str. out = JStr str)" for out
  proof -
    from that quiet obtain str where out: "out = JStr str" by blast
    have "yields (\<lambda>_. True) (\<lambda>s. (Inr (''backup-'' @ digits (date_now nd (world s))) :: js_error + string, s))"
      by (rule yields_read) simp
    then show ?thesis
      unfolding out js_trim.simps
      by (intro runs_seq runs_log runs_execCommand assms(1) runs_lift)
  qed
  have body: "yields (\<lambda>_. True)
     (bind (execCommand nd m ''git fetch upstream'') (\<lambda>_.
           bind (execCommand nd m ''git branch --show-current'') (\<lambda>out.
           bind (lift (js_trim out)) (\<lambda>currentBranch.
           bind (\<lambda>s. (Inr (''backup-'' @ digits (date_now nd (world s))), s)) (\<lambda>backupBranch.
           bind (execCommand nd m (''git checkout -b '' @ backupBranch)) (\<lambda>_.
           bind (execCommand nd m (''git checkout '' @ currentBranch)) (\<lambda>_.
           bind (log ''Merging upstream changes...'' Info) (\<lambda>_.
           bind (execCommand nd m ''git merge upstream/main --no-edit'') (\<lambda>_.
           log ''Successfully synced with upstream'' Info)))))))))"
    by (rule runs_seq [OF runs_execCommand [OF assms(1)]],
        rule yields_bind [OF yields_execCommand [OF assms(1)]], rule tail)
  show ?thesis
    unfolding syncWithUpstream_def if_not_P [OF False]
    by (rule runs_seq [OF runs_log], rule yields_try_catch, rule body)
qed

lemma prefix_spawned:
  assumes "prefix a b"
  shows "set (spawned a) \<subseteq> set (spawned b)"
proof -
  from assms obtain c where "b = a @ c" by (auto simp: prefix_def)
  then show ?thesis by simp
qed

section \<open>The sync step under \<open>--verbose\<close>\<close>

text \<open>
  With \<open>--verbose\<close> the child processes write to the terminal and \<open>execSync\<close> returns
  \<open>null\<close>. The sync step then throws on \<open>.trim()\<close> of the branch name, although every
  child process succeeded.
\<close>

lemma verbose_sync_throws:
  fixes nd :: "'w node"
  assumes "\<And>c cwd io w. succeeded (fst (spawnSync nd c cwd io w))"
    and "isVerbose m" and "\<not> skipSync m"
  shows "fst (syncWithUpstream nd m s) =
     Inl (JsError (''Cannot read properties of null (reading '' @ squote @ ''trim'' @ squote @ '')''))"
proof -
  let ?s0 = "s\<lparr>trace := trace s @ [Log Info ''Syncing with upstream VS Code...'']\<rparr>"
  obtain x1 s1 where e1: "execCommand nd m ''git fetch upstream'' ?s0 = (Inr x1, s1)"
    using runs_execCommand [OF assms(1)] by (rule yieldsD)
  have "yields (\<lambda>v. v = JNull) (execCommand nd m ''git branch --show-current'')"
    unfolding yields_def
  proof
    fix t :: "'w state"
    show "case fst (execCommand nd m ''git branch --show-current'' t) of Inl e \<Rightarrow> False | Inr v \<Rightarrow> v = JNull"
    proof (cases rule: execCommand_cases [of nd "''git branch --show-current''" m t])
      case (ok out w')
      with assms(2) show ?thesis by simp
    next
      case (fail e w')
      with assms(1) [of "''git branch --show-current''" "rootDir m" "if isVerbose m then Inherit else Pipe" "world t"]
      show ?thesis by (simp add: succeeded_def)
    qed
  qed
  then obtain s2 where e2: "execCommand nd m ''git branch --show-current'' s1 = (Inr JNull, s2)"
    by (rule yieldsD) simp
  show ?thesis
    using assms(3) e1 e2
    by (simp add: syncWithUpstream_def try_catch_def bind_def lift_def log_def throw_def)
qed

section \<open>The branding validator and the validate step\<close>

lemma entry_ok_pair: "entry_ok product (k, e) = (get_prop product k = Inr (JStr e))"
  by (simp add: entry_ok_def)

lemma report_line_mismatch:
  assumes "get_prop product k = Inr a" and "a \<noteq> JStr e" and "js_to_string a = Inr got"
  shows "report_line product (k, e) =
     Log Err (''product.json '' @ k @ '': expected '' @ squote @ e @ squote @ '', got '' @ squote @ got @ squote)"
  using assms by (simp add: report_line_def)

lemma report_line_match:
  assumes "get_prop product k = Inr (JStr e)"
  shows "report_line product (k, e) = Log Info (''product.json '' @ k @ '': correct'')"
  using assms by (simp add: report_line_def)

lemma check_entries_spec:
  fixes s :: "'w state"
  assumes "\<And>k e. (k, e) \<in> set entries \<Longrightarrow> \<exists>a got. get_prop product k = Inr a \<and> js_to_string a = Inr got"
  shows "check_entries product entries isValid s =
     (Inr (isValid \<and> list_all (entry_ok product) entries),
      s\<lparr>trace := trace s @ map (report_line product) entries\<rparr>)"
  using assms
proof (induction entries arbitrary: isValid s)
  case Nil
  then show ?case by (simp add: ret_def)
next
  case (Cons entry rest)
  obtain k e where entry: "entry = (k, e)" by (cases entry)
  from Cons.prems [of k e] entry obtain a got where a: "get_prop product k = Inr a" "js_to_string a = Inr got"
    by auto
  have ih: "check_entries product rest v t =
     (Inr (v \<and> list_all (entry_ok product) rest), t\<lparr>trace := trace t @ map (report_line product) rest\<rparr>)"
    for v and t :: "'w state"
  proof (rule Cons.IH)
    fix k' e'
    assume "(k', e') \<in> set rest"
    then show "\<exists>a got. get_prop product k' = Inr a \<and> js_to_string a = Inr got"
      using Cons.prems [of k' e'] by simp
  qed
  show ?case
  proof (cases "a = JStr e")
    case True
    with a show ?thesis
      by (simp add: entry ih report_line_match entry_ok_pair)
  next
    case False
    with a show ?thesis
      by (simp add: entry ih report_line_mismatch entry_ok_pair)
  qed
qed

lemma validateProductJson_read:
  fixes nd :: "'w node" and s :: "'w state"
  assumes "existsSync nd (path_join nd [dirname nd, ''product.json'']) (world s)"
    and "read_json nd (path_join nd [dirname nd, ''product.json'']) (world s) = Inr product"
    and "\<And>k e. (k, e) \<in> set expectedValues \<Longrightarrow> \<exists>a got. get_prop product k = Inr a \<and> js_to_string a = Inr got"
  shows "validateProductJson nd s =
     (list_all (entry_ok product) expectedValues,
      s\<lparr>trace := trace s @ map (report_line product) expectedValues\<rparr>)"
  using assms(1,2) check_entries_spec [of expectedValues product True s, OF assms(3)]
  by (simp add: validateProductJson_def bind_def)

lemma validateBuild_read:
  fixes nd :: "'w node" and s :: "'w state"
  assumes "list_all (\<lambda>file. existsSync nd (path_join nd [rootDir m, file]) (world s)) requiredFiles"
    and "read_json nd (path_join nd [rootDir m, ''product.json'']) (world s) = Inr product"
    and "get_prop product ''applicationName'' = Inr applicationName"
  shows "validateBuild nd m s =
     (Inr (applicationName = JStr ''cursorclone''),
      s\<lparr>trace := trace s @ [Log Info ''Validating build...'',
         if applicationName = JStr ''cursorclone'' then Log Info ''Build validation passed''
         else Log Err ''Product configuration validation failed'']\<rparr>)"
proof -
  have "find (\<lambda>file. \<not> existsSync nd (path_join nd [rootDir m, file]) (world s)) requiredFiles = None"
    using assms(1) by (simp add: find_None_iff list_all_iff)
  then show ?thesis
    using assms(2,3) by (simp add: validateBuild_def bind_def lift_def log_def ret_def)
qed

lemma execSync_read_json: "execSync (nd\<lparr>read_json := f\<rparr>) = execSync nd"
  by (intro ext) (simp add: execSync_def)

lemma execCommand_read_json: "execCommand (nd\<lparr>read_json := f\<rparr>) = execCommand nd"
  by (intro ext) (simp add: execCommand_def execSync_read_json)

lemma fs_mkdirSync_read_json: "fs_mkdirSync (nd\<lparr>read_json := f\<rparr>) = fs_mkdirSync nd"
  by (intro ext) (simp add: fs_mkdirSync_def)

lemma process_env_set_read_json: "process_env_set (nd\<lparr>read_json := f\<rparr>) = process_env_set nd"
  by (intro ext) (simp add: process_env_set_def)

lemma archive_target_read_json: "archive_target (nd\<lparr>read_json := f\<rparr>) = archive_target nd"
  by (intro ext) (simp add: archive_target_def Let_def cong: if_cong sum.case_cong)

lemma source_exists_read_json: "source_exists (nd\<lparr>read_json := f\<rparr>) = source_exists nd"
  by (intro ext) (simp add: source_exists_def cong: option.case_cong)

lemma read_json_unused:
  "syncWithUpstream (nd\<lparr>read_json := f\<rparr>) m = syncWithUpstream nd m"
  "installDependencies (nd\<lparr>read_json := f\<rparr>) m = installDependencies nd m"
  "buildCursorClone (nd\<lparr>read_json := f\<rparr>) m = buildCursorClone nd m"
  "packageApplication (nd\<lparr>read_json := f\<rparr>) m = packageApplication nd m"
  "createArchive (nd\<lparr>read_json := f\<rparr>) m = createArchive nd m"
  by (simp_all add: syncWithUpstream_def installDependencies_def buildCursorClone_def
        packageApplication_def createArchive_def execCommand_read_json process_env_set_read_json
        fs_mkdirSync_read_json archive_target_read_json source_exists_read_json Let_def
      cong: if_cong option.case_cong sum.case_cong)

section \<open>A failed command is never swallowed\<close>

lemma command_failure_line [simp]: "command_failure (Log Err (''Command failed: '' @ msg))"
  by (simp add: command_failure_def)

lemma command_failure_Spawn [simp]: "\<not> command_failure (Spawn c)"
  by (simp add: command_failure_def)

lemma command_failure_Info [simp]: "\<not> command_failure (Log Info msg)"
  by (simp add: command_failure_def)

lemma honestD:
  assumes "honest m"
  obtains ext where "trace (snd (m s)) = trace s @ ext" "list_ex command_failure ext \<Longrightarrow> isl (fst (m s))"
  using assms unfolding honest_def by blast

lemma honest_silent:
  assumes "emits (\<lambda>ev. \<not> command_failure ev) m"
  shows "honest m"
  unfolding honest_def
proof
  fix s
  obtain ext where "trace (snd (m s)) = trace s @ ext" "list_all (\<lambda>ev. \<not> command_failure ev) ext"
    using assms by (rule emitsD)
  then show "\<exists>ext. trace (snd (m s)) = trace s @ ext \<and> (list_ex command_failure ext \<longrightarrow> isl (fst (m s)))"
    by (auto simp: list_all_iff list_ex_iff)
qed

lemma honest_bind:
  assumes "honest m" and "\<And>x. honest (f x)"
  shows "honest (bind m f)"
  unfolding honest_def
proof
  fix s
  obtain r s1 where ms: "m s = (r, s1)" by (cases "m s")
  obtain e1 where e1: "trace s1 = trace s @ e1" "list_ex command_failure e1 \<Longrightarrow> isl r"
    using honestD [OF assms(1), of s] ms by auto
  show "\<exists>ext. trace (snd (bind m f s)) = trace s @ ext
          \<and> (list_ex command_failure ext \<longrightarrow> isl (fst (bind m f s)))"
  proof (cases r)
    case (Inl e)
    then show ?thesis using ms e1 by (simp add: bind_def)
  next
    case (Inr x)
    obtain e2 where e2: "trace (snd (f x s1)) = trace s1 @ e2"
        "list_ex command_failure e2 \<Longrightarrow> isl (fst (f x s1))"
      using honestD [OF assms(2)] by blast
    have "trace (snd (bind m f s)) = trace s @ (e1 @ e2)"
      using Inr ms e1 e2 by (simp add: bind_def)
    moreover have "list_ex command_failure (e1 @ e2) \<longrightarrow> isl (fst (bind m f s))"
      using Inr ms e1(2) e2(2) by (auto simp: bind_def)
    ultimately show ?thesis by blast
  qed
qed

lemma honest_rethrow:
  assumes "honest m" and "\<And>e. emits (\<lambda>ev. \<not> command_failure ev) (h e)"
    and "\<And>e s. isl (fst (h e s))"
  shows "honest (try_catch m h)"
  unfolding honest_def
proof
  fix s
  obtain r s1 where ms: "m s = (r, s1)" by (cases "m s")
  obtain e1 where e1: "trace s1 = trace s @ e1" "list_ex command_failure e1 \<Longrightarrow> isl r"
    using honestD [OF assms(1), of s] ms by auto
  show "\<exists>ext. trace (snd (try_catch m h s)) = trace s @ ext
          \<and> (list_ex command_failure ext \<longrightarrow> isl (fst (try_catch m h s)))"
  proof (cases r)
    case (Inr x)
    then show ?thesis using ms e1 by (auto simp: try_catch_def)
  next
    case (Inl e)
    obtain e2 where e2: "trace (snd (h e s1)) = trace s1 @ e2"
      using emitsD [OF assms(2)] by blast
    have "trace (snd (try_catch m h s)) = trace s @ (e1 @ e2)"
      using Inl ms e1 e2 by (simp add: try_catch_def)
    moreover have "isl (fst (try_catch m h s))"
      using Inl ms assms(3) [of e s1] by (simp add: try_catch_def)
    ultimately show ?thesis by blast
  qed
qed

lemma honest_if: "honest a \<Longrightarrow> honest b \<Longrightarrow> honest (if c then a else b)"
  by simp

lemma honest_case_option:
  "honest a \<Longrightarrow> (\<And>x. honest (b x)) \<Longrightarrow> honest (case v of None \<Rightarrow> a | Some x \<Rightarrow> b x)"
  by (cases v) simp_all

lemma honest_case_prod: "(\<And>a b. honest (f a b)) \<Longrightarrow> honest (case p of (a, b) \<Rightarrow> f a b)"
  by (cases p) simp

lemma honest_execCommand: "honest (execCommand nd m c)"
  unfolding honest_def
proof
  fix s
  show "\<exists>ext. trace (snd (execCommand nd m c s)) = trace s @ ext
          \<and> (list_ex command_failure ext \<longrightarrow> isl (fst (execCommand nd m c s)))"
    by (cases rule: execCommand_cases [of nd c m s]) simp_all
qed

lemma silent_log:
  "\<not> command_failure (Log lvl msg) \<Longrightarrow> honest (log msg lvl)"
  by (rule honest_silent, rule emits_log)

lemma honest_lift: "honest (lift r)"
  by (rule honest_silent, rule emits_lift)

lemma honest_ret: "honest (ret x)"
  by (rule honest_silent, rule emits_ret)

lemma honest_read: "honest (\<lambda>s. (g s, s))"
  by (rule honest_silent, rule emits_read)

lemma honest_mkdir: "honest (fs_mkdirSync nd p)"
  by (rule honest_silent, rule emits_mkdir)

lemma honest_env: "honest (process_env_set nd k v)"
  by (rule honest_silent, rule emits_env)

lemmas honest_intros = honest_bind honest_if honest_case_option honest_case_prod honest_execCommand
  honest_lift honest_ret honest_read honest_mkdir honest_env silent_log

lemma honest_syncWithUpstream: "honest (syncWithUpstream nd m)"
proof (cases "skipSync m")
  case True
  then show ?thesis by (simp add: syncWithUpstream_def silent_log)
next
  case False
  have handler: "emits (\<lambda>ev. \<not> command_failure ev)
      (bind (log ''Failed to sync with upstream. Please resolve conflicts manually.'' Err)
               (\<lambda>_. throw error))" for error :: js_error
    by (intro emits_bind emits_log emits_throw) (simp add: command_failure_def)
  show ?thesis
    unfolding syncWithUpstream_def if_not_P [OF False]
    by (intro honest_bind honest_rethrow honest_execCommand honest_lift honest_read silent_log handler)
      (simp_all add: command_failure_def throw_def)
qed

lemma honest_installDependencies: "honest (installDependencies nd m)"
  unfolding installDependencies_def by (intro honest_intros) simp_all

lemma honest_buildCursorClone: "honest (buildCursorClone nd m)"
  unfolding buildCursorClone_def by (intro honest_intros) simp_all

lemma honest_packageApplication: "honest (packageApplication nd m)"
  unfolding packageApplication_def by (intro honest_intros) (simp_all add: command_failure_def)

lemma honest_createArchive: "honest (createArchive nd m)"
  unfolding createArchive_def Let_def by (intro honest_intros) (simp_all add: command_failure_def)

lemma honest_validateBuild: "honest (validateBuild nd m)"
  unfolding validateBuild_def by (intro honest_intros) (simp_all add: command_failure_def)

lemma honest_run_all: "honest (run_all nd m)"
  unfolding run_all_def
  by (intro honest_bind honest_syncWithUpstream honest_installDependencies honest_buildCursorClone
      honest_packageApplication honest_createArchive honest_validateBuild silent_log) simp

lemma succeededD:
  assumes "succeeded (fst (f s))"
  obtains x where "f s = (Inr x, snd (f s))"
  using assms by (cases "f s"; cases "fst (f s)") (auto simp: succeeded_def)

lemma run_exit_code:
  assumes "command_arg nd = ''all''"
  shows "fst (run nd m s) = (if isl (fst (run_all nd m s)) then 1 else 0)"
  using assms by (cases "run_all nd m s"; cases "fst (run_all nd m s)")
    (auto simp: run_def run_switch_def)

lemma run_trace_returned:
  assumes "command_arg nd = ''all''" and "\<not> isl (fst (run_all nd m s))"
  shows "trace (snd (run nd m s)) = trace (snd (run_all nd m s))"
  using assms by (cases "run_all nd m s"; cases "fst (run_all nd m s)")
    (auto simp: run_def run_switch_def)

lemma prefix_steps_entered:
  assumes "prefix a b"
  shows "prefix (steps_entered a) (steps_entered b)"
proof -
  from assms obtain c where "b = a @ c" by (auto simp: prefix_def)
  then show ?thesis by simp
qed

lemma prefix_spawned_list:
  assumes "prefix a b"
  shows "prefix (spawned a) (spawned b)"
proof -
  from assms obtain c where "b = a @ c" by (auto simp: prefix_def)
  then show ?thesis by simp
qed

lemma yields_succeeded:
  assumes "yields P m"
  shows "succeeded (fst (m s))"
proof -
  obtain x s' where "m s = (Inr x, s')"
    using assms by (rule yieldsD)
  then show ?thesis by (simp add: succeeded_def)
qed

lemma execCommand_target: "execCommand nd (m\<lparr>targetPlatform := p, targetArch := a\<rparr>) = execCommand nd m"
  by (intro ext) (simp add: execCommand_def)

lemma target_unused:
  "syncWithUpstream nd (m\<lparr>targetPlatform := p, targetArch := a\<rparr>) = syncWithUpstream nd m"
  "installDependencies nd (m\<lparr>targetPlatform := p, targetArch := a\<rparr>) = installDependencies nd m"
  "buildCursorClone nd (m\<lparr>targetPlatform := p, targetArch := a\<rparr>) = buildCursorClone nd m"
  by (simp_all add: syncWithUpstream_def installDependencies_def buildCursorClone_def execCommand_target)

lemma installDependencies_spawns:
  "spawned (trace (snd (installDependencies nd m s))) = spawned (trace s) @ [''npm install'']"
proof -
  let ?s1 = "s\<lparr>trace := trace s @ [Log Info ''Installing dependencies...'']\<rparr>"
  show ?thesis
    by (cases rule: execCommand_cases [of nd "''npm install''" m ?s1])
      (simp_all add: installDependencies_def bind_def log_def)
qed

lemma bind_returned:
  assumes "bind m f s = (Inr y, s')"
  obtains x s1 where "m s = (Inr x, s1)" "f x s1 = (Inr y, s')"
  using assms by (cases "m s"; cases "fst (m s)") (auto simp: bind_def)

lemma execCommand_returned:
  assumes "execCommand nd m c s = (Inr x, s')"
  shows "spawned (trace s') = spawned (trace s) @ [c]"
  using spawned_execCommand [of nd m c s] assms by simp

lemma buildCursorClone_spawns:
  assumes "buildCursorClone nd m s = (Inr u, s')"
  shows "spawned (trace s') = spawned (trace s) @
     [''npm run clean'', ''npm run compile'', ''npm run compile-extensions'',
      ''npm run download-builtin-extensions'']"
proof -
  let ?s0 = "s\<lparr>trace := trace s @ [Log Info ''Building CursorClone...'']\<rparr>"
  from assms have "bind (execCommand nd m ''npm run clean'') (\<lambda>_.
     bind (execCommand nd m ''npm run compile'') (\<lambda>_.
     bind (execCommand nd m ''npm run compile-extensions'') (\<lambda>_.
     bind (execCommand nd m ''npm run download-builtin-extensions'') (\<lambda>_.
     log ''CursorClone build completed'' Info)))) ?s0 = (Inr u, s')"
    by (simp add: buildCursorClone_def)
  then obtain x1 t1 where a1: "execCommand nd m ''npm run clean'' ?s0 = (Inr x1, t1)"
    and r1: "bind (execCommand nd m ''npm run compile'') (\<lambda>_.
     bind (execCommand nd m ''npm run compile-extensions'') (\<lambda>_.
     bind (execCommand nd m ''npm run download-builtin-extensions'') (\<lambda>_.
     log ''CursorClone build completed'' Info))) t1 = (Inr u, s')"
    by (rule bind_returned)
  from r1 obtain x2 t2 where a2: "execCommand nd m ''npm run compile'' t1 = (Inr x2, t2)"
    and r2: "bind (execCommand nd m ''npm run compile-extensions'') (\<lambda>_.
     bind (execCommand nd m ''npm run download-builtin-extensions'') (\<lambda>_.
     log ''CursorClone build completed'' Info)) t2 = (Inr u, s')"
    by (rule bind_returned)
  from r2 obtain x3 t3 where a3: "execCommand nd m ''npm run compile-extensions'' t2 = (Inr x3, t3)"
    and r3: "bind (execCommand nd m ''npm run download-builtin-extensions'') (\<lambda>_.
     log ''CursorClone build completed'' Info) t3 = (Inr u, s')"
    by (rule bind_returned)
  from r3 obtain x4 t4 where a4: "execCommand nd m ''npm run download-builtin-extensions'' t3 = (Inr x4, t4)"
    and r4: "log ''CursorClone build completed'' Info t4 = (Inr u, s')"
    by (rule bind_returned)
  have "spawned (trace s') = spawned (trace t4)"
    using r4 by (auto simp: log_def)
  then show ?thesis
    using execCommand_returned [OF a1] execCommand_returned [OF a2] execCommand_returned [OF a3]
      execCommand_returned [OF a4]
    by simp
qed

lemma try_catch_extends:
  assumes "\<And>e. emits Q (h e)"
  shows "prefix (trace (snd (m s))) (trace (snd (try_catch m h s)))"
proof (cases "m s")
  case (Pair r s1)
  show ?thesis
  proof (cases r)
    case (Inr x)
    with Pair show ?thesis by (simp add: try_catch_def)
  next
    case (Inl e)
    have "prefix (trace s1) (trace (snd (h e s1)))"
      using assms [of e] by (rule emits_prefix)
    with Pair Inl show ?thesis by (simp add: try_catch_def)
  qed
qed

lemma syncWithUpstream_starts:
  assumes "\<not> skipSync m"
  shows "prefix (trace s @ [Log Info ''Syncing with upstream VS Code...'',
       Log Info ''Executing: git fetch upstream'', Spawn ''git fetch upstream''])
     (trace (snd (syncWithUpstream nd m s)))"
proof -
  let ?s1 = "s\<lparr>trace := trace s @ [Log Info ''Syncing with upstream VS Code...'']\<rparr>"
  let ?rest = "\<lambda>_::jsval. bind (execCommand nd m ''git branch --show-current'') (\<lambda>out.
           bind (lift (js_trim out)) (\<lambda>currentBranch.
           bind (\<lambda>s. (Inr (''backup-'' @ digits (date_now nd (world s))), s)) (\<lambda>backupBranch.
           bind (execCommand nd m (''git checkout -b '' @ backupBranch)) (\<lambda>_.
           bind (execCommand nd m (''git checkout '' @ currentBranch)) (\<lambda>_.
           bind (log ''Merging upstream changes...'' Info) (\<lambda>_.
           bind (execCommand nd m ''git merge upstream/main --no-edit'') (\<lambda>_.
           log ''Successfully synced with upstream'' Info)))))))"
  let ?h = "\<lambda>error. bind (log ''Failed to sync with upstream. Please resolve conflicts manually.'' Err)
               (\<lambda>_. throw error) :: ('a, unit) io"
  have rest: "\<And>x. emits (\<lambda>_. True) (?rest x)"
    by (intro emits_bind any_execCommand any_log emits_lift emits_read)
  have "prefix (trace ?s1 @ [Log Info ''Executing: git fetch upstream'', Spawn ''git fetch upstream''])
      (trace (snd (execCommand nd m ''git fetch upstream'' ?s1)))"
    by (cases rule: execCommand_cases [of nd "''git fetch upstream''" m ?s1]) simp_all
  moreover have "prefix (trace (snd (execCommand nd m ''git fetch upstream'' ?s1)))
      (trace (snd (bind (execCommand nd m ''git fetch upstream'') ?rest ?s1)))"
    using rest by (rule bind_extends)
  moreover have "emits (\<lambda>_. True) (?h e)" for e
    by (intro emits_bind any_log emits_throw)
  then have "prefix (trace (snd (bind (execCommand nd m ''git fetch upstream'') ?rest ?s1)))
      (trace (snd (try_catch (bind (execCommand nd m ''git fetch upstream'') ?rest) ?h ?s1)))"
    by (rule try_catch_extends)
  ultimately have "prefix (trace ?s1 @ [Log Info ''Executing: git fetch upstream'', Spawn ''git fetch upstream''])
      (trace (snd (try_catch (bind (execCommand nd m ''git fetch upstream'') ?rest) ?h ?s1)))"
    by (meson prefix_order.trans)
  then show ?thesis
    using assms by (simp add: syncWithUpstream_def)
qed

lemma isl_bind_log:
  "isl (fst (bind m (\<lambda>x. bind (f x) (\<lambda>_. log msg lvl)) s)) = isl (fst (bind m f s))"
  by (auto simp: bind_def log_def split: prod.splits sum.splits)

lemma constructor_takes_argument:
  "targetPlatform (constructor nd) = getPlatformArg nd"
  "targetArch (constructor nd) = getArchArg nd"
  "indexOf (argv nd) ''--platform'' = Some i \<Longrightarrow> truthy_at (argv nd) (i + 1) \<Longrightarrow>
     targetPlatform (constructor nd) = argv nd ! (i + 1)"
  "indexOf (argv nd) ''--arch'' = Some j \<Longrightarrow> truthy_at (argv nd) (j + 1) \<Longrightarrow>
     targetArch (constructor nd) = argv nd ! (j + 1)"
  by (simp_all add: constructor_def getPlatformArg_def getArchArg_def)

lemma unsupported_run:
  fixes nd :: "'w node" and m :: build_manager and s0 :: "'w state"
  defines "s1 \<equiv> snd (syncWithUpstream nd m s0)"
  defines "s2 \<equiv> snd (installDependencies nd m s1)"
  defines "s3 \<equiv> snd (buildCursorClone nd m s2)"
  defines "s3' \<equiv> s3\<lparr>trace := trace s3 @ [Log Info ''Packaging application...'',
           Log Err (''Unsupported platform/arch combination: '' @ targetPlatform m @ ''/'' @ targetArch m)]\<rparr>"
  assumes all: "command_arg nd = ''all''"
    and bad: "targetPlatform m \<notin> {''darwin'', ''linux'', ''win32''} \<or> targetArch m \<notin> {''x64'', ''arm64''}"
    and own: "targetPlatform m \<notin> set object_prototype_keys"
    and r1: "succeeded (fst (syncWithUpstream nd m s0))"
    and r2: "succeeded (fst (installDependencies nd m s1))"
    and r3: "succeeded (fst (buildCursorClone nd m s2))"
  shows "spawned (trace s3) = spawned (trace s1) @
           [''npm install'', ''npm run clean'', ''npm run compile'', ''npm run compile-extensions'',
            ''npm run download-builtin-extensions'']"
    and "\<not> skipSync m \<Longrightarrow> prefix (spawned (trace s0) @ [''git fetch upstream'']) (spawned (trace s1))"
    and "packageApplication nd m s3 = (Inr (), s3')"
    and "prefix (steps_entered (trace s0) @ [Sync, Install, Build, Package, Archive])
           (steps_entered (trace (snd (run nd m s0))))"
    and "fst (run nd m s0) =
           (if isl (fst (bind (createArchive nd m) (\<lambda>_. validateBuild nd m) s3')) then 1 else 0)"
proof -
  let ?rest = "\<lambda>_::unit. bind (validateBuild nd m) (\<lambda>_. log ''Complete build pipeline finished'' Info)"
  obtain u1 where c1: "syncWithUpstream nd m s0 = (Inr u1, s1)"
    using r1 unfolding s1_def by (rule succeededD)
  obtain u2 where c2: "installDependencies nd m s1 = (Inr u2, s2)"
    using r2 unfolding s2_def by (rule succeededD)
  obtain u3 where c3: "buildCursorClone nd m s2 = (Inr u3, s3)"
    using r3 unfolding s3_def by (rule succeededD)
  have sp2: "spawned (trace s2) = spawned (trace s1) @ [''npm install'']"
    unfolding s2_def by (rule installDependencies_spawns)
  show "spawned (trace s3) = spawned (trace s1) @
           [''npm install'', ''npm run clean'', ''npm run compile'', ''npm run compile-extensions'',
            ''npm run download-builtin-extensions'']"
    using buildCursorClone_spawns [OF c3] sp2 by simp
  show "prefix (spawned (trace s0) @ [''git fetch upstream'']) (spawned (trace s1))" if "\<not> skipSync m"
    using prefix_spawned_list [OF syncWithUpstream_starts [OF that, of s0 nd]]
    by (simp add: s1_def)
  show pkg: "packageApplication nd m s3 = (Inr (), s3')"
    unfolding s3'_def using bad own by (rule packageApplication_unsupported)
  have ra: "run_all nd m s0 = bind (createArchive nd m) ?rest s3'"
    using c1 c2 c3 pkg by (simp add: run_all_def bind_def)
  have "steps_entered (trace s1) = steps_entered (trace s0) @ [Sync]"
    using c1 syncWithUpstream_steps by (rule steps_of_snd)
  moreover have "steps_entered (trace s2) = steps_entered (trace s1) @ [Install]"
    using c2 installDependencies_steps by (rule steps_of_snd)
  moreover have "steps_entered (trace s3) = steps_entered (trace s2) @ [Build]"
    using c3 buildCursorClone_steps by (rule steps_of_snd)
  moreover have "steps_entered (trace s3') = steps_entered (trace s3) @ [Package]"
    using pkg packageApplication_steps by (rule steps_of_snd)
  moreover have "steps_entered (trace (snd (createArchive nd m s3'))) = steps_entered (trace s3') @ [Archive]"
    by (rule createArchive_steps)
  ultimately have st: "steps_entered (trace (snd (createArchive nd m s3'))) =
      steps_entered (trace s0) @ [Sync, Install, Build, Package, Archive]"
    by simp
  have "\<And>x. emits (\<lambda>_. True) (?rest x)"
    by (intro emits_bind any_validateBuild any_log)
  then have "prefix (trace (snd (createArchive nd m s3'))) (trace (snd (bind (createArchive nd m) ?rest s3')))"
    by (rule bind_extends)
  moreover have "prefix (trace (snd (run_all nd m s0))) (trace (snd (run nd m s0)))"
    using run_extends [of nd m s0] all by (simp add: run_switch_def)
  ultimately have "prefix (trace (snd (createArchive nd m s3'))) (trace (snd (run nd m s0)))"
    unfolding ra by (meson prefix_order.trans)
  then have "prefix (steps_entered (trace (snd (createArchive nd m s3'))))
      (steps_entered (trace (snd (run nd m s0))))"
    by (rule prefix_steps_entered)
  then show "prefix (steps_entered (trace s0) @ [Sync, Install, Build, Package, Archive])
           (steps_entered (trace (snd (run nd m s0))))"
    by (simp only: st)
  show "fst (run nd m s0) =
           (if isl (fst (bind (createArchive nd m) (\<lambda>_. validateBuild nd m) s3')) then 1 else 0)"
    using run_exit_code [OF all, of m s0] by (simp add: ra isl_bind_log)
qed

section \<open>A run in which no command fails\<close>

lemma bind_read:
  "bind (\<lambda>s. (g s, s)) f s = (case g s of Inl e \<Rightarrow> (Inl e, s) | Inr x \<Rightarrow> f x s)"
  by (simp add: bind_def split: sum.splits)

lemma careful_bind:
  assumes "careful P m s"
    and "\<And>x. fst (m s) = Inr x \<Longrightarrow> P x \<Longrightarrow> careful Q (f x) (snd (m s))"
  shows "careful Q (bind m f) s"
proof -
  obtain r s1 where ms: "m s = (r, s1)" by (cases "m s")
  from assms(1) ms obtain e1 where e1: "trace s1 = trace s @ e1"
    and c1: "case r of Inl e \<Rightarrow> list_ex command_failure e1 | Inr x \<Rightarrow> P x"
    by (auto simp: careful_def)
  show ?thesis
  proof (cases r)
    case (Inl e)
    with ms e1 c1 show ?thesis by (auto simp: careful_def bind_def)
  next
    case (Inr x)
    with c1 have "P x" by simp
    with assms(2) [of x] ms Inr have "careful Q (f x) s1" by simp
    then obtain e2 where e2: "trace (snd (f x s1)) = trace s1 @ e2"
      and c2: "case fst (f x s1) of Inl e \<Rightarrow> list_ex command_failure e2 | Inr y \<Rightarrow> Q y"
      by (auto simp: careful_def)
    have "trace (snd (bind m f s)) = trace s @ (e1 @ e2)"
      using ms Inr e1 e2 by (simp add: bind_def)
    moreover have "case fst (bind m f s) of Inl e \<Rightarrow> list_ex command_failure (e1 @ e2) | Inr y \<Rightarrow> Q y"
      using ms Inr c2 by (auto simp: bind_def split: sum.splits)
    ultimately show ?thesis unfolding careful_def by blast
  qed
qed

lemma careful_seq:
  assumes "careful (\<lambda>_. True) m s" and "\<And>x. careful Q (f x) (snd (m s))"
  shows "careful Q (bind m f) s"
  using assms by (blast intro: careful_bind)

lemma careful_rethrow:
  assumes "careful P m s"
  shows "careful P (try_catch m (\<lambda>e. bind (log msg lvl) (\<lambda>_. throw e))) s"
proof -
  obtain r s1 where ms: "m s = (r, s1)" by (cases "m s")
  from assms ms obtain e1 where e1: "trace s1 = trace s @ e1"
    and c1: "case r of Inl e \<Rightarrow> list_ex command_failure e1 | Inr x \<Rightarrow> P x"
    by (auto simp: careful_def)
  show ?thesis
  proof (cases r)
    case (Inl e)
    with ms e1 c1 show ?thesis by (simp add: careful_def try_catch_def throw_def)
  next
    case (Inr x)
    with ms e1 c1 show ?thesis by (simp add: careful_def try_catch_def)
  qed
qed

lemma careful_log: "careful (\<lambda>_. True) (log msg lvl) s"
  by (simp add: careful_def log_def)

lemma careful_value: "careful (\<lambda>_. True) (\<lambda>s. (Inr (g s), s)) s"
  by (simp add: careful_def)

lemma careful_mkdir:
  assumes "succeeded (fst (mkdirSync nd p (world s)))"
  shows "careful (\<lambda>_. True) (fs_mkdirSync nd p) s"
  using assms
  by (cases "mkdirSync nd p (world s)"; cases "fst (mkdirSync nd p (world s))")
    (auto simp: careful_def fs_mkdirSync_def succeeded_def)

lemma careful_execCommand:
  "careful (\<lambda>v. isVerbose m \<or> (\<exists>out. v = JStr out)) (execCommand nd m c) s"
  by (cases rule: execCommand_cases [of nd c m s]) (simp_all add: careful_def command_failure_def)

lemma careful_command: "careful (\<lambda>_. True) (execCommand nd m c) s"
  by (cases rule: execCommand_cases [of nd c m s]) (simp_all add: careful_def command_failure_def)

lemma careful_later:
  assumes "m s = f (s\<lparr>trace := trace s @ xs\<rparr>)"
    and "careful P f (s\<lparr>trace := trace s @ xs\<rparr>)"
  shows "careful P m s"
proof -
  from assms(2) obtain ext where "trace (snd (m s)) = trace s @ (xs @ ext)"
    and "case fst (m s) of Inl e \<Rightarrow> list_ex command_failure ext | Inr x \<Rightarrow> P x"
    unfolding careful_def assms(1) by auto
  then show ?thesis
    unfolding careful_def by (intro exI [of _ "xs @ ext"]) (auto split: sum.splits)
qed

lemma careful_installDependencies: "careful (\<lambda>_. True) (installDependencies nd m) s"
  unfolding installDependencies_def
  by (intro careful_seq careful_log careful_command)

lemma careful_buildCursorClone: "careful (\<lambda>_. True) (buildCursorClone nd m) s"
  unfolding buildCursorClone_def
  by (intro careful_seq careful_log careful_command)

lemma careful_syncWithUpstream:
  assumes "skipSync m \<or> \<not> isVerbose m"
  shows "careful (\<lambda>_. True) (syncWithUpstream nd m) s"
proof (cases "skipSync m")
  case True
  then show ?thesis by (simp add: syncWithUpstream_def careful_log)
next
  case False
  with assms have quiet: "\<not> isVerbose m" by simp
  have tail: "careful (\<lambda>_. True)
      (bind (lift (js_trim out)) (\<lambda>currentBranch.
           bind (\<lambda>s. (Inr (''backup-'' @ digits (date_now nd (world s))), s)) (\<lambda>backupBranch.
           bind (execCommand nd m (''git checkout -b '' @ backupBranch)) (\<lambda>_.
           bind (execCommand nd m (''git checkout '' @ currentBranch)) (\<lambda>_.
           bind (log ''Merging upstream changes...'' Info) (\<lambda>_.
           bind (execCommand nd m ''git merge upstream/main --no-edit'') (\<lambda>_.
           log ''Successfully synced with upstream'' Info))))))) t"
    if "isVerbose m \<or> (\<exists>str. out = JStr str)" for out t
  proof -
    from that quiet obtain str where out: "out = JStr str" by blast
    show ?thesis
      unfolding out js_trim.simps bind_lift_Inr
      by (intro careful_seq careful_log careful_command careful_value)
  qed
  have body: "careful (\<lambda>_. True)
     (bind (execCommand nd m ''git fetch upstream'') (\<lambda>_.
           bind (execCommand nd m ''git branch --show-current'') (\<lambda>out.
           bind (lift (js_trim out)) (\<lambda>currentBranch.
           bind (\<lambda>s. (Inr (''backup-'' @ digits (date_now nd (world s))), s)) (\<lambda>backupBranch.
           bind (execCommand nd m (''git checkout -b '' @ backupBranch)) (\<lambda>_.
           bind (execCommand nd m (''git checkout '' @ currentBranch)) (\<lambda>_.
           bind (log ''Merging upstream changes...'' Info) (\<lambda>_.
           bind (execCommand nd m ''git merge upstream/main --no-edit'') (\<lambda>_.
           log ''Successfully synced with upstream'' Info))))))))) t" for t
    by (rule careful_seq [OF careful_command], rule careful_bind [OF careful_execCommand],
        rule tail, assumption)
  show ?thesis
    unfolding syncWithUpstream_def if_not_P [OF False]
    by (rule careful_seq [OF careful_log], rule careful_rethrow, rule body)
qed

lemma careful_packageApplication:
  assumes "targetPlatform m \<in> {''darwin'', ''linux'', ''win32''}"
    and "targetArch m \<in> {''x64'', ''arm64''}"
  shows "careful (\<lambda>_. True) (packageApplication nd m) s"
proof -
  let ?s1 = "s\<lparr>trace := trace s @ [Log Info ''Packaging application...'']\<rparr>"
  let ?s2 = "?s1\<lparr>world := set_env nd ''VSCODE_ARCH'' (targetArch m)
                      (set_env nd ''VSCODE_PLATFORM'' (targetPlatform m) (world s))\<rparr>"
  let ?f = "\<lambda>t. bind (execCommand nd m (''npm run gulp -- vscode-'' @ targetPlatform m @ ''-'' @ targetArch m))
       (\<lambda>_. log ''Application packaged successfully'' Info)
       (t\<lparr>world := set_env nd ''VSCODE_ARCH'' (targetArch m)
                      (set_env nd ''VSCODE_PLATFORM'' (targetPlatform m) (world t))\<rparr>)"
  have "careful (\<lambda>_. True)
      (bind (execCommand nd m (''npm run gulp -- vscode-'' @ targetPlatform m @ ''-'' @ targetArch m))
       (\<lambda>_. log ''Application packaged successfully'' Info)) ?s2"
    by (intro careful_seq careful_log careful_command)
  then have "careful (\<lambda>_. True) ?f ?s1"
    by (simp add: careful_def)
  moreover have "packageApplication nd m s = ?f ?s1"
    by (simp add: packageApplication_supported [OF assms])
  ultimately show ?thesis
    by (rule careful_later [rotated])
qed

lemma careful_createArchive:
  fixes nd :: "'w node" and s :: "'w state"
  assumes tp: "targetPlatform m = ''linux''"
    and req: "require_json nd ''./package.json'' (world s) = Inr pkg"
    and ver: "get_prop pkg ''version'' = Inr ver"
    and str: "js_to_string ver = Inr v"
    and mk: "succeeded (fst (mkdirSync nd (path_dirname nd (path_join nd
                [rootDir m, ''releases'', ''CursorClone-'' @ v @ ''-linux-'' @ targetArch m @ ''.tar.gz'']))
              (world s)))"
  shows "careful (\<lambda>_. True) (createArchive nd m) s"
proof -
  let ?name = "''CursorClone-'' @ v @ ''-linux-'' @ targetArch m @ ''.tar.gz''"
  let ?src = "path_join nd [path_join nd [rootDir m, ''.build''], ''VSCode-linux-x64'']"
  let ?path = "path_join nd [rootDir m, ''releases'', ?name]"
  let ?s1 = "s\<lparr>trace := trace s @ [Log Info ''Creating archive...'']\<rparr>"
  have tg: "archive_target nd m ver = Inr (Some (?name, ?src))"
    using tp str by (simp add: archive_target_def Let_def)
  show ?thesis
  proof (cases "existsSync nd ?src (world s)")
    case False
    then have "\<not> source_exists nd (Some (?name, ?src)) (world s)"
      by (simp add: source_exists_def)
    with req ver tg have "createArchive nd m s =
      (Inr (), s\<lparr>trace := trace s @ [Log Info ''Creating archive...'',
        Log Err ''Build directory not found. Please run build first.'']\<rparr>)"
      by (rule createArchive_missing)
    then show ?thesis by (simp add: careful_def)
  next
    case True
    let ?f = "bind (fs_mkdirSync nd (path_dirname nd ?path)) (\<lambda>_.
              bind (execCommand nd m
                           (''tar -czf '' @ dquote @ ?path @ dquote @ '' -C '' @ dquote
                              @ path_dirname nd ?src @ dquote @ '' '' @ dquote
                              @ path_basename nd ?src @ dquote)) (\<lambda>_.
              log (''Archive created: '' @ ?name) Info))"
    have eq: "createArchive nd m s = ?f ?s1"
      using req ver tg True tp
      by (simp add: createArchive_def bind_read source_exists_def Let_def)
    have "careful (\<lambda>_. True) ?f ?s1"
      using mk by (intro careful_seq careful_log careful_command careful_mkdir) simp
    with eq show ?thesis by (rule careful_later)
  qed
qed

lemma careful_validateBuild:
  fixes nd :: "'w node" and s :: "'w state"
  assumes "read_json nd (path_join nd [rootDir m, ''product.json'']) (world s) = Inr product"
    and "get_prop product ''applicationName'' = Inr an"
  shows "careful (\<lambda>_. True) (validateBuild nd m) s"
proof -
  have "succeeded (fst (validateBuild nd m s))"
    using assms
    by (auto simp: validateBuild_def bind_read succeeded_def log_def ret_def bind_def lift_def split: option.splits)
  moreover obtain ext where "trace (snd (validateBuild nd m s)) = trace s @ ext"
    using any_validateBuild by (rule emitsD)
  ultimately show ?thesis
    by (auto simp: careful_def succeeded_def split: sum.splits)
qed

lemma execCommand_logs_failure:
  "list_ex command_failure (drop (length (trace t)) (trace (snd (execCommand nd m c t)))) =
     (\<not> succeeded (fst (spawnSync nd c (rootDir m) (if isVerbose m then Inherit else Pipe) (world t))))"
  by (cases rule: execCommand_cases [of nd c m t]) (simp_all add: succeeded_def command_failure_def)

lemma trim_main: "trim ''main'' = ''main''"
  by code_simp

lemma full_run:
  fixes nd :: "'w node" and s :: "'w state"
  assumes m: "m \<equiv> constructor nd"
    and s4: "s4 \<equiv> snd (packageApplication nd m (snd (buildCursorClone nd m
               (snd (installDependencies nd m (snd (syncWithUpstream nd m s)))))))"
    and s5: "s5 \<equiv> snd (createArchive nd m s4)"
    and path: "archivePath \<equiv> path_join nd [rootDir m, ''releases'', ''CursorClone-'' @ v @ ''-linux-arm64.tar.gz'']"
    and all: "command_arg nd = ''all''"
    and tp: "getPlatformArg nd = ''linux''" and ta: "getArchArg nd = ''arm64''"
    and quiet: "''--skip-sync'' \<in> set (argv nd) \<or> ''--verbose'' \<notin> set (argv nd)"
    and nofail: "\<not> list_ex command_failure (drop (length (trace s)) (trace (snd (main nd s))))"
    and req: "require_json nd ''./package.json'' (world s4) = Inr pkg"
    and ver: "get_prop pkg ''version'' = Inr ver"
    and str: "js_to_string ver = Inr v"
    and mk: "succeeded (fst (mkdirSync nd (path_dirname nd archivePath) (world s4)))"
    and rd: "read_json nd (path_join nd [rootDir m, ''product.json'']) (world s5) = Inr product"
    and an: "get_prop product ''applicationName'' = Inr an"
  shows "fst (main nd s) = 0"
    and "steps_entered (trace (snd (main nd s))) =
        steps_entered (trace s) @ [Sync, Install, Build, Package, Archive, Validate]"
    and "''npm run gulp -- vscode-linux-arm64'' \<in> set (spawned (trace (snd (main nd s))))"
    and "last (trace (snd (main nd s))) = Log Info ''Complete build pipeline finished''"
proof -
  have tp': "targetPlatform m = ''linux''" and ta': "targetArch m = ''arm64''"
    using tp ta by (simp_all add: m constructor_def)
  have cap: "skipSync m \<or> \<not> isVerbose m"
    using quiet by (simp add: m constructor_def)
  have sup: "targetPlatform m \<in> {''darwin'', ''linux'', ''win32''}" "targetArch m \<in> {''x64'', ''arm64''}"
    by (simp_all add: tp' ta')
  have mk': "succeeded (fst (mkdirSync nd (path_dirname nd (path_join nd
                [rootDir m, ''releases'', ''CursorClone-'' @ v @ ''-linux-'' @ targetArch m @ ''.tar.gz'']))
              (world s4)))"
    using mk by (simp add: path ta')
  have c5: "careful (\<lambda>_. True) (createArchive nd m) s4"
    using tp' req ver str mk' by (rule careful_createArchive)
  have c6: "careful (\<lambda>_. True) (validateBuild nd m) s5"
    using rd an by (rule careful_validateBuild)
  have c_all: "careful (\<lambda>_. True) (run_all nd m) s"
    unfolding run_all_def
    apply (rule careful_seq, rule careful_syncWithUpstream [OF cap])
    apply (rule careful_seq, rule careful_installDependencies)
    apply (rule careful_seq, rule careful_buildCursorClone)
    apply (rule careful_seq, rule careful_packageApplication [OF sup])
    apply (rule careful_seq, rule c5 [unfolded s4])
    apply (rule careful_seq, rule c6 [unfolded s5 s4])
    apply (rule careful_log)
    done
  then obtain ext where ext: "trace (snd (run_all nd m s)) = trace s @ ext"
    and cs: "case fst (run_all nd m s) of Inl e \<Rightarrow> list_ex command_failure ext | Inr x \<Rightarrow> True"
    by (auto simp: careful_def)
  obtain r s' where ra: "run_all nd m s = (r, s')" by (cases "run_all nd m s")
  have "\<exists>u. r = Inr u"
  proof (cases r)
    case (Inl e)
    with ra cs have "list_ex command_failure ext" by simp
    moreover have "trace (snd (main nd s)) = trace s @ ext @ [Log Err (''Build failed: '' @ message e)]"
      using ra Inl ext all by (simp add: main_def run_def run_switch_def log_def m)
    ultimately show ?thesis using nofail by simp
  next
    case (Inr u)
    then show ?thesis by simp
  qed
  then obtain u where "run_all nd m s = (Inr u, s')"
    using ra by blast
  from run_all_Inr_chain [OF this]
  obtain u1 s1 u2 s2 u3 s3 u4 t4 u5 t5 b s6 where
    c1: "syncWithUpstream nd m s = (Inr u1, s1)" and c2: "installDependencies nd m s1 = (Inr u2, s2)"
    and c3: "buildCursorClone nd m s2 = (Inr u3, s3)" and c4: "packageApplication nd m s3 = (Inr u4, t4)"
    and c5: "createArchive nd m t4 = (Inr u5, t5)" and c6: "validateBuild nd m t5 = (Inr b, s6)"
    by blast
  have "run_all nd m s =
      (Inr (), s6\<lparr>trace := trace s6 @ [Log Info ''Complete build pipeline finished'']\<rparr>)"
    using c1 c2 c3 c4 c5 c6 by (rule run_all_chain)
  then have res: "main nd s = (0, s6\<lparr>trace := trace s6 @ [Log Info ''Complete build pipeline finished'']\<rparr>)"
    using all by (simp add: main_def run_def run_switch_def m)
  have "steps_entered (trace s1) = steps_entered (trace s) @ [Sync]"
    using c1 syncWithUpstream_steps by (rule steps_of_snd)
  moreover have "steps_entered (trace s2) = steps_entered (trace s1) @ [Install]"
    using c2 installDependencies_steps by (rule steps_of_snd)
  moreover have "steps_entered (trace s3) = steps_entered (trace s2) @ [Build]"
    using c3 buildCursorClone_steps by (rule steps_of_snd)
  moreover have "steps_entered (trace t4) = steps_entered (trace s3) @ [Package]"
    using c4 packageApplication_steps by (rule steps_of_snd)
  moreover have "steps_entered (trace t5) = steps_entered (trace t4) @ [Archive]"
    using c5 createArchive_steps by (rule steps_of_snd)
  moreover have "steps_entered (trace s6) = steps_entered (trace t5) @ [Validate]"
    using c6 validateBuild_steps by (rule steps_of_snd)
  moreover have "steps_entered [Log Info ''Complete build pipeline finished''] = []"
    by (simp add: steps_entered_def map_filter_def step_of_def)
  ultimately show "steps_entered (trace (snd (main nd s))) =
        steps_entered (trace s) @ [Sync, Install, Build, Package, Archive, Validate]"
    by (simp add: res)
  have "spawned (trace (snd (packageApplication nd m s3))) =
      spawned (trace s3) @ [''npm run gulp -- vscode-'' @ targetPlatform m @ ''-'' @ targetArch m]"
    using sup by (rule packageApplication_spawns)
  then have g4: "''npm run gulp -- vscode-linux-arm64'' \<in> set (spawned (trace t4))"
    using c4 by (simp add: tp' ta')
  have "prefix (trace t4) (trace (snd (createArchive nd m t4)))"
    using any_createArchive by (rule emits_prefix)
  then have "set (spawned (trace t4)) \<subseteq> set (spawned (trace t5))"
    using c5 prefix_spawned by fastforce
  moreover have "prefix (trace t5) (trace (snd (validateBuild nd m t5)))"
    using any_validateBuild by (rule emits_prefix)
  then have "set (spawned (trace t5)) \<subseteq> set (spawned (trace s6))"
    using c6 prefix_spawned by fastforce
  ultimately have "''npm run gulp -- vscode-linux-arm64'' \<in> set (spawned (trace s6))"
    using g4 by blast
  then show "''npm run gulp -- vscode-linux-arm64'' \<in> set (spawned (trace (snd (main nd s))))"
    by (simp add: res)
  show "fst (main nd s) = 0" and "last (trace (snd (main nd s))) = Log Info ''Complete build pipeline finished''"
    by (simp_all add: res)
qed

section \<open>Properties of the build scripts\<close>

text \<open>
  Claim C1: in a run of \<open>all\<close> where the sync and install steps return and the build step
  throws, \<open>run\<close> ends in the state the build step left, plus the line of the catch
  block, with exit code 1. The steps entered are exactly sync, install and build, and
  no child process is started after the build step: package, archive and validate never
  run.
\<close>

theorem build_failure_stops_pipeline:
  assumes "command_arg nd = ''all''"
    and "syncWithUpstream nd m s0 = (Inr u1, s1)"
    and "installDependencies nd m s1 = (Inr u2, s2)"
    and "buildCursorClone nd m s2 = (Inl e, s3)"
  shows "run nd m s0 = (1, s3\<lparr>trace := trace s3 @ [Log Err (''Build failed: '' @ message e)]\<rparr>)
    \<and> steps_entered (trace (snd (run nd m s0))) = steps_entered (trace s0) @ [Sync, Install, Build]
    \<and> spawned (trace (snd (run nd m s0))) = spawned (trace s3)"
proof -
  have r: "run nd m s0 = (1, s3\<lparr>trace := trace s3 @ [Log Err (''Build failed: '' @ message e)]\<rparr>)"
    using assms(1) run_all_build_fails [OF assms(2-4)]
    by (simp add: run_def run_switch_def log_def)
  have "steps_entered (trace s1) = steps_entered (trace s0) @ [Sync]"
    using assms(2) syncWithUpstream_steps by (rule steps_of_snd)
  moreover have "steps_entered (trace s2) = steps_entered (trace s1) @ [Install]"
    using assms(3) installDependencies_steps by (rule steps_of_snd)
  moreover have "steps_entered (trace s3) = steps_entered (trace s2) @ [Build]"
    using assms(4) buildCursorClone_steps by (rule steps_of_snd)
  moreover have "steps_entered [Log Err (''Build failed: '' @ message e)] = []"
    by (simp add: steps_entered_def map_filter_def step_of_def)
  ultimately have "steps_entered (trace (snd (run nd m s0))) = steps_entered (trace s0) @ [Sync, Install, Build]"
    by (simp add: r)
  moreover have "spawned (trace (snd (run nd m s0))) = spawned (trace s3)"
    by (simp add: r)
  ultimately show ?thesis using r by simp
qed

theorem build_failure_stops_pipeline_witness:
  "command_arg c1_node = ''all''
   \<and> syncWithUpstream c1_node (constructor c1_node) init =
       (Inr (), \<lparr>world = (), trace = [Log Info ''Skipping upstream sync as requested'']\<rparr>)
   \<and> installDependencies c1_node (constructor c1_node)
         \<lparr>world = (), trace = [Log Info ''Skipping upstream sync as requested'']\<rparr> =
       (Inr (), \<lparr>world = (), trace = [Log Info ''Skipping upstream sync as requested'',
          Log Info ''Installing dependencies...'', Log Info ''Executing: npm install'',
          Spawn ''npm install'', Log Info ''Dependencies installed'']\<rparr>)
   \<and> steps_entered (trace (snd (run c1_node (constructor c1_node) init))) = [Sync, Install, Build]
   \<and> spawned (trace (snd (run c1_node (constructor c1_node) init))) =
       [''npm install'', ''npm run clean'', ''npm run compile'']
   \<and> fst (run c1_node (constructor c1_node) init) = 1"
proof -
  let ?m = "constructor c1_node"
  let ?s1 = "\<lparr>world = (), trace = [Log Info ''Skipping upstream sync as requested'']\<rparr>"
  let ?s2 = "\<lparr>world = (), trace = [Log Info ''Skipping upstream sync as requested'',
          Log Info ''Installing dependencies...'', Log Info ''Executing: npm install'',
          Spawn ''npm install'', Log Info ''Dependencies installed'']\<rparr>"
  let ?s3 = "\<lparr>world = (), trace = [Log Info ''Skipping upstream sync as requested'',
          Log Info ''Installing dependencies...'', Log Info ''Executing: npm install'',
          Spawn ''npm install'', Log Info ''Dependencies installed'',
          Log Info ''Building CursorClone...'', Log Info ''Executing: npm run clean'',
          Spawn ''npm run clean'', Log Info ''Executing: npm run compile'',
          Spawn ''npm run compile'', Log Err ''Command failed: Command failed: npm run compile'']\<rparr>"
  have h0: "command_arg c1_node = ''all''"
    by (simp add: c1_node_def eval_defs)
  have h1: "syncWithUpstream c1_node ?m init = (Inr (), ?s1)"
    by (simp add: c1_node_def eval_defs)
  have h2: "installDependencies c1_node ?m ?s1 = (Inr (), ?s2)"
    by (simp add: c1_node_def eval_defs)
  have h3: "buildCursorClone c1_node ?m ?s2 = (Inl (JsError ''Command failed: npm run compile''), ?s3)"
    by (simp add: c1_node_def eval_defs)
  show ?thesis
    using build_failure_stops_pipeline [OF h0 h1 h2 h3] h0 h1 h2
    by (simp add: steps_entered_def spawned_def map_filter_def step_of_def)
qed

text \<open>
  Claim C2 as stated fails: with every command succeeding, the branding in place and no
  build directory, the archive step logs its error and the run still exits with code 0.
\<close>

theorem exit_code_zero_counterexample:
  "fst (main c2_node init) = 0
   \<and> Log Err ''Build directory not found. Please run build first.'' \<in> set (trace (snd (main c2_node init)))
   \<and> Log Info ''Build validation passed'' \<in> set (trace (snd (main c2_node init)))"
  by (simp add: c2_node_def eval_defs2 branded_def)

text \<open>
  Claim C2, as the code has it. \<open>execCommand\<close> logs a line \<open>Command failed: ...\<close>
  exactly when its child process fails (a non-zero exit or a failure to start), and a
  run of \<open>all\<close> with such a line exits with code 1, as does a run in which a step throws
  any other error. The archive step that finds no build directory logs an error and
  returns: when the four steps before it return and the validation after it passes, the
  run exits with code 0.
\<close>

theorem exit_code_of_pipeline:
  fixes nd :: "'w node" and m :: build_manager and s t :: "'w state"
  defines "s1 \<equiv> snd (syncWithUpstream nd m s)"
  defines "s2 \<equiv> snd (installDependencies nd m s1)"
  defines "s3 \<equiv> snd (buildCursorClone nd m s2)"
  defines "s4 \<equiv> snd (packageApplication nd m s3)"
  assumes all: "command_arg nd = ''all''"
  shows "(list_ex command_failure (drop (length (trace t)) (trace (snd (execCommand nd m c t)))) =
            (\<not> succeeded (fst (spawnSync nd c (rootDir m) (if isVerbose m then Inherit else Pipe) (world t)))))
    \<and> (list_ex command_failure (drop (length (trace s)) (trace (snd (run nd m s)))) \<longrightarrow>
            fst (run nd m s) = 1)
    \<and> (isl (fst (run_all nd m s)) \<longrightarrow> fst (run nd m s) = 1)
    \<and> (succeeded (fst (syncWithUpstream nd m s)) \<longrightarrow>
        succeeded (fst (installDependencies nd m s1)) \<longrightarrow>
        succeeded (fst (buildCursorClone nd m s2)) \<longrightarrow>
        succeeded (fst (packageApplication nd m s3)) \<longrightarrow>
        require_json nd ''./package.json'' (world s4) = Inr pkg \<longrightarrow>
        get_prop pkg ''version'' = Inr ver \<longrightarrow>
        archive_target nd m ver = Inr target \<longrightarrow>
        \<not> source_exists nd target (world s4) \<longrightarrow>
        validateBuild nd m
          (s4\<lparr>trace := trace s4 @ [Log Info ''Creating archive...'',
              Log Err ''Build directory not found. Please run build first.'']\<rparr>) = (Inr True, s6) \<longrightarrow>
        run nd m s = (0, s6\<lparr>trace := trace s6 @ [Log Info ''Complete build pipeline finished'']\<rparr>))"
proof -
  have a: "list_ex command_failure (drop (length (trace t)) (trace (snd (execCommand nd m c t)))) =
      (\<not> succeeded (fst (spawnSync nd c (rootDir m) (if isVerbose m then Inherit else Pipe) (world t))))"
    by (rule execCommand_logs_failure)
  have b: "fst (run nd m s) = 1"
    if line: "list_ex command_failure (drop (length (trace s)) (trace (snd (run nd m s))))"
  proof (rule ccontr)
    assume "fst (run nd m s) \<noteq> 1"
    then have ok: "\<not> isl (fst (run_all nd m s))"
      using run_exit_code [OF all, of m s] by (simp split: if_splits)
    have "honest (run_all nd m)"
      by (rule honest_run_all)
    then obtain ext where ext: "trace (snd (run_all nd m s)) = trace s @ ext"
        "list_ex command_failure ext \<Longrightarrow> isl (fst (run_all nd m s))"
      unfolding honest_def by blast
    have "trace (snd (run nd m s)) = trace s @ ext"
      using run_trace_returned [OF all ok] ext(1) by simp
    with line have "list_ex command_failure ext" by simp
    with ext(2) ok show False by simp
  qed
  have c: "fst (run nd m s) = 1" if "isl (fst (run_all nd m s))"
    using that run_exit_code [OF all, of m s] by simp
  have d: "run nd m s = (0, s6\<lparr>trace := trace s6 @ [Log Info ''Complete build pipeline finished'']\<rparr>)"
    if h: "succeeded (fst (syncWithUpstream nd m s))"
      "succeeded (fst (installDependencies nd m s1))"
      "succeeded (fst (buildCursorClone nd m s2))"
      "succeeded (fst (packageApplication nd m s3))"
      "require_json nd ''./package.json'' (world s4) = Inr pkg"
      "get_prop pkg ''version'' = Inr ver"
      "archive_target nd m ver = Inr target"
      "\<not> source_exists nd target (world s4)"
      "validateBuild nd m
          (s4\<lparr>trace := trace s4 @ [Log Info ''Creating archive...'',
              Log Err ''Build directory not found. Please run build first.'']\<rparr>) = (Inr True, s6)"
  proof -
    obtain u1 where c1: "syncWithUpstream nd m s = (Inr u1, s1)"
      using h(1) unfolding s1_def by (rule succeededD)
    obtain u2 where c2: "installDependencies nd m s1 = (Inr u2, s2)"
      using h(2) unfolding s2_def by (rule succeededD)
    obtain u3 where c3: "buildCursorClone nd m s2 = (Inr u3, s3)"
      using h(3) unfolding s3_def by (rule succeededD)
    obtain u4 where c4: "packageApplication nd m s3 = (Inr u4, s4)"
      using h(4) unfolding s4_def by (rule succeededD)
    note c5 = createArchive_missing [OF h(5,6,7,8)]
    have "run_all nd m s = (Inr (), s6\<lparr>trace := trace s6 @ [Log Info ''Complete build pipeline finished'']\<rparr>)"
      using c1 c2 c3 c4 c5 h(9) by (rule run_all_chain)
    then show ?thesis
      using all by (simp add: run_def run_switch_def)
  qed
  show ?thesis using a b c d by blast
qed

theorem exit_code_of_pipeline_witness:
  "command_arg c1_node = ''all''
   \<and> list_ex command_failure (drop (length (trace init)) (trace (snd (run c1_node (constructor c1_node) init))))
   \<and> fst (run c1_node (constructor c1_node) init) = 1
   \<and> command_arg c2_node = ''all''
   \<and> run c2_node (constructor c2_node) init =
       (0, \<lparr>world = (), trace =
         [Log Info ''Skipping upstream sync as requested'',
          Log Info ''Installing dependencies...'',
          Log Info ''Executing: npm install'', Spawn ''npm install'',
          Log Info ''Dependencies installed'',
          Log Info ''Building CursorClone...'',
          Log Info ''Executing: npm run clean'', Spawn ''npm run clean'',
          Log Info ''Executing: npm run compile'', Spawn ''npm run compile'',
          Log Info ''Executing: npm run compile-extensions'', Spawn ''npm run compile-extensions'',
          Log Info ''Executing: npm run download-builtin-extensions'',
          Spawn ''npm run download-builtin-extensions'',
          Log Info ''CursorClone build completed'',
          Log Info ''Packaging application...'',
          Log Info ''Executing: npm run gulp -- vscode-linux-x64'',
          Spawn ''npm run gulp -- vscode-linux-x64'',
          Log Info ''Application packaged successfully'',
          Log Info ''Creating archive...'',
          Log Err ''Build directory not found. Please run build first.'',
          Log Info ''Validating build...'',
          Log Info ''Build validation passed'',
          Log Info ''Complete build pipeline finished'']\<rparr>)"
proof -
  let ?m1 = "constructor c1_node"
  let ?m = "constructor c2_node"
  let ?s4 = "\<lparr>world = (), trace =
         [Log Info ''Skipping upstream sync as requested'',
          Log Info ''Installing dependencies...'',
          Log Info ''Executing: npm install'', Spawn ''npm install'',
          Log Info ''Dependencies installed'',
          Log Info ''Building CursorClone...'',
          Log Info ''Executing: npm run clean'', Spawn ''npm run clean'',
          Log Info ''Executing: npm run compile'', Spawn ''npm run compile'',
          Log Info ''Executing: npm run compile-extensions'', Spawn ''npm run compile-extensions'',
          Log Info ''Executing: npm run download-builtin-extensions'',
          Spawn ''npm run download-builtin-extensions'',
          Log Info ''CursorClone build completed'',
          Log Info ''Packaging application...'',
          Log Info ''Executing: npm run gulp -- vscode-linux-x64'',
          Spawn ''npm run gulp -- vscode-linux-x64'',
          Log Info ''Application packaged successfully'']\<rparr>"
  let ?s6 = "\<lparr>world = (), trace = trace ?s4 @
         [Log Info ''Creating archive...'',
          Log Err ''Build directory not found. Please run build first.'',
          Log Info ''Validating build...'',
          Log Info ''Build validation passed'']\<rparr>"
  have a1: "command_arg c1_node = ''all''"
    by (simp add: c1_node_def eval_defs)
  have l1: "list_ex command_failure (drop (length (trace init)) (trace (snd (run c1_node ?m1 init))))"
    by (simp add: c1_node_def eval_defs run_def run_switch_def run_all_def command_failure_def)
  have a2: "command_arg c2_node = ''all''"
    by (simp add: c2_node_def eval_defs)
  have h1: "succeeded (fst (syncWithUpstream c2_node ?m init))"
    by (simp add: c2_node_def eval_defs2 succeeded_def)
  have h2: "succeeded (fst (installDependencies c2_node ?m (snd (syncWithUpstream c2_node ?m init))))"
    by (simp add: c2_node_def eval_defs2 succeeded_def)
  have h3: "succeeded (fst (buildCursorClone c2_node ?m
      (snd (installDependencies c2_node ?m (snd (syncWithUpstream c2_node ?m init))))))"
    by (simp add: c2_node_def eval_defs2 succeeded_def)
  have h4: "succeeded (fst (packageApplication c2_node ?m (snd (buildCursorClone c2_node ?m
      (snd (installDependencies c2_node ?m (snd (syncWithUpstream c2_node ?m init))))))))"
    by (simp add: c2_node_def eval_defs2 succeeded_def)
  have e4: "snd (packageApplication c2_node ?m (snd (buildCursorClone c2_node ?m
      (snd (installDependencies c2_node ?m (snd (syncWithUpstream c2_node ?m init))))))) = ?s4"
    by (simp add: c2_node_def eval_defs2)
  have h5: "require_json c2_node ''./package.json'' (world ?s4) = Inr (JObj [(''version'', JStr ''1.0.0'')])"
    by (simp add: c2_node_def sample_node_def)
  have h6: "get_prop (JObj [(''version'', JStr ''1.0.0'')]) ''version'' = Inr (JStr ''1.0.0'')"
    by simp
  have h7: "archive_target c2_node ?m (JStr ''1.0.0'') =
        Inr (Some (''CursorClone-1.0.0-linux-x64.tar.gz'', ''/repo/.build/VSCode-linux-x64''))"
    by (simp add: c2_node_def eval_defs archive_target_def)
  have h8: "\<not> source_exists c2_node (Some (''CursorClone-1.0.0-linux-x64.tar.gz'', ''/repo/.build/VSCode-linux-x64''))
          (world ?s4)"
    by (simp add: c2_node_def sample_node_def source_exists_def)
  have h9: "validateBuild c2_node ?m
          (?s4\<lparr>trace := trace ?s4 @ [Log Info ''Creating archive...'',
              Log Err ''Build directory not found. Please run build first.'']\<rparr>) = (Inr True, ?s6)"
    by (simp add: c2_node_def eval_defs2 branded_def)
  have r1: "fst (run c1_node ?m1 init) = 1"
    using exit_code_of_pipeline [OF a1, where m = "constructor c1_node" and s = init] l1 by blast
  have "run c2_node ?m init = (0, ?s6\<lparr>trace := trace ?s6 @ [Log Info ''Complete build pipeline finished'']\<rparr>)"
    using exit_code_of_pipeline [OF a2, where m = "constructor c2_node" and s = init] h1 h2 h3 h4 h5 h6 h7 h8 h9
    unfolding e4 by blast
  then show ?thesis using a1 l1 r1 a2 by simp
qed

text \<open>
  Claim C3 as stated fails: with target freebsd/x64 nothing fails at start-up. The run
  starts five child processes before the package step reports the combination, goes
  on to the archive and validate steps, and exits with code 0.
\<close>

theorem unsupported_target_counterexample:
  "fst (main c3_node init) = 0
   \<and> spawned (trace (snd (main c3_node init))) =
       [''npm install'', ''npm run clean'', ''npm run compile'', ''npm run compile-extensions'',
        ''npm run download-builtin-extensions'']
   \<and> Log Err ''Unsupported platform/arch combination: freebsd/x64'' \<in> set (trace (snd (main c3_node init)))
   \<and> steps_entered (trace (snd (main c3_node init))) = [Sync, Install, Build, Package, Archive, Validate]"
  by (simp add: c3_node_def eval_defs2 branded_def object_prototype_keys_def
        steps_entered_def map_filter_def step_of_def)

text \<open>
  Claim C3, as the code has it. The constructor checks nothing: it stores whatever
  follows \<open>--platform\<close> and \<open>--arch\<close>, and the sync, install and build steps do not look
  at the target. The support matrix is consulted by the package step alone. For a pair
  in the matrix the step starts the one packaging command of that pair. For a pair
  outside it (the platform not being a name every object inherits) the step logs the
  unsupported combination at error level and returns: nothing is thrown and no child
  process is started. In a run of \<open>all\<close> this happens after the child processes of the
  install and build steps (and of the sync step, unless it is skipped), and the run
  goes on to the archive step: its exit code is 1 only if the archive or validate step
  throws.
\<close>

theorem package_step_checks_support:
  fixes nd :: "'w node" and m :: build_manager and s s0 :: "'w state"
  defines "s1 \<equiv> snd (syncWithUpstream nd m s0)"
  defines "s2 \<equiv> snd (installDependencies nd m s1)"
  defines "s3 \<equiv> snd (buildCursorClone nd m s2)"
  defines "s3' \<equiv> s3\<lparr>trace := trace s3 @ [Log Info ''Packaging application...'',
           Log Err (''Unsupported platform/arch combination: '' @ targetPlatform m @ ''/'' @ targetArch m)]\<rparr>"
  shows "targetPlatform (constructor nd) = getPlatformArg nd
    \<and> targetArch (constructor nd) = getArchArg nd
    \<and> (indexOf (argv nd) ''--platform'' = Some i \<longrightarrow> truthy_at (argv nd) (i + 1) \<longrightarrow>
          targetPlatform (constructor nd) = argv nd ! (i + 1))
    \<and> (indexOf (argv nd) ''--arch'' = Some j \<longrightarrow> truthy_at (argv nd) (j + 1) \<longrightarrow>
          targetArch (constructor nd) = argv nd ! (j + 1))
    \<and> syncWithUpstream nd (m\<lparr>targetPlatform := p, targetArch := a\<rparr>) = syncWithUpstream nd m
    \<and> installDependencies nd (m\<lparr>targetPlatform := p, targetArch := a\<rparr>) = installDependencies nd m
    \<and> buildCursorClone nd (m\<lparr>targetPlatform := p, targetArch := a\<rparr>) = buildCursorClone nd m
    \<and> (targetPlatform m \<in> {''darwin'', ''linux'', ''win32''} \<and> targetArch m \<in> {''x64'', ''arm64''} \<longrightarrow>
          spawned (trace (snd (packageApplication nd m s))) =
            spawned (trace s) @ [''npm run gulp -- vscode-'' @ targetPlatform m @ ''-'' @ targetArch m])
    \<and> ((targetPlatform m \<notin> {''darwin'', ''linux'', ''win32''} \<or> targetArch m \<notin> {''x64'', ''arm64''})
          \<and> targetPlatform m \<notin> set object_prototype_keys \<longrightarrow>
        packageApplication nd m s =
          (Inr (), s\<lparr>trace := trace s @ [Log Info ''Packaging application...'',
             Log Err (''Unsupported platform/arch combination: '' @ targetPlatform m @ ''/'' @ targetArch m)]\<rparr>))
    \<and> (command_arg nd = ''all'' \<longrightarrow>
        (targetPlatform m \<notin> {''darwin'', ''linux'', ''win32''} \<or> targetArch m \<notin> {''x64'', ''arm64''}) \<longrightarrow>
        targetPlatform m \<notin> set object_prototype_keys \<longrightarrow>
        succeeded (fst (syncWithUpstream nd m s0)) \<longrightarrow>
        succeeded (fst (installDependencies nd m s1)) \<longrightarrow>
        succeeded (fst (buildCursorClone nd m s2)) \<longrightarrow>
          spawned (trace s3) = spawned (trace s1) @
             [''npm install'', ''npm run clean'', ''npm run compile'', ''npm run compile-extensions'',
              ''npm run download-builtin-extensions'']
          \<and> (\<not> skipSync m \<longrightarrow> prefix (spawned (trace s0) @ [''git fetch upstream'']) (spawned (trace s1)))
          \<and> packageApplication nd m s3 = (Inr (), s3')
          \<and> prefix (steps_entered (trace s0) @ [Sync, Install, Build, Package, Archive])
               (steps_entered (trace (snd (run nd m s0))))
          \<and> fst (run nd m s0) =
               (if isl (fst (bind (createArchive nd m) (\<lambda>_. validateBuild nd m) s3')) then 1 else 0))"
  unfolding s1_def s2_def s3_def s3'_def
proof (intro conjI impI)
  show "targetPlatform (constructor nd) = getPlatformArg nd"
    and "targetArch (constructor nd) = getArchArg nd"
    by (rule constructor_takes_argument)+
  show "targetPlatform (constructor nd) = argv nd ! (i + 1)"
    if "indexOf (argv nd) ''--platform'' = Some i" "truthy_at (argv nd) (i + 1)"
    using that by (rule constructor_takes_argument)
  show "targetArch (constructor nd) = argv nd ! (j + 1)"
    if "indexOf (argv nd) ''--arch'' = Some j" "truthy_at (argv nd) (j + 1)"
    using that by (rule constructor_takes_argument)
  show "syncWithUpstream nd (m\<lparr>targetPlatform := p, targetArch := a\<rparr>) = syncWithUpstream nd m"
    and "installDependencies nd (m\<lparr>targetPlatform := p, targetArch := a\<rparr>) = installDependencies nd m"
    and "buildCursorClone nd (m\<lparr>targetPlatform := p, targetArch := a\<rparr>) = buildCursorClone nd m"
    by (rule target_unused)+
  show "spawned (trace (snd (packageApplication nd m s))) =
      spawned (trace s) @ [''npm run gulp -- vscode-'' @ targetPlatform m @ ''-'' @ targetArch m]"
    if "targetPlatform m \<in> {''darwin'', ''linux'', ''win32''} \<and> targetArch m \<in> {''x64'', ''arm64''}"
    using that by (intro packageApplication_spawns) simp_all
  show "packageApplication nd m s =
          (Inr (), s\<lparr>trace := trace s @ [Log Info ''Packaging application...'',
             Log Err (''Unsupported platform/arch combination: '' @ targetPlatform m @ ''/'' @ targetArch m)]\<rparr>)"
    if "(targetPlatform m \<notin> {''darwin'', ''linux'', ''win32''} \<or> targetArch m \<notin> {''x64'', ''arm64''})
          \<and> targetPlatform m \<notin> set object_prototype_keys"
    using that by (intro packageApplication_unsupported) simp_all
next
  assume h: "command_arg nd = ''all''"
    "targetPlatform m \<notin> {''darwin'', ''linux'', ''win32''} \<or> targetArch m \<notin> {''x64'', ''arm64''}"
    "targetPlatform m \<notin> set object_prototype_keys"
    "succeeded (fst (syncWithUpstream nd m s0))"
    "succeeded (fst (installDependencies nd m (snd (syncWithUpstream nd m s0))))"
    "succeeded (fst (buildCursorClone nd m (snd (installDependencies nd m (snd (syncWithUpstream nd m s0))))))"
  note u = unsupported_run [OF h]
  show "spawned (trace (snd (buildCursorClone nd m (snd (installDependencies nd m (snd (syncWithUpstream nd m s0))))))) =
      spawned (trace (snd (syncWithUpstream nd m s0))) @
             [''npm install'', ''npm run clean'', ''npm run compile'', ''npm run compile-extensions'',
              ''npm run download-builtin-extensions'']"
    by (rule u(1))
  show "prefix (spawned (trace s0) @ [''git fetch upstream'']) (spawned (trace (snd (syncWithUpstream nd m s0))))"
    if "\<not> skipSync m"
    using that by (rule u(2))
  show "packageApplication nd m (snd (buildCursorClone nd m (snd (installDependencies nd m (snd (syncWithUpstream nd m s0)))))) =
      (Inr (), snd (buildCursorClone nd m (snd (installDependencies nd m (snd (syncWithUpstream nd m s0)))))
         \<lparr>trace := trace (snd (buildCursorClone nd m (snd (installDependencies nd m (snd (syncWithUpstream nd m s0)))))) @
            [Log Info ''Packaging application...'',
             Log Err (''Unsupported platform/arch combination: '' @ targetPlatform m @ ''/'' @ targetArch m)]\<rparr>)"
    by (rule u(3))
  show "prefix (steps_entered (trace s0) @ [Sync, Install, Build, Package, Archive])
               (steps_entered (trace (snd (run nd m s0))))"
    by (rule u(4))
  show "fst (run nd m s0) =
       (if isl (fst (bind (createArchive nd m) (\<lambda>_. validateBuild nd m)
          (snd (buildCursorClone nd m (snd (installDependencies nd m (snd (syncWithUpstream nd m s0)))))
         \<lparr>trace := trace (snd (buildCursorClone nd m (snd (installDependencies nd m (snd (syncWithUpstream nd m s0)))))) @
            [Log Info ''Packaging application...'',
             Log Err (''Unsupported platform/arch combination: '' @ targetPlatform m @ ''/'' @ targetArch m)]\<rparr>)))
        then 1 else 0)"
    by (rule u(5))
qed

theorem package_step_checks_support_witness:
  "targetPlatform (constructor c3_ok_node) = ''darwin''
   \<and> targetArch (constructor c3_ok_node) = ''arm64''
   \<and> spawned (trace (snd (packageApplication c3_ok_node (constructor c3_ok_node) init))) =
        [''npm run gulp -- vscode-darwin-arm64'']
   \<and> indexOf (argv c3_full) ''--platform'' = Some 3
   \<and> truthy_at (argv c3_full) (3 + 1)
   \<and> targetPlatform (constructor c3_full) = ''freebsd''
   \<and> targetArch (constructor c3_full) = ''x64''
   \<and> ''freebsd'' \<notin> {''darwin'', ''linux'', ''win32''}
   \<and> ''freebsd'' \<notin> set object_prototype_keys
   \<and> command_arg c3_full = ''all''
   \<and> packageApplication c3_full (constructor c3_full) init =
        (Inr (), \<lparr>world = (), trace = [Log Info ''Packaging application...'',
           Log Err ''Unsupported platform/arch combination: freebsd/x64'']\<rparr>)
   \<and> prefix [''git fetch upstream''] (spawned (trace (snd (syncWithUpstream c3_full (constructor c3_full) init))))
   \<and> prefix [Sync, Install, Build, Package, Archive]
        (steps_entered (trace (snd (run c3_full (constructor c3_full) init))))"
proof -
  let ?ok = "constructor c3_ok_node"
  let ?m = "constructor c3_full"
  have p1: "targetPlatform ?ok = ''darwin''" and a1: "targetArch ?ok = ''arm64''"
    by (simp_all add: c3_ok_node_def eval_defs)
  have ix: "indexOf (argv c3_full) ''--platform'' = Some 3"
    by (simp add: c3_full_def sample_node_def)
  have tr: "truthy_at (argv c3_full) (3 + 1)"
    by (simp add: c3_full_def sample_node_def truthy_at_def)
  have arg: "argv c3_full ! (3 + 1) = ''freebsd''"
    by (simp add: c3_full_def sample_node_def)
  have a2: "targetArch ?m = ''x64''"
    by (simp add: c3_full_def eval_defs)
  have k: "''freebsd'' \<notin> {''darwin'', ''linux'', ''win32''}" "''freebsd'' \<notin> set object_prototype_keys"
    by (simp_all add: object_prototype_keys_def)
  have all: "command_arg c3_full = ''all''"
    by (simp add: c3_full_def eval_defs)
  have sp: "\<And>c cwd io w. succeeded (fst (spawnSync c3_full c cwd io w))"
    by (simp add: c3_full_def sample_node_def succeeded_def)
  have quiet: "skipSync ?m \<or> \<not> isVerbose ?m" and sk: "\<not> skipSync ?m"
    by (simp_all add: c3_full_def sample_node_def constructor_def)
  have r1: "succeeded (fst (syncWithUpstream c3_full ?m init))"
    using runs_syncWithUpstream [OF sp quiet] by (rule yields_succeeded)
  have r2: "succeeded (fst (installDependencies c3_full ?m (snd (syncWithUpstream c3_full ?m init))))"
    using runs_installDependencies [OF sp] by (rule yields_succeeded)
  have r3: "succeeded (fst (buildCursorClone c3_full ?m
      (snd (installDependencies c3_full ?m (snd (syncWithUpstream c3_full ?m init))))))"
    using runs_buildCursorClone [OF sp] by (rule yields_succeeded)
  note ok = package_step_checks_support [where nd = c3_ok_node and m = ?ok and s = init]
  note t = package_step_checks_support [where nd = c3_full and m = ?m and s = init and ?s0.0 = init
      and i = 3]
  have "targetPlatform ?m = argv c3_full ! (3 + 1)"
    using ix tr by (rule t [THEN conjunct2, THEN conjunct2, THEN conjunct1, rule_format])
  then have p2: "targetPlatform ?m = ''freebsd''"
    by (simp only: arg)
  have bad: "targetPlatform ?m \<notin> {''darwin'', ''linux'', ''win32''} \<or> targetArch ?m \<notin> {''x64'', ''arm64''}"
    and own: "targetPlatform ?m \<notin> set object_prototype_keys"
    using p2 k by simp_all
  have e: "spawned (trace init) = []" "steps_entered (trace init) = []" "trace init = []"
    "steps_entered ([] :: event list) = []"
    by (simp_all add: init_def steps_entered_def map_filter_def)
  have sup: "targetPlatform ?ok \<in> {''darwin'', ''linux'', ''win32''} \<and> targetArch ?ok \<in> {''x64'', ''arm64''}"
    by (simp add: p1 a1)
  have "spawned (trace (snd (packageApplication c3_ok_node ?ok init))) =
      spawned (trace init) @ [''npm run gulp -- vscode-'' @ targetPlatform ?ok @ ''-'' @ targetArch ?ok]"
    using sup
    by (rule ok [THEN conjunct2, THEN conjunct2, THEN conjunct2, THEN conjunct2, THEN conjunct2,
          THEN conjunct2, THEN conjunct2, THEN conjunct1, rule_format])
  then have w1: "spawned (trace (snd (packageApplication c3_ok_node ?ok init))) = [''npm run gulp -- vscode-darwin-arm64'']"
    by (simp add: p1 a1 e)
  have "packageApplication c3_full ?m init =
        (Inr (), init\<lparr>trace := trace init @ [Log Info ''Packaging application...'',
           Log Err (''Unsupported platform/arch combination: '' @ targetPlatform ?m @ ''/'' @ targetArch ?m)]\<rparr>)"
    using conjI [OF bad own]
    by (rule t [THEN conjunct2, THEN conjunct2, THEN conjunct2, THEN conjunct2, THEN conjunct2,
          THEN conjunct2, THEN conjunct2, THEN conjunct2, THEN conjunct1, rule_format])
  then have w2: "packageApplication c3_full ?m init =
        (Inr (), \<lparr>world = (), trace = [Log Info ''Packaging application...'',
           Log Err ''Unsupported platform/arch combination: freebsd/x64'']\<rparr>)"
    by (simp add: p2 a2 init_def)
  note run = t [THEN conjunct2, THEN conjunct2, THEN conjunct2, THEN conjunct2, THEN conjunct2,
          THEN conjunct2, THEN conjunct2, THEN conjunct2, THEN conjunct2, rule_format,
          OF all bad own r1 r2 r3]
  have "prefix (spawned (trace init) @ [''git fetch upstream''])
      (spawned (trace (snd (syncWithUpstream c3_full ?m init))))"
    using sk by (rule run [THEN conjunct2, THEN conjunct1, rule_format])
  then have w3: "prefix [''git fetch upstream''] (spawned (trace (snd (syncWithUpstream c3_full ?m init))))"
    by (simp add: e)
  have "prefix (steps_entered (trace init) @ [Sync, Install, Build, Package, Archive])
        (steps_entered (trace (snd (run c3_full ?m init))))"
    by (rule run [THEN conjunct2, THEN conjunct2, THEN conjunct2, THEN conjunct1])
  then have w4: "prefix [Sync, Install, Build, Package, Archive]
        (steps_entered (trace (snd (run c3_full ?m init))))"
    by (simp add: e)
  show ?thesis
    using p1 a1 w1 ix tr p2 a2 k all w2 w3 w4 by blast
qed

text \<open>
  Claim C4 as stated fails: with a failing \<open>npm install\<close> the call ends in the thrown
  error, not in a returned result.
\<close>

theorem execCommand_throws_counterexample:
  "fst (execCommand (sample_node [''install''] [''npm install''] [] branded)
        (constructor (sample_node [''install''] [''npm install''] [] branded)) ''npm install'' init)
     = Inl (JsError ''Command failed: npm install'')"
  by (simp add: execCommand_def try_catch_def execSync_def throw_def sample_node_def constructor_def init_def)

text \<open>
  Claim C4, as the code has it: when the child process exits with a non-zero status or
  cannot be spawned, \<open>execCommand\<close> does not return a result. In both build scripts it
  logs the command and the failure and then throws the same error again to its caller.
\<close>

theorem execCommand_rethrows:
  assumes "spawnSync nd command (rootDir m) (if isVerbose m then Inherit else Pipe) (world s) = (Inl error, w')"
  shows "execCommand nd m command s =
      (Inl error, \<lparr>world = w', trace = trace s @ [Log Info (''Executing: '' @ command), Spawn command,
         Log Err (''Command failed: '' @ message error)]\<rparr>)
    \<and> execCommand_flags nd m command s =
      (Inl error, \<lparr>world = w', trace = trace s @ [Log Info (''Executing: '' @ command), Spawn command,
         Log Err (''Command failed: '' @ command), Log Err (message error)]\<rparr>)"
  using execCommand_fail [OF assms] execCommand_flags_fail [OF assms] by simp

theorem execCommand_rethrows_witness:
  "spawnSync (sample_node [''install''] [''npm install''] [] branded) ''npm install''
      (rootDir (constructor (sample_node [''install''] [''npm install''] [] branded)))
      (if isVerbose (constructor (sample_node [''install''] [''npm install''] [] branded)) then Inherit else Pipe)
      (world init) = (Inl (JsError ''Command failed: npm install''), ())
   \<and> execCommand (sample_node [''install''] [''npm install''] [] branded)
        (constructor (sample_node [''install''] [''npm install''] [] branded)) ''npm install'' init =
      (Inl (JsError ''Command failed: npm install''),
       \<lparr>world = (), trace = [Log Info ''Executing: npm install'', Spawn ''npm install'',
          Log Err ''Command failed: Command failed: npm install'']\<rparr>)"
proof -
  have h: "spawnSync (sample_node [''install''] [''npm install''] [] branded) ''npm install''
      (rootDir (constructor (sample_node [''install''] [''npm install''] [] branded)))
      (if isVerbose (constructor (sample_node [''install''] [''npm install''] [] branded)) then Inherit else Pipe)
      (world init) = (Inl (JsError ''Command failed: npm install''), ())"
    by (simp add: sample_node_def)
  show ?thesis
    using h execCommand_rethrows [OF h] by (simp add: init_def)
qed

text \<open>
  Claim C5 as stated fails: with target linux/arm64 and every child process succeeding,
  the run exits with code 1 when the release directory cannot be made. The archive
  step throws, and the validate step is never entered.
\<close>

theorem full_pipeline_counterexample:
  "main c5_mkdir_fails init =
     (1, \<lparr>world = (), trace =
        [Log Info ''Skipping upstream sync as requested'',
         Log Info ''Installing dependencies...'',
         Log Info ''Executing: npm install'', Spawn ''npm install'',
         Log Info ''Dependencies installed'',
         Log Info ''Building CursorClone...'',
         Log Info ''Executing: npm run clean'', Spawn ''npm run clean'',
         Log Info ''Executing: npm run compile'', Spawn ''npm run compile'',
         Log Info ''Executing: npm run compile-extensions'', Spawn ''npm run compile-extensions'',
         Log Info ''Executing: npm run download-builtin-extensions'',
         Spawn ''npm run download-builtin-extensions'',
         Log Info ''CursorClone build completed'',
         Log Info ''Packaging application...'',
         Log Info ''Executing: npm run gulp -- vscode-linux-arm64'',
         Spawn ''npm run gulp -- vscode-linux-arm64'',
         Log Info ''Application packaged successfully'',
         Log Info ''Creating archive...'',
         Log Err ''Build failed: EEXIST: file already exists, mkdir /repo/releases'']\<rparr>)"
  by (simp add: c5_mkdir_fails_def eval_defs2 branded_def)

text \<open>
  Claim C5, as the code has it. \<open>execCommand\<close> logs a \<open>Command failed\<close> line exactly when
  its child process fails (a non-zero exit or a failure to start). Take a run of \<open>all\<close>
  for the target linux/arm64 in which no child process that the run starts fails, with
  the output of the child processes captured (no \<open>--verbose\<close>) or the sync step skipped.
  If, when the archive step starts, \<open>package.json\<close> can be loaded and has a printable
  version and the release directory can be made, and, when the validate step starts,
  \<open>product.json\<close> can be read, then the run enters the six steps in the order sync,
  install, build, package, archive, validate, starts the packaging command of the
  target, ends with the line that the pipeline has finished, and exits with code 0.
\<close>

theorem full_pipeline_succeeds:
  fixes nd :: "'w node" and s t :: "'w state" and c v :: string and pkg ver product an :: jsval
  defines "m \<equiv> constructor nd"
  defines "s4 \<equiv> snd (packageApplication nd m (snd (buildCursorClone nd m
               (snd (installDependencies nd m (snd (syncWithUpstream nd m s)))))))"
  defines "s5 \<equiv> snd (createArchive nd m s4)"
  defines "archivePath \<equiv> path_join nd [rootDir m, ''releases'', ''CursorClone-'' @ v @ ''-linux-arm64.tar.gz'']"
  shows "(list_ex command_failure (drop (length (trace t)) (trace (snd (execCommand nd m c t)))) =
           (\<not> succeeded (fst (spawnSync nd c (rootDir m) (if isVerbose m then Inherit else Pipe) (world t)))))
    \<and> (command_arg nd = ''all'' \<longrightarrow>
       getPlatformArg nd = ''linux'' \<longrightarrow>
       getArchArg nd = ''arm64'' \<longrightarrow>
       ''--skip-sync'' \<in> set (argv nd) \<or> ''--verbose'' \<notin> set (argv nd) \<longrightarrow>
       \<not> list_ex command_failure (drop (length (trace s)) (trace (snd (main nd s)))) \<longrightarrow>
       require_json nd ''./package.json'' (world s4) = Inr pkg \<longrightarrow>
       get_prop pkg ''version'' = Inr ver \<longrightarrow>
       js_to_string ver = Inr v \<longrightarrow>
       succeeded (fst (mkdirSync nd (path_dirname nd archivePath) (world s4))) \<longrightarrow>
       read_json nd (path_join nd [rootDir m, ''product.json'']) (world s5) = Inr product \<longrightarrow>
       get_prop product ''applicationName'' = Inr an \<longrightarrow>
         fst (main nd s) = 0
         \<and> steps_entered (trace (snd (main nd s))) =
             steps_entered (trace s) @ [Sync, Install, Build, Package, Archive, Validate]
         \<and> ''npm run gulp -- vscode-linux-arm64'' \<in> set (spawned (trace (snd (main nd s))))
         \<and> last (trace (snd (main nd s))) = Log Info ''Complete build pipeline finished'')"
proof (intro conjI impI)
  show "list_ex command_failure (drop (length (trace t)) (trace (snd (execCommand nd m c t)))) =
           (\<not> succeeded (fst (spawnSync nd c (rootDir m) (if isVerbose m then Inherit else Pipe) (world t))))"
    by (rule execCommand_logs_failure)
next
  assume h: "command_arg nd = ''all''"
    "getPlatformArg nd = ''linux''"
    "getArchArg nd = ''arm64''"
    "''--skip-sync'' \<in> set (argv nd) \<or> ''--verbose'' \<notin> set (argv nd)"
    "\<not> list_ex command_failure (drop (length (trace s)) (trace (snd (main nd s))))"
    "require_json nd ''./package.json'' (world s4) = Inr pkg"
    "get_prop pkg ''version'' = Inr ver"
    "js_to_string ver = Inr v"
    "succeeded (fst (mkdirSync nd (path_dirname nd archivePath) (world s4)))"
    "read_json nd (path_join nd [rootDir m, ''product.json'']) (world s5) = Inr product"
    "get_prop product ''applicationName'' = Inr an"
  note r = full_run [OF m_def s4_def s5_def archivePath_def h]
  show "fst (main nd s) = 0"
    by (rule r(1))
  show "steps_entered (trace (snd (main nd s))) =
             steps_entered (trace s) @ [Sync, Install, Build, Package, Archive, Validate]"
    by (rule r(2))
  show "''npm run gulp -- vscode-linux-arm64'' \<in> set (spawned (trace (snd (main nd s))))"
    by (rule r(3))
  show "last (trace (snd (main nd s))) = Log Info ''Complete build pipeline finished''"
    by (rule r(4))
qed

theorem full_pipeline_succeeds_witness:
  "command_arg c5_node = ''all'' \<and> getPlatformArg c5_node = ''linux'' \<and> getArchArg c5_node = ''arm64''
   \<and> ''--verbose'' \<notin> set (argv c5_node)
   \<and> \<not> list_ex command_failure (drop (length (trace init)) (trace (snd (main c5_node init))))
   \<and> fst (main c5_node init) = 0
   \<and> steps_entered (trace (snd (main c5_node init))) = [Sync, Install, Build, Package, Archive, Validate]
   \<and> ''npm run gulp -- vscode-linux-arm64'' \<in> set (spawned (trace (snd (main c5_node init))))
   \<and> last (trace (snd (main c5_node init))) = Log Info ''Complete build pipeline finished''"
proof -
  have h1: "command_arg c5_node = ''all''"
    by (simp add: c5_node_def eval_defs)
  have h2: "getPlatformArg c5_node = ''linux''"
    by (simp add: c5_node_def eval_defs)
  have h3: "getArchArg c5_node = ''arm64''"
    by (simp add: c5_node_def eval_defs)
  have v: "''--verbose'' \<notin> set (argv c5_node)"
    by (simp add: c5_node_def sample_node_def)
  then have h4: "''--skip-sync'' \<in> set (argv c5_node) \<or> ''--verbose'' \<notin> set (argv c5_node)" ..
  have h5: "\<not> list_ex command_failure (drop (length (trace init)) (trace (snd (main c5_node init))))"
    by (simp add: c5_node_def eval_defs2 branded_def trim_main command_failure_def)
  have h6: "require_json c5_node ''./package.json'' w = Inr (JObj [(''version'', JStr ''1.0.0'')])" for w
    by (simp add: c5_node_def sample_node_def)
  have h7: "get_prop (JObj [(''version'', JStr ''1.0.0'')]) ''version'' = Inr (JStr ''1.0.0'')"
    by simp
  have h8: "js_to_string (JStr ''1.0.0'') = Inr ''1.0.0''"
    by simp
  have h9: "succeeded (fst (mkdirSync c5_node p w))" for p w
    by (simp add: c5_node_def sample_node_def succeeded_def)
  have h10: "read_json c5_node p w = Inr branded" for p w
    by (simp add: c5_node_def sample_node_def)
  have h11: "get_prop branded ''applicationName'' = Inr (JStr ''cursorclone'')"
    by (simp add: branded_def)
  have e: "steps_entered (trace init) = []"
    by (simp add: init_def steps_entered_def map_filter_def)
  note t = full_pipeline_succeeds [where nd = c5_node and s = init, THEN conjunct2, rule_format,
      OF h1 h2 h3 h4 h5 h6 h7 h8 h9 h10 h11]
  show ?thesis
    using t v h1 h2 h3 h5 e by simp
qed

text \<open>
  Claim C6: with \<open>--skip-sync\<close> among the arguments the sync step only logs that it is
  skipped: it returns in the same world and starts no child process. In a run of
  \<open>all\<close> the next events are the opening of the install step and its \<open>npm install\<close>,
  the first child process of the run.
\<close>

theorem skip_sync_spawns_nothing:
  assumes "''--skip-sync'' \<in> set (argv nd)"
  shows "syncWithUpstream nd (constructor nd) s =
      (Inr (), s\<lparr>trace := trace s @ [Log Info ''Skipping upstream sync as requested'']\<rparr>)
    \<and> (command_arg nd = ''all'' \<longrightarrow>
        prefix (trace s @ [Log Info ''Skipping upstream sync as requested'',
                  Log Info ''Installing dependencies...'', Log Info ''Executing: npm install'',
                  Spawn ''npm install''])
          (trace (snd (main nd s))))"
proof -
  let ?m = "constructor nd"
  let ?s1 = "s\<lparr>trace := trace s @ [Log Info ''Skipping upstream sync as requested'']\<rparr>"
  have skip: "skipSync ?m" using assms by (simp add: constructor_def)
  have sync: "syncWithUpstream nd ?m s = (Inr (), ?s1)"
    using skip by (simp add: syncWithUpstream_def log_def)
  have "prefix (trace s @ [Log Info ''Skipping upstream sync as requested'',
                  Log Info ''Installing dependencies...'', Log Info ''Executing: npm install'',
                  Spawn ''npm install''])
          (trace (snd (main nd s)))" if all: "command_arg nd = ''all''"
  proof -
    let ?rest = "\<lambda>_::unit. bind (buildCursorClone nd ?m) (\<lambda>_.
       bind (packageApplication nd ?m) (\<lambda>_.
       bind (createArchive nd ?m) (\<lambda>_.
       bind (validateBuild nd ?m) (\<lambda>_.
       log ''Complete build pipeline finished'' Info))))"
    have rest: "\<And>x. emits (\<lambda>_. True) (?rest x)"
      by (intro emits_bind any_buildCursorClone any_packageApplication any_createArchive
          any_validateBuild any_log)
    have "run_all nd ?m s = bind (installDependencies nd ?m) ?rest ?s1"
      using sync by (simp add: run_all_def bind_def)
    then have "prefix (trace (snd (installDependencies nd ?m ?s1))) (trace (snd (run_all nd ?m s)))"
      using bind_extends [where f = ?rest and m = "installDependencies nd ?m" and s = ?s1, OF rest]
      by simp
    moreover have "prefix (trace ?s1 @ [Log Info ''Installing dependencies...'',
        Log Info ''Executing: npm install'', Spawn ''npm install''])
        (trace (snd (installDependencies nd ?m ?s1)))"
      by (rule installDependencies_starts)
    moreover have "prefix (trace (snd (run_all nd ?m s))) (trace (snd (main nd s)))"
      using run_extends [of nd ?m s] all by (simp add: main_def run_switch_def)
    ultimately have "prefix (trace ?s1 @ [Log Info ''Installing dependencies...'',
        Log Info ''Executing: npm install'', Spawn ''npm install'']) (trace (snd (main nd s)))"
      by (meson prefix_order.trans)
    then show ?thesis by simp
  qed
  with sync show ?thesis by blast
qed

theorem skip_sync_spawns_nothing_witness:
  "''--skip-sync'' \<in> set (argv c6_node) \<and> command_arg c6_node = ''all''
   \<and> syncWithUpstream c6_node (constructor c6_node) init =
      (Inr (), \<lparr>world = (), trace = [Log Info ''Skipping upstream sync as requested'']\<rparr>)
   \<and> prefix [Log Info ''Skipping upstream sync as requested'',
                  Log Info ''Installing dependencies...'', Log Info ''Executing: npm install'',
                  Spawn ''npm install'']
          (trace (snd (main c6_node init)))"
proof -
  have h: "''--skip-sync'' \<in> set (argv c6_node)"
    by (simp add: c6_node_def sample_node_def)
  have a: "command_arg c6_node = ''all''"
    by (simp add: c6_node_def eval_defs)
  show ?thesis
    using skip_sync_spawns_nothing [OF h, of init] h a by (simp add: init_def)
qed

text \<open>
  Claim C7 as stated fails: with \<open>nameShort\<close> left at \<open>Code - OSS\<close> the validate step of the
  pipeline reports nothing and passes.
\<close>

theorem validate_step_counterexample:
  "validateBuild c7_passing (constructor c7_passing) init =
     (Inr True, \<lparr>world = (), trace = [Log Info ''Validating build...'',
         Log Info ''Build validation passed'']\<rparr>)"
  by (simp add: c7_passing_def eval_defs2)

text \<open>
  Claim C7, as the code has it. The branding validator \<open>validateProductJson\<close> reports
  each of the four expected fields that differs, in an error line that names the field,
  the expected value and the actual value, and returns false. The validate step of the
  pipeline compares \<open>applicationName\<close> alone and logs one general line. No other step of
  the pipeline reads \<open>product.json\<close>: replacing what reading it gives leaves the sync,
  install, build, package and archive steps as they are.
\<close>

theorem branding_mismatch_reported:
  fixes nd :: "'w node" and s :: "'w state"
  assumes "existsSync nd (path_join nd [dirname nd, ''product.json'']) (world s)"
    and "read_json nd (path_join nd [dirname nd, ''product.json'']) (world s) = Inr product"
    and "\<And>k e. (k, e) \<in> set expectedValues \<Longrightarrow> \<exists>a got. get_prop product k = Inr a \<and> js_to_string a = Inr got"
    and "(key, expectedValue) \<in> set expectedValues"
    and "get_prop product key = Inr actual"
    and "actual \<noteq> JStr expectedValue"
    and "js_to_string actual = Inr got"
    and "list_all (\<lambda>file. existsSync nd (path_join nd [rootDir m, file]) (world t)) requiredFiles"
    and "read_json nd (path_join nd [rootDir m, ''product.json'']) (world t) = Inr productJson"
    and "get_prop productJson ''applicationName'' = Inr applicationName"
  shows "fst (validateProductJson nd s) = False
    \<and> Log Err (''product.json '' @ key @ '': expected '' @ squote @ expectedValue @ squote
           @ '', got '' @ squote @ got @ squote) \<in> set (trace (snd (validateProductJson nd s)))
    \<and> validateBuild nd m t =
       (Inr (applicationName = JStr ''cursorclone''),
        t\<lparr>trace := trace t @ [Log Info ''Validating build...'',
           if applicationName = JStr ''cursorclone'' then Log Info ''Build validation passed''
           else Log Err ''Product configuration validation failed'']\<rparr>)
    \<and> syncWithUpstream (nd\<lparr>read_json := f\<rparr>) m = syncWithUpstream nd m
    \<and> installDependencies (nd\<lparr>read_json := f\<rparr>) m = installDependencies nd m
    \<and> buildCursorClone (nd\<lparr>read_json := f\<rparr>) m = buildCursorClone nd m
    \<and> packageApplication (nd\<lparr>read_json := f\<rparr>) m = packageApplication nd m
    \<and> createArchive (nd\<lparr>read_json := f\<rparr>) m = createArchive nd m"
proof -
  have v: "validateProductJson nd s =
     (list_all (entry_ok product) expectedValues,
      s\<lparr>trace := trace s @ map (report_line product) expectedValues\<rparr>)"
    using assms(1,2,3) by (rule validateProductJson_read)
  have "\<not> entry_ok product (key, expectedValue)"
    using assms(5,6) by (simp add: entry_ok_pair)
  with assms(4) have "\<not> list_all (entry_ok product) expectedValues"
    by (auto simp: list_all_iff)
  then have a: "fst (validateProductJson nd s) = False"
    by (simp add: v)
  have "report_line product (key, expectedValue) \<in> set (map (report_line product) expectedValues)"
    using assms(4) by (simp add: image_iff) blast
  then have b: "Log Err (''product.json '' @ key @ '': expected '' @ squote @ expectedValue @ squote
           @ '', got '' @ squote @ got @ squote) \<in> set (trace (snd (validateProductJson nd s)))"
    by (simp add: v report_line_mismatch [OF assms(5,6,7)])
  note c = validateBuild_read [OF assms(8,9,10)]
  show ?thesis
    using a b c by (simp add: read_json_unused)
qed

theorem branding_mismatch_reported_witness:
  "existsSync c7_node (path_join c7_node [dirname c7_node, ''product.json'']) (world init)
   \<and> (''nameShort'', ''CursorClone'') \<in> set expectedValues
   \<and> fst (validateProductJson c7_node init) = False
   \<and> Log Err (''product.json nameShort: expected '' @ squote @ ''CursorClone'' @ squote
           @ '', got '' @ squote @ ''Code - OSS'' @ squote) \<in> set (trace (snd (validateProductJson c7_node init)))
   \<and> validateBuild c7_node (constructor c7_node) init =
       (Inr False, \<lparr>world = (), trace = [Log Info ''Validating build...'',
           Log Err ''Product configuration validation failed'']\<rparr>)"
proof -
  let ?p = "JObj [(''nameShort'', JStr ''Code - OSS''),
            (''applicationName'', JStr ''code-oss''),
            (''dataFolderName'', JStr ''.cursorclone''),
            (''serverDataFolderName'', JStr ''.cursorclone-server'')]"
  have h1: "existsSync c7_node (path_join c7_node [dirname c7_node, ''product.json'']) (world init)"
    by (simp add: c7_node_def sample_node_def)
  have h2: "read_json c7_node (path_join c7_node [dirname c7_node, ''product.json'']) (world init) = Inr ?p"
    by (simp add: c7_node_def sample_node_def)
  have h3: "\<And>k e. (k, e) \<in> set expectedValues \<Longrightarrow> \<exists>a got. get_prop ?p k = Inr a \<and> js_to_string a = Inr got"
    by (auto simp: expectedValues_def)
  have h4: "(''nameShort'', ''CursorClone'') \<in> set expectedValues"
    by (simp add: expectedValues_def)
  have h5: "get_prop ?p ''nameShort'' = Inr (JStr ''Code - OSS'')"
    by simp
  have h6: "JStr ''Code - OSS'' \<noteq> JStr ''CursorClone''"
    by simp
  have h7: "js_to_string (JStr ''Code - OSS'') = Inr ''Code - OSS''"
    by simp
  have h8: "list_all (\<lambda>file. existsSync c7_node
        (path_join c7_node [rootDir (constructor c7_node), file]) (world init)) requiredFiles"
    by (simp add: c7_node_def sample_node_def constructor_def requiredFiles_def)
  have h9: "read_json c7_node (path_join c7_node [rootDir (constructor c7_node), ''product.json''])
        (world init) = Inr ?p"
    by (simp add: c7_node_def sample_node_def)
  have h10: "get_prop ?p ''applicationName'' = Inr (JStr ''code-oss'')"
    by simp
  show ?thesis
    using branding_mismatch_reported [OF h1 h2 h3 h4 h5 h6 h7 h8 h9 h10] h1 h4
    by (simp add: init_def)
qed

text \<open>
  Claim C8: when a first call of \<open>execCommand\<close> leaves the world outside the process as it
  found it, a second call with the same command succeeds exactly if the first one did.
  The manager keeps nothing between calls: only the trace has grown. The same holds for
  the flag-driven script.
\<close>

theorem execCommand_repeatable:
  assumes "execCommand nd m command s = (r1, s1)"
    and "world s1 = world s"
    and "execCommand nd m command s1 = (r2, s2)"
    and "execCommand_flags nd m command' t = (q1, t1)"
    and "world t1 = world t"
    and "execCommand_flags nd m command' t1 = (q2, t2)"
  shows "succeeded r2 = succeeded r1 \<and> succeeded q2 = succeeded q1"
proof -
  have "r1 = fst (execCommand nd m command s)" "r2 = fst (execCommand nd m command s1)"
    using assms by simp_all
  then have r: "r2 = r1" using assms(2) by (simp add: execCommand_result)
  have "q1 = fst (execCommand_flags nd m command' t)" "q2 = fst (execCommand_flags nd m command' t1)"
    using assms by simp_all
  then have "q2 = q1" using assms(5) by (simp add: execCommand_flags_result)
  with r show ?thesis by simp
qed

theorem execCommand_repeatable_witness:
  "execCommand c8_node (constructor c8_node) ''npm test'' init =
     (Inl (JsError ''Command failed: npm test''),
      \<lparr>world = (), trace = [Log Info ''Executing: npm test'', Spawn ''npm test'',
         Log Err ''Command failed: Command failed: npm test'']\<rparr>)
   \<and> world \<lparr>world = (), trace = [Log Info ''Executing: npm test'', Spawn ''npm test'',
         Log Err ''Command failed: Command failed: npm test'']\<rparr> = world init
   \<and> execCommand c8_node (constructor c8_node) ''npm test''
       \<lparr>world = (), trace = [Log Info ''Executing: npm test'', Spawn ''npm test'',
         Log Err ''Command failed: Command failed: npm test'']\<rparr> =
     (Inl (JsError ''Command failed: npm test''),
      \<lparr>world = (), trace = [Log Info ''Executing: npm test'', Spawn ''npm test'',
         Log Err ''Command failed: Command failed: npm test'', Log Info ''Executing: npm test'',
         Spawn ''npm test'', Log Err ''Command failed: Command failed: npm test'']\<rparr>)
   \<and> execCommand_flags c8_node (constructor c8_node) ''npm install'' init =
     (Inr (JStr ''main''),
      \<lparr>world = (), trace = [Log Info ''Executing: npm install'', Spawn ''npm install'']\<rparr>)
   \<and> world \<lparr>world = (), trace = [Log Info ''Executing: npm install'', Spawn ''npm install'']\<rparr>
        = world init
   \<and> execCommand_flags c8_node (constructor c8_node) ''npm install''
        \<lparr>world = (), trace = [Log Info ''Executing: npm install'', Spawn ''npm install'']\<rparr> =
     (Inr (JStr ''main''),
      \<lparr>world = (), trace = [Log Info ''Executing: npm install'', Spawn ''npm install'',
         Log Info ''Executing: npm install'', Spawn ''npm install'']\<rparr>)
   \<and> succeeded (Inl (JsError ''Command failed: npm test'') :: js_error + jsval)
       = succeeded (Inl (JsError ''Command failed: npm test'') :: js_error + jsval)
   \<and> succeeded (Inr (JStr ''main'') :: js_error + jsval) = succeeded (Inr (JStr ''main'') :: js_error + jsval)"
proof -
  let ?m = "constructor c8_node"
  let ?s1 = "\<lparr>world = (), trace = [Log Info ''Executing: npm test'', Spawn ''npm test'',
         Log Err ''Command failed: Command failed: npm test'']\<rparr>"
  let ?s2 = "\<lparr>world = (), trace = [Log Info ''Executing: npm test'', Spawn ''npm test'',
         Log Err ''Command failed: Command failed: npm test'', Log Info ''Executing: npm test'',
         Spawn ''npm test'', Log Err ''Command failed: Command failed: npm test'']\<rparr>"
  let ?t1 = "\<lparr>world = (), trace = [Log Info ''Executing: npm install'', Spawn ''npm install'']\<rparr>"
  let ?t2 = "\<lparr>world = (), trace = [Log Info ''Executing: npm install'', Spawn ''npm install'',
         Log Info ''Executing: npm install'', Spawn ''npm install'']\<rparr>"
  have h1: "execCommand c8_node ?m ''npm test'' init = (Inl (JsError ''Command failed: npm test''), ?s1)"
    by (simp add: c8_node_def eval_defs)
  have h2: "world ?s1 = world init" by (simp add: init_def)
  have h3: "execCommand c8_node ?m ''npm test'' ?s1 = (Inl (JsError ''Command failed: npm test''), ?s2)"
    by (simp add: c8_node_def eval_defs)
  have h4: "execCommand_flags c8_node ?m ''npm install'' init = (Inr (JStr ''main''), ?t1)"
    by (simp add: c8_node_def eval_defs execCommand_flags_def)
  have h5: "world ?t1 = world init" by (simp add: init_def)
  have h6: "execCommand_flags c8_node ?m ''npm install'' ?t1 = (Inr (JStr ''main''), ?t2)"
    by (simp add: c8_node_def eval_defs execCommand_flags_def)
  from execCommand_repeatable [OF h1 h2 h3 h4 h5 h6] h1 h2 h3 h4 h5 h6
  show ?thesis by blast
qed

text \<open>
  Claim C9: for the platforms linux and win32 the archive step takes its source
  directory from the platform alone, \<open>.build/VSCode-linux-x64\<close> or
  \<open>.build/VSCode-win32-x64\<close> under the root, whatever the architecture. The
  architecture only enters the archive's file name. When that directory exists and
  the release directory can be made, the step starts exactly one child process, the
  \<open>tar\<close> (linux) or \<open>zip\<close> (win32) command that archives that directory into the
  named file; otherwise it starts none.
\<close>

theorem archive_source_ignores_arch:
  fixes nd :: "'w node" and m :: build_manager and s :: "'w state" and v :: string
  defines "src \<equiv> path_join nd [path_join nd [rootDir m, ''.build''],
                    ''VSCode-'' @ targetPlatform m @ ''-x64'']"
  defines "name \<equiv> ''CursorClone-'' @ v @ ''-'' @ targetPlatform m @ ''-'' @ targetArch m
                    @ (if targetPlatform m = ''linux'' then ''.tar.gz'' else ''.zip'')"
  defines "archivePath \<equiv> path_join nd [rootDir m, ''releases'', name]"
  assumes platform: "targetPlatform m = ''linux'' \<or> targetPlatform m = ''win32''"
    and pkg: "require_json nd ''./package.json'' (world s) = Inr pkg"
    and ver: "get_prop pkg ''version'' = Inr ver"
    and v: "js_to_string ver = Inr v"
  shows "archive_target nd m ver = Inr (Some (name, src))
    \<and> map_sum id (map_option snd) (archive_target nd (m\<lparr>targetArch := a\<rparr>) ver) = Inr (Some src)
    \<and> spawned (trace (snd (createArchive nd m s))) =
        spawned (trace s) @
          (if existsSync nd src (world s)
              \<and> succeeded (fst (mkdirSync nd (path_dirname nd archivePath) (world s)))
           then [if targetPlatform m = ''linux''
                 then ''tar -czf '' @ dquote @ archivePath @ dquote @ '' -C '' @ dquote
                        @ path_dirname nd src @ dquote @ '' '' @ dquote @ path_basename nd src @ dquote
                 else ''cd '' @ dquote @ path_dirname nd src @ dquote @ '' && zip -r '' @ dquote
                        @ archivePath @ dquote @ '' '' @ dquote @ path_basename nd src @ dquote]
           else [])"
proof -
  have t: "archive_target nd m ver = Inr (Some (name, src))"
    unfolding src_def name_def using platform v by (rule archive_target_linux_win32)
  have "archive_target nd (m\<lparr>targetArch := a\<rparr>) ver =
      Inr (Some (''CursorClone-'' @ v @ ''-'' @ targetPlatform m @ ''-'' @ a
                    @ (if targetPlatform m = ''linux'' then ''.tar.gz'' else ''.zip''), src))"
    unfolding src_def
    using archive_target_linux_win32 [of "m\<lparr>targetArch := a\<rparr>" ver v nd] platform v by simp
  then have i: "map_sum id (map_option snd) (archive_target nd (m\<lparr>targetArch := a\<rparr>) ver) = Inr (Some src)"
    by simp
  note sp = createArchive_spawns [OF pkg ver t]
  show ?thesis
    using t i sp unfolding archivePath_def by simp
qed

theorem archive_source_ignores_arch_witness:
  "targetPlatform (constructor c9_node) = ''linux''
   \<and> targetArch (constructor c9_node) = ''arm64''
   \<and> archive_target c9_node (constructor c9_node) (JStr ''1.0.0'') =
        Inr (Some (''CursorClone-1.0.0-linux-arm64.tar.gz'', ''/repo/.build/VSCode-linux-x64''))
   \<and> map_sum id (map_option snd)
        (archive_target c9_node ((constructor c9_node)\<lparr>targetArch := ''x64''\<rparr>) (JStr ''1.0.0'')) =
        Inr (Some ''/repo/.build/VSCode-linux-x64'')
   \<and> spawned (trace (snd (createArchive c9_node (constructor c9_node) init))) =
        [''tar -czf '' @ dquote @ ''/repo/releases/CursorClone-1.0.0-linux-arm64.tar.gz'' @ dquote
           @ '' -C '' @ dquote @ ''/repo/.build'' @ dquote @ '' '' @ dquote @ ''VSCode-linux-x64'' @ dquote]
   \<and> targetPlatform (constructor c9_win32) = ''win32''
   \<and> targetArch (constructor c9_win32) = ''arm64''
   \<and> archive_target c9_win32 (constructor c9_win32) (JStr ''1.0.0'') =
        Inr (Some (''CursorClone-1.0.0-win32-arm64.zip'', ''/repo/.build/VSCode-win32-x64''))
   \<and> spawned (trace (snd (createArchive c9_win32 (constructor c9_win32) init))) =
        [''cd '' @ dquote @ ''/repo/.build'' @ dquote @ '' && zip -r '' @ dquote
           @ ''/repo/releases/CursorClone-1.0.0-win32-arm64.zip'' @ dquote @ '' '' @ dquote
           @ ''VSCode-win32-x64'' @ dquote]"
proof -
  let ?m = "constructor c9_node"
  let ?n = "constructor c9_win32"
  have p: "targetPlatform ?m = ''linux''" and a: "targetArch ?m = ''arm64''"
    and root: "rootDir ?m = ''/repo''" "path_join c9_node = sample_join"
      "path_dirname c9_node = sample_dirname" "path_basename c9_node = sample_basename"
    by (simp_all add: c9_node_def eval_defs)
  have q: "targetPlatform ?n = ''win32''" and b: "targetArch ?n = ''arm64''"
    and rootw: "rootDir ?n = ''/repo''" "path_join c9_win32 = sample_join"
      "path_dirname c9_win32 = sample_dirname" "path_basename c9_win32 = sample_basename"
    by (simp_all add: c9_win32_def eval_defs)
  have h1: "targetPlatform ?m = ''linux'' \<or> targetPlatform ?m = ''win32''"
    using p by simp
  have g1: "targetPlatform ?n = ''linux'' \<or> targetPlatform ?n = ''win32''"
    using q by simp
  have h2: "require_json c9_node ''./package.json'' (world init) = Inr (JObj [(''version'', JStr ''1.0.0'')])"
    by (simp add: c9_node_def sample_node_def)
  have g2: "require_json c9_win32 ''./package.json'' (world init) = Inr (JObj [(''version'', JStr ''1.0.0'')])"
    by (simp add: c9_win32_def sample_node_def)
  have h3: "get_prop (JObj [(''version'', JStr ''1.0.0'')]) ''version'' = Inr (JStr ''1.0.0'')"
    by simp
  have h4: "js_to_string (JStr ''1.0.0'') = Inr ''1.0.0''"
    by simp
  have x1: "existsSync c9_node ''/repo/.build/VSCode-linux-x64'' (world init)"
    "succeeded (fst (mkdirSync c9_node ''/repo/releases'' (world init)))"
    by (simp_all add: c9_node_def sample_node_def succeeded_def)
  have x2: "existsSync c9_win32 ''/repo/.build/VSCode-win32-x64'' (world init)"
    "succeeded (fst (mkdirSync c9_win32 ''/repo/releases'' (world init)))"
    by (simp_all add: c9_win32_def sample_node_def succeeded_def)
  have t: "trace init = []"
    by (simp add: init_def)
  note l = archive_source_ignores_arch [OF h1 h2 h3 h4, of "''x64''"]
  note w = archive_source_ignores_arch [OF g1 g2 h3 h4, of "''x64''"]
  show ?thesis
    using l w x1 x2
    by (simp add: p a root q b rootw t sample_dirname_def sample_basename_def dquote_def)
qed

text \<open>
  Claim C10: in the flag-driven script \<open>run\<close> validates the branding before anything
  else. When \<open>product.json\<close> is read and its \<open>nameShort\<close> is not \<open>CursorClone\<close> or its
  \<open>applicationName\<close> is not \<open>cursorclone\<close>, the validation throws, \<open>run\<close> logs the failure
  and exits with code 1. The world is untouched and no child process was started:
  neither sync, install, build nor package was attempted.
\<close>

theorem branding_checked_first:
  assumes "read_json nd ''product.json'' (world s) = Inr product"
    and "get_prop product ''nameShort'' \<noteq> Inr (JStr ''CursorClone'')
       \<or> get_prop product ''applicationName'' \<noteq> Inr (JStr ''cursorclone'')"
  shows "\<exists>e. run_flags nd m s =
      (1, s\<lparr>trace := trace s @ [Log Info (emoji_rocket @ '' Starting CursorClone build process...''),
          Log Info (emoji_glass @ '' Validating build...''),
          Log Err (emoji_cross @ '' Build failed!''), Log Err (message e)]\<rparr>)"
proof -
  let ?s1 = "s\<lparr>trace := trace s @ [Log Info (emoji_rocket @ '' Starting CursorClone build process...'')]\<rparr>"
  have "read_json nd ''product.json'' (world ?s1) = Inr product"
    using assms(1) by simp
  from validateBuild_flags_mismatch [OF this assms(2), of m]
  obtain e where "validateBuild_flags nd m ?s1 =
     (Inl e, ?s1\<lparr>trace := trace ?s1 @ [Log Info (emoji_glass @ '' Validating build...'')]\<rparr>)"
    by blast
  then have "run_flags nd m s =
      (1, s\<lparr>trace := trace s @ [Log Info (emoji_rocket @ '' Starting CursorClone build process...''),
          Log Info (emoji_glass @ '' Validating build...''),
          Log Err (emoji_cross @ '' Build failed!''), Log Err (message e)]\<rparr>)"
    by (simp add: run_flags_def run_flags_body_def bind_Inl log_def)
  then show ?thesis ..
qed

theorem branding_checked_first_witness:
  "read_json c10_node ''product.json'' (world init) =
     Inr (JObj [(''nameShort'', JStr ''Code - OSS''), (''applicationName'', JStr ''cursorclone'')])
   \<and> get_prop (JObj [(''nameShort'', JStr ''Code - OSS''), (''applicationName'', JStr ''cursorclone'')])
         ''nameShort'' = Inr (JStr ''Code - OSS'')
   \<and> Inr (JStr ''Code - OSS'') \<noteq> (Inr (JStr ''CursorClone'') :: js_error + jsval)
   \<and> fst (run_flags c10_node (constructor c10_node) init) = 1
   \<and> spawned (trace (snd (run_flags c10_node (constructor c10_node) init))) = []"
proof -
  let ?p = "JObj [(''nameShort'', JStr ''Code - OSS''), (''applicationName'', JStr ''cursorclone'')]"
  have h1: "read_json c10_node ''product.json'' (world init) = Inr ?p"
    by (simp add: c10_node_def sample_node_def)
  have h2: "get_prop ?p ''nameShort'' \<noteq> Inr (JStr ''CursorClone'')
       \<or> get_prop ?p ''applicationName'' \<noteq> Inr (JStr ''cursorclone'')"
    by simp
  from branding_checked_first [OF h1 h2, of "constructor c10_node"]
  obtain e where "run_flags c10_node (constructor c10_node) init =
      (1, init\<lparr>trace := trace init @ [Log Info (emoji_rocket @ '' Starting CursorClone build process...''),
          Log Info (emoji_glass @ '' Validating build...''),
          Log Err (emoji_cross @ '' Build failed!''), Log Err (message e)]\<rparr>)"
    by blast
  then have "fst (run_flags c10_node (constructor c10_node) init) = 1
     \<and> spawned (trace (snd (run_flags c10_node (constructor c10_node) init))) = []"
    by (simp add: init_def)
  then show ?thesis using h1 by simp
qed

end
